theory Spec2Isabelle
  imports Complex_Main "HOL-Library.Log_Nat"
begin

text \<open>
  The document generation of the pump service checklist: \<open>generatePDF\<close> turns the form, the
  checkboxes and the language into a pdfmake document definition and hands it to the
  rendering engine. The repository holds the function twice: in
  \<^verbatim>\<open>src/utils/generatePDF.ts\<close> (fifteen checklist items, sections kept unbreakable) and in
  \<^verbatim>\<open>src/unnamed/part_003\<close> (six checklist items, one flow with a title). Both are embedded
  here, with the browser and the rendering engine as a record of answers.
\<close>

section \<open>Strings, languages and bilingual pairs\<close>

text \<open>
  A JavaScript string is modelled by \<^typ>\<open>string\<close>: the list of the bytes of its UTF-8 encoding.
  Printable ASCII text is written as a literal; every other character of a source literal
  is given by its Unicode code point through \<open>utf8\<close> (Thai letters are U+0E01 to U+0E5B;
  U+00B0 is the degree sign, U+00B3 the superscript three, U+FFFD the replacement character
  that stands in two literals of the source files). Emptiness, concatenation and equality
  of strings are the same on code points and on their UTF-8 bytes, and the program uses
  nothing else of a string.
\<close>

definition utf8_cp :: "nat \<Rightarrow> string" where
  "utf8_cp c =
     (if c < 0x80 then [char_of c]
      else if c < 0x800 then [char_of (0xC0 + c div 64), char_of (0x80 + c mod 64)]
      else [char_of (0xE0 + c div 4096), char_of (0x80 + c div 64 mod 64),
            char_of (0x80 + c mod 64)])"

definition utf8 :: "nat list \<Rightarrow> string" where
  "utf8 cs = concat (map utf8_cp cs)"

text \<open>The parameter type \<open>'en' | 'th'\<close> of \<open>generatePDF\<close>.\<close>

datatype language = En | Th

text \<open>An object literal \<open>{ en: ..., th: ... }\<close>, and the lookup \<open>pair[language]\<close>.\<close>

record bilingual =
  en :: string
  th :: string

definition sel :: "bilingual \<Rightarrow> language \<Rightarrow> string" where
  "sel pair language = (case language of En \<Rightarrow> en pair | Th \<Rightarrow> th pair)"

text \<open>
  Truthiness of a string (the empty string is falsy), the operator \<open>a || b\<close> on strings,
  and truthiness of the optional field \<open>training_hours?: string\<close> (\<open>undefined\<close> is falsy).
\<close>

definition truthy :: "string \<Rightarrow> bool" where
  "truthy s = (s \<noteq> [])"

definition js_or :: "string \<Rightarrow> string \<Rightarrow> string" where
  "js_or a b = (if truthy a then a else b)"

section \<open>The inputs: form data and checkboxes\<close>

record FormData =
  company :: string
  site_location :: string
  contact_person :: string
  department :: string
  phone :: string
  email :: string
  pump_model :: string
  serial_number :: string
  manufacture_year :: string
  operating_hours :: string
  last_service_date :: string
  installation_date :: string
  temperature :: string
  flow_rate :: string
  suction_pressure :: string
  discharge_pressure :: string
  total_head :: string
  pumped_medium :: string
  service_reason :: string
  training_hours :: "string option"

text \<open>
  \<open>interface Checkboxes\<close> has six flags in \<^verbatim>\<open>src/unnamed/part_003\<close> and the same six followed
  by nine more in \<^verbatim>\<open>src/utils/generatePDF.ts\<close>: the second record extends the first.
\<close>

record Checkboxes_p3 =
  system_flush :: bool
  safety_training :: bool
  harmless_form :: bool
  sds :: bool
  alignment_report :: bool
  operation_records :: bool

record Checkboxes = Checkboxes_p3 +
  power_isolated :: bool
  valves_locked :: bool
  pump_drained :: bool
  auxiliary_disconnected :: bool
  coupling_guard_removed :: bool
  coupling_disconnected :: bool
  pump_cleaned :: bool
  openings_protected :: bool
  photos_taken :: bool

section \<open>The document definition handed to the rendering engine\<close>

text \<open>
  The declarative tree of pdfmake, restricted to the node kinds and properties the two
  composers write. A property an object literal does not set is \<open>None\<close>. Numbers are
  \<^typ>\<open>real\<close>: the numeric literals of the source, on which the composers do no arithmetic.
\<close>

datatype Size = SizeNum real | SizeAuto | SizeStar

datatype CanvasElement =
    CanvasRect real real real real real string
  | CanvasLine real real real real real string
  | CanvasFilledRect real real real real real string

text \<open>
  \<open>CanvasRect x y w h lineWidth lineColor\<close>, \<open>CanvasLine x1 y1 x2 y2 lineWidth lineColor\<close>, and
  the filled rounded rectangle \<open>{type: 'rect', x, y, w, h, r, color}\<close> behind the title.
\<close>

record props =
  style :: "string option"
  margin :: "real list option"
  width :: "Size option"
  height :: "real option"
  fit :: "real list option"
  alignment :: "string option"
  unbreakable :: "bool option"
  font :: "string option"
  fontSize :: "real option"
  bold :: "bool option"
  color :: "string option"
  fillColor :: "string option"
  lineHeight :: "real option"

definition no_props :: props where
  "no_props = \<lparr>style = None, margin = None, width = None, height = None, fit = None,
     alignment = None, unbreakable = None, font = None, fontSize = None, bold = None,
     color = None, fillColor = None, lineHeight = None\<rparr>"

text \<open>
  A table layout object: \<open>hLineWidth\<close> takes the line index \<open>i\<close> and
  \<open>node.table.body.length\<close>; the other members are constant functions.
\<close>

record TableLayout =
  hLineWidth :: "nat \<Rightarrow> nat \<Rightarrow> real"
  vLineWidth :: real
  hLineColor :: string
  paddingLeft :: real
  paddingRight :: real
  paddingTop :: real
  paddingBottom :: real

datatype layout = LayoutName string | LayoutObject TableLayout

datatype Content =
    ContentText string props
  | ContentImage string props
  | ContentStack "Content list" props
  | ContentColumns "Content list" props
  | ContentTable layout "string list" nat "Content list list"
  | ContentCanvas "CanvasElement list" props
  | ContentUnorderedList "string list" props

text \<open>
  \<open>ContentTable layout widths headerRows body\<close> is
  \<open>{layout: ..., table: {widths: ..., headerRows: ..., body: ...}}\<close>.
\<close>

record DocInfo =
  info_title :: string
  info_author :: string
  info_subject :: string
  info_keywords :: string

record TDocumentDefinitions =
  info :: "DocInfo option"
  pageSize :: string
  pageMargins :: "real list"
  defaultStyle :: props
  content :: "Content list"
  styles :: "(string \<times> props) list"

section \<open>What both composers share\<close>

text \<open>\<open>createCheckboxItem\<close>, the same text in both files.\<close>

definition createCheckboxItem :: "bool \<Rightarrow> string \<Rightarrow> Content" where
  "createCheckboxItem checked text =
     (let box = CanvasRect 0 0 10 10 1 ''#374151'';
          checkmark =
            (if checked
             then [CanvasLine 2 5 4 8 1.5 ''#1F2937'', CanvasLine 4 8 8 2 1.5 ''#1F2937'']
             else [])
      in ContentColumns
           [ContentCanvas (box # checkmark) (no_props\<lparr>width := Some (SizeNum 12)\<rparr>),
            ContentText text (no_props\<lparr>width := Some SizeAuto, margin := Some [5, -2, 0, 0]\<rparr>)]
           (no_props\<lparr>margin := Some [0, 0, 0, 8]\<rparr>))"

text \<open>\<open>tableLayout.lightHorizontalLines\<close>, the same text in both files.\<close>

definition tableLayout_lightHorizontalLines :: TableLayout where
  "tableLayout_lightHorizontalLines =
     \<lparr>hLineWidth = (\<lambda>i body_length. if i = 0 \<or> i = body_length then 0 else 0.5),
      vLineWidth = 0,
      hLineColor = ''#E5E7EB'',
      paddingLeft = 0,
      paddingRight = 0,
      paddingTop = 8,
      paddingBottom = 8\<rparr>"

text \<open>
  The pass over \<open>docDefinition.content\<close> after the tree is built:
  \<^verbatim>\<open>content.forEach((item) => { if (typeof item === 'object' && 'table' in item) {
      tableItem.layout = tableLayout.lightHorizontalLines; } })\<close>.
  It visits the elements of the top-level array; every element is an object.
\<close>

fun applyTableLayout :: "Content \<Rightarrow> Content" where
  "applyTableLayout (ContentTable l widths headerRows body) =
     ContentTable (LayoutObject tableLayout_lightHorizontalLines) widths headerRows body"
| "applyTableLayout item = item"

definition applyTableLayouts :: "TDocumentDefinitions \<Rightarrow> TDocumentDefinitions" where
  "applyTableLayouts docDefinition =
     docDefinition\<lparr>content := map applyTableLayout (content docDefinition)\<rparr>"

text \<open>The key/value row \<open>[{ text: label, style: 'label' }, { text: value || '-' }]\<close>.\<close>

definition kvRow :: "string \<Rightarrow> string \<Rightarrow> Content list" where
  "kvRow label fieldValue =
     [ContentText label (no_props\<lparr>style := Some ''label''\<rparr>),
      ContentText (js_or fieldValue ''-'') no_props]"

section \<open>The composer of \<^verbatim>\<open>src/utils/generatePDF.ts\<close>\<close>

subsection \<open>Its tables of texts\<close>

definition sectionTitles_customerDetails :: bilingual where
  "sectionTitles_customerDetails =
    \<lparr>en = ''1. Customer Details'',
     th = ''1. '' @ utf8 [0xE23, 0xE32, 0xE22, 0xE25, 0xE30, 0xE40, 0xE2D, 0xE35, 0xE22, 0xE14,
           0xE25, 0xE39, 0xE01, 0xE04, 0xE49, 0xE32]\<rparr>"

definition sectionTitles_pumpInfo :: bilingual where
  "sectionTitles_pumpInfo =
    \<lparr>en = ''2. Pump Information'',
     th = ''2. '' @ utf8 [0xE02, 0xE49, 0xE2D, 0xE21, 0xE39, 0xE25, 0xE1B, 0xE31, 0xE4A,
           0xE21]\<rparr>"

definition sectionTitles_operatingConditions :: bilingual where
  "sectionTitles_operatingConditions =
    \<lparr>en = ''3. Operating Conditions'',
     th = ''3. '' @ utf8 [0xE2A, 0xE20, 0xE32, 0xE27, 0xE30, 0xE01, 0xE32, 0xE23, 0xE17, 0xE33,
           0xE07, 0xE32, 0xE19, 0xE08, 0xE23, 0xE34, 0xE07]\<rparr>"

definition sectionTitles_pumpPreparation :: bilingual where
  "sectionTitles_pumpPreparation =
    \<lparr>en = ''4. Pump Preparation (By Customer or WFA)'',
     th = ''4. '' @ utf8 [0xE01, 0xE32, 0xE23, 0xE40, 0xE15, 0xE23, 0xE35, 0xE22, 0xE21, 0xE1B,
           0xE31, 0xE4A, 0xE21] @ '' ('' @ utf8 [0xE42, 0xE14, 0xE22, 0xE25, 0xE39, 0xE01, 0xE04,
           0xE49, 0xE32, 0xE2B, 0xE23, 0xE37, 0xE2D] @ '' WFA)''\<rparr>"

definition sectionTitles_preparationChecklist :: bilingual where
  "sectionTitles_preparationChecklist =
    \<lparr>en = ''5. Customer Preparation Checklist'',
     th = ''5. '' @ utf8 [0xE23, 0xE32, 0xE22, 0xE01, 0xE32, 0xE23, 0xE40, 0xE15, 0xE23, 0xE35,
           0xE22, 0xE21, 0xE04, 0xE27, 0xE32, 0xE21, 0xE1E, 0xE23, 0xE49, 0xE21, 0xE2D, 0xE07,
           0xE25, 0xE39, 0xE01, 0xE04, 0xE49, 0xE32]\<rparr>"

definition sectionTitles_preServiceRequirements :: bilingual where
  "sectionTitles_preServiceRequirements =
    \<lparr>en = ''Pre-Service Requirements'',
     th = utf8 [0xE02, 0xE49, 0xE2D, 0xE01, 0xE33, 0xE2B, 0xE19, 0xE14, 0xE01, 0xE48, 0xE2D,
           0xE19, 0xE40, 0xE02, 0xE49, 0xE32, 0xE0B, 0xE48, 0xE2D, 0xE21]\<rparr>"

definition sectionTitles_importantNotes :: bilingual where
  "sectionTitles_importantNotes =
    \<lparr>en = ''Important Notes:'',
     th = utf8 [0xE2B, 0xE25, 0xE32, 0xE22, 0xE40, 0xE2B, 0xE15, 0xE38, 0xE2A, 0xE33, 0xE04,
           0xE31, 0xE0D] @ '':''\<rparr>"

definition importantNotes :: "bilingual list" where
  "importantNotes =
   [\<lparr>en = ''All work must be performed by qualified personnel only'',
     th = utf8 [0xE07, 0xE32, 0xE19, 0xE17, 0xE31, 0xE49, 0xE07, 0xE2B, 0xE21, 0xE14, 0xE15,
           0xE49, 0xE2D, 0xE07, 0xE14, 0xE33, 0xE40, 0xE19, 0xE34, 0xE19, 0xE01, 0xE32, 0xE23,
           0xE42, 0xE14, 0xE22, 0xE1A, 0xE38, 0xE04, 0xE25, 0xE32, 0xE01, 0xE23, 0xE17, 0xE35,
           0xE48, 0xE21, 0xE35, 0xE04, 0xE38, 0xE13, 0xE2A, 0xE21, 0xE1A, 0xE31, 0xE15, 0xE34,
           0xE40, 0xE17, 0xE48, 0xE32, 0xE19, 0xE31, 0xE49, 0xE19]\<rparr>,
    \<lparr>en = ''Follow all safety protocols and guidelines'',
     th = utf8 [0xE1B, 0xE0F, 0xE34, 0xE1A, 0xE31, 0xE15, 0xE34, 0xE15, 0xE32, 0xE21, 0xE02,
           0xE31, 0xE49, 0xE19, 0xE15, 0xE2D, 0xE19, 0xE41, 0xE25, 0xE30, 0xE41, 0xE19, 0xE27,
           0xE17, 0xE32, 0xE07, 0xE14, 0xE49, 0xE32, 0xE19, 0xE04, 0xE27, 0xE32, 0xE21, 0xE1B,
           0xE25, 0xE2D, 0xE14, 0xE20, 0xE31, 0xE22, 0xE17, 0xE31, 0xE49, 0xE07, 0xE2B, 0xE21,
           0xE14]\<rparr>,
    \<lparr>en = ''Maintain proper documentation throughout the service process'',
     th = utf8 [0xE23, 0xE31, 0xE01, 0xE29, 0xE32, 0xE40, 0xE2D, 0xE01, 0xE2A, 0xE32, 0xE23,
           0xE17, 0xE35, 0xE48, 0xE40, 0xE2B, 0xE21, 0xE32, 0xE30, 0xE2A, 0xE21, 0xE15, 0xE25,
           0xE2D, 0xE14, 0xE01, 0xE23, 0xE30, 0xE1A, 0xE27, 0xE19, 0xE01, 0xE32, 0xE23, 0xE43,
           0xE2B, 0xE49, 0xE1A, 0xE23, 0xE34, 0xE01, 0xE32, 0xE23]\<rparr>,
    \<lparr>en = ''Use only OEM parts or approved equivalents'',
     th = utf8 [0xE43, 0xE0A, 0xE49, 0xE40, 0xE09, 0xE1E, 0xE32, 0xE30, 0xE0A, 0xE34, 0xE49,
           0xE19, 0xE2A, 0xE48, 0xE27, 0xE19] @ '' OEM '' @ utf8 [0xE2B, 0xE23, 0xE37, 0xE2D,
           0xE0A, 0xE34, 0xE49, 0xE19, 0xE2A, 0xE48, 0xE27, 0xE19, 0xE17, 0xE35, 0xE48, 0xE44,
           0xE14, 0xE49, 0xE23, 0xE31, 0xE1A, 0xE01, 0xE32, 0xE23, 0xE2D, 0xE19, 0xE38, 0xE21,
           0xE31, 0xE15, 0xE34, 0xE40, 0xE17, 0xE48, 0xE32, 0xE19, 0xE31, 0xE49, 0xE19]\<rparr>,
    \<lparr>en = ''Follow all safety protocols, especially regarding magnetic coupling hazards'',
     th = utf8 [0xE1B, 0xE0F, 0xE34, 0xE1A, 0xE31, 0xE15, 0xE34, 0xE15, 0xE32, 0xE21, 0xE42,
           0xE1B, 0xE23, 0xE42, 0xE15, 0xE04, 0xE2D, 0xE25, 0xE04, 0xE27, 0xE32, 0xE21, 0xE1B,
           0xE25, 0xE2D, 0xE14, 0xE20, 0xE31, 0xE22, 0xE17, 0xE31, 0xE49, 0xE07, 0xE2B, 0xE21,
           0xE14] @ '' '' @ utf8 [0xE42, 0xE14, 0xE22, 0xE40, 0xE09, 0xE1E, 0xE32, 0xE30, 0xE2D,
           0xE22, 0xE48, 0xE32, 0xE07, 0xE22, 0xE34, 0xE48, 0xE07, 0xE40, 0xE01, 0xE35, 0xE48,
           0xE22, 0xE27, 0xE01, 0xE31, 0xE1A, 0xE2D, 0xE31, 0xE19, 0xE15, 0xE23, 0xE32, 0xE22,
           0xE08, 0xE32, 0xE01, 0xE01, 0xE32, 0xE23, 0xE40, 0xE0A, 0xE37, 0xE48, 0xE2D, 0xE21,
           0xE15, 0xE48, 0xE2D, 0xE41, 0xE21, 0xE48, 0xE40, 0xE2B, 0xE25, 0xE47, 0xE01]\<rparr>,
    \<lparr>en = ''Refer to manufacturer's manual for specific torque values and clearances'',
     th = utf8 [0xE2D, 0xE49, 0xE32, 0xE07, 0xE2D, 0xE34, 0xE07, 0xE04, 0xE39, 0xE48, 0xE21,
           0xE37, 0xE2D, 0xE02, 0xE2D, 0xE07, 0xE1C, 0xE39, 0xE49, 0xE1C, 0xE25, 0xE34, 0xE15,
           0xE2A, 0xE33, 0xE2B, 0xE23, 0xE31, 0xE1A, 0xE04, 0xE48, 0xE32, 0xE41, 0xE23, 0xE07,
           0xE1A, 0xE34, 0xE14, 0xE41, 0xE25, 0xE30, 0xE23, 0xE30, 0xE22, 0xE30, 0xE2B, 0xE48,
           0xE32, 0xE07, 0xE17, 0xE35, 0xE48, 0xE40, 0xE09, 0xE1E, 0xE32, 0xE30, 0xE40, 0xE08,
           0xE32, 0xE30, 0xE08, 0xE07]\<rparr>,
    \<lparr>en = ''Required for magnetic coupling handling - keep sensitive items at minimum 1m distance'',
     th = utf8 [0xE08, 0xE33, 0xE40, 0xE1B, 0xE47, 0xE19, 0xE2A, 0xE33, 0xE2B, 0xE23, 0xE31,
           0xE1A, 0xE01, 0xE32, 0xE23, 0xE08, 0xE31, 0xE14, 0xE01, 0xE32, 0xE23, 0xE01, 0xE32,
           0xE23, 0xE40, 0xE0A, 0xE37, 0xE48, 0xE2D, 0xE21, 0xE15, 0xE48, 0xE2D, 0xE41, 0xE21,
           0xE48, 0xE40, 0xE2B, 0xE25, 0xE47, 0xE01] @ '' - '' @ utf8 [0xE40, 0xE01, 0xE47, 0xE1A,
           0xE23, 0xE31, 0xE01, 0xE29, 0xE32, 0xE2D, 0xE38, 0xE1B, 0xE01, 0xE23, 0xE13, 0xE4C,
           0xE17, 0xE35, 0xE48, 0xE21, 0xE35, 0xE04, 0xE27, 0xE32, 0xE21, 0xE2D, 0xE48, 0xE2D,
           0xE19, 0xE44, 0xE2B, 0xE27, 0xE43, 0xE19, 0xE23, 0xE30, 0xE22, 0xE30, 0xE2B, 0xE48,
           0xE32, 0xE07, 0xE2D, 0xE22, 0xE48, 0xE32, 0xE07, 0xE19, 0xE49, 0xE2D, 0xE22] @
           '' 1 '' @ utf8 [0xE40, 0xE21, 0xE15, 0xE23]\<rparr>]"

definition docHeader_company :: bilingual where
  "docHeader_company =
    \<lparr>en = ''Water Field Asia Co., Ltd.'',
     th = utf8 [0xE1A, 0xE23, 0xE34, 0xE29, 0xE17] @ '' '' @ utf8 [0xE27, 0xE2D, 0xE40, 0xE15,
           0xE2D, 0xE23, 0xE4C, 0xE1F, 0xE34, 0xE25, 0xE14, 0xE4C] @ '' '' @ utf8 [0xE40, 0xE2D,
           0xE40, 0xE0A, 0xE35, 0xE22] @ '' '' @ utf8 [0xE08, 0xE33, 0xE01, 0xE31, 0xE14]\<rparr>"

definition docHeader_address1 :: bilingual where
  "docHeader_address1 =
    \<lparr>en = ''623 Soi Onnut 70/1 Sub 2'',
     th = ''623 '' @ utf8 [0xE0B, 0xE2D, 0xE22, 0xE2D, 0xE48, 0xE2D, 0xE19, 0xE19, 0xE38,
           0xE0A] @ '' 70/1 '' @ utf8 [0xE41, 0xE22, 0xE01] @ '' 2''\<rparr>"

definition docHeader_address2 :: bilingual where
  "docHeader_address2 =
    \<lparr>en = ''Pravet Sub-District, Pravet District,'',
     th = utf8 [0xE41, 0xE02, 0xE27, 0xE07, 0xE1B, 0xE23, 0xE30, 0xE40, 0xE27, 0xE28] @ '' '' @
           utf8 [0xE40, 0xE02, 0xE15, 0xE1B, 0xE23, 0xE30, 0xE40, 0xE27, 0xE28]\<rparr>"

definition docHeader_address3 :: bilingual where
  "docHeader_address3 =
    \<lparr>en = ''Bangkok 10250'',
     th = utf8 [0xE01, 0xE23, 0xE38, 0xE07, 0xE40, 0xE17, 0xE1E, 0xE21, 0xE2B, 0xE32, 0xE19,
           0xE04, 0xE23] @ '' 10250''\<rparr>"

definition docHeader_phone :: bilingual where
  "docHeader_phone =
    \<lparr>en = ''Tel.: +66 2320 1994'',
     th = utf8 [0xE42, 0xE17, 0xE23] @ '': +66 2320 1994''\<rparr>"

definition docHeader_docNo :: bilingual where
  "docHeader_docNo =
    \<lparr>en = ''Document No: FM-WFA-SER-057'',
     th = utf8 [0xE40, 0xE25, 0xE02, 0xE17, 0xE35, 0xE48, 0xE40, 0xE2D, 0xE01, 0xE2A, 0xE32,
           0xE23] @ '': FM-WFA-SER-057''\<rparr>"

definition docHeader_revision :: bilingual where
  "docHeader_revision =
    \<lparr>en = ''Revision: 00'',
     th = utf8 [0xE41, 0xE01, 0xE49, 0xE44, 0xE02, 0xE04, 0xE23, 0xE31, 0xE49, 0xE07, 0xE17,
           0xE35, 0xE48] @ '': 00''\<rparr>"

text \<open>
  \<open>docHeader.date\<close> reads the clock twice, once for each member of the pair:
  \<^verbatim>\<open>new Date().toLocaleDateString('en-GB', {...}).split('/').join('.')\<close>. The two formatted
  dates are parameters; \<open>split('/').join('.')\<close> puts a dot for every slash.
\<close>

definition split_join :: "string \<Rightarrow> string" where
  "split_join s = map (\<lambda>c. if c = CHR ''/'' then CHR ''.'' else c) s"

definition docHeader_date :: "string \<Rightarrow> string \<Rightarrow> bilingual" where
  "docHeader_date date1 date2 =
    \<lparr>en = ''Date: '' @ split_join date1,
     th = utf8 [0xE27, 0xE31, 0xE19, 0xE17, 0xE35, 0xE48] @ '': '' @ split_join date2\<rparr>"

definition translations_company :: bilingual where
  "translations_company =
    \<lparr>en = ''Company:'',
     th = utf8 [0xE1A, 0xE23, 0xE34, 0xE29, 0xE17] @ '':''\<rparr>"

definition translations_siteLocation :: bilingual where
  "translations_siteLocation =
    \<lparr>en = ''Site Location:'',
     th = utf8 [0xE2A, 0xE16, 0xE32, 0xE19, 0xE17, 0xE35, 0xE48, 0xE15, 0xE34, 0xE14, 0xE15,
           0xE31, 0xE49, 0xE07] @ '':''\<rparr>"

definition translations_contactPerson :: bilingual where
  "translations_contactPerson =
    \<lparr>en = ''Contact Person:'',
     th = utf8 [0xE1C, 0xE39, 0xE49, 0xE15, 0xE34, 0xE14, 0xE15, 0xE48, 0xE2D] @ '':''\<rparr>"

definition translations_department :: bilingual where
  "translations_department =
    \<lparr>en = ''Department:'',
     th = utf8 [0xE41, 0xE1C, 0xE19, 0xE01] @ '':''\<rparr>"

definition translations_phone :: bilingual where
  "translations_phone =
    \<lparr>en = ''Phone:'',
     th = utf8 [0xE42, 0xE17, 0xE23, 0xE28, 0xE31, 0xE1E, 0xE17, 0xE4C] @ '':''\<rparr>"

definition translations_email :: bilingual where
  "translations_email =
    \<lparr>en = ''Email:'',
     th = utf8 [0xE2D, 0xE35, 0xE40, 0xE21, 0xE25] @ '':''\<rparr>"

definition translations_pumpModel :: bilingual where
  "translations_pumpModel =
    \<lparr>en = ''Pump Model:'',
     th = utf8 [0xE23, 0xE38, 0xE48, 0xE19, 0xE1B, 0xE31, 0xE4A, 0xE21] @ '':''\<rparr>"

definition translations_serialNumber :: bilingual where
  "translations_serialNumber =
    \<lparr>en = ''Serial Number:'',
     th = utf8 [0xE2B, 0xE21, 0xE32, 0xE22, 0xE40, 0xE25, 0xE02, 0xE40, 0xE04, 0xE23, 0xE37,
           0xE48, 0xE2D, 0xE07] @ '':''\<rparr>"

definition translations_yearOfManufacture :: bilingual where
  "translations_yearOfManufacture =
    \<lparr>en = ''Year of Manufacture:'',
     th = utf8 [0xE1B, 0xE35, 0xE17, 0xE48, 0xE1C, 0xE25, 0xE34, 0xE15] @ '':''\<rparr>"

definition translations_operatingHours :: bilingual where
  "translations_operatingHours =
    \<lparr>en = ''Operating Hours:'',
     th = utf8 [0xE0A, 0xE31, 0xE48, 0xE27, 0xE42, 0xE21, 0xE07, 0xE01, 0xE32, 0xE23, 0xE17,
           0xE33, 0xE07, 0xE32, 0xE19] @ '':''\<rparr>"

definition translations_lastServiceDate :: bilingual where
  "translations_lastServiceDate =
    \<lparr>en = ''Last Service Date:'',
     th = utf8 [0xE27, 0xE31, 0xE19, 0xE17, 0xE35, 0xE48, 0xE40, 0xE02, 0xE49, 0xE32, 0xE0B,
           0xE48, 0xE2D, 0xE21, 0xE04, 0xE23, 0xE31, 0xE49, 0xE07, 0xE25, 0xE48, 0xE32, 0xE2A,
           0xE38, 0xE14] @ '':''\<rparr>"

definition translations_installationDate :: bilingual where
  "translations_installationDate =
    \<lparr>en = ''Installation Date:'',
     th = utf8 [0xE27, 0xE31, 0xE19, 0xE17, 0xE35, 0xE48, 0xE15, 0xE34, 0xE14, 0xE15, 0xE31,
           0xE49, 0xE07] @ '':''\<rparr>"

definition translations_temperature :: bilingual where
  "translations_temperature =
    \<lparr>en = ''Temperature ('' @ utf8 [0xB0] @ ''C):'',
     th = utf8 [0xE2D, 0xE38, 0xE13, 0xE2B, 0xE20, 0xE39, 0xE21, 0xE34] @ '' ('' @ utf8 [0xB0] @
           ''C):''\<rparr>"

definition translations_flowRate :: bilingual where
  "translations_flowRate =
    \<lparr>en = ''Flow Rate (m'' @ utf8 [0xB3] @ ''/h):'',
     th = utf8 [0xE2D, 0xE31, 0xE15, 0xE23, 0xE32, 0xE01, 0xE32, 0xE23, 0xE44, 0xE2B, 0xE25] @
           '' (m'' @ utf8 [0xB3] @ ''/h):''\<rparr>"

definition translations_suctionPressure :: bilingual where
  "translations_suctionPressure =
    \<lparr>en = ''Suction Pressure (bar):'',
     th = utf8 [0xE41, 0xE23, 0xE07, 0xE14, 0xE31, 0xE19, 0xE14, 0xE49, 0xE32, 0xE19, 0xE14,
           0xE39, 0xE14] @ '' (bar):''\<rparr>"

definition translations_dischargePressure :: bilingual where
  "translations_dischargePressure =
    \<lparr>en = ''Discharge Pressure (bar):'',
     th = utf8 [0xE41, 0xE23, 0xE07, 0xE14, 0xE31, 0xE19, 0xE14, 0xE49, 0xE32, 0xE19, 0xE2A,
           0xE48, 0xE07] @ '' (bar):''\<rparr>"

definition translations_totalHead :: bilingual where
  "translations_totalHead =
    \<lparr>en = ''Total Head (m):'',
     th = utf8 [0xE40, 0xE2E, 0xE14, 0xE23, 0xE21, 0xE21] @ '' (m):''\<rparr>"

definition translations_pumpedMedium :: bilingual where
  "translations_pumpedMedium =
    \<lparr>en = ''Pumped Medium:'',
     th = utf8 [0xE02, 0xE2D, 0xE07, 0xE40, 0xE2B, 0xE25, 0xE27, 0xE17, 0xE35, 0xE48, 0xE2A,
           0xE39, 0xE1A] @ '':''\<rparr>"

definition translations_serviceReason :: bilingual where
  "translations_serviceReason =
    \<lparr>en = ''Description of Issues/Reason for Service:'',
     th = utf8 [0xE23, 0xE32, 0xE22, 0xE25, 0xE30, 0xE40, 0xE2D, 0xE35, 0xE22, 0xE14, 0xE1B,
           0xE31, 0xE0D, 0xE2B, 0xE32] @ ''/'' @ utf8 [0xE40, 0xE2B, 0xE15, 0xE38, 0xE1C, 0xE25,
           0xE43, 0xE19, 0xE01, 0xE32, 0xE23, 0xE40, 0xE02, 0xE49, 0xE32, 0xE0B, 0xE48, 0xE21] @
           '':''\<rparr>"

subsection \<open>The checklist items\<close>

text \<open>
  A checklist label is written in place as \<^verbatim>\<open>language === 'en' ? '...' : '...'\<close>. The two
  literals of each such expression are named here as a pair; the composer below keeps
  the conditional.
\<close>

definition checklistLabel_system_flush :: bilingual where
  "checklistLabel_system_flush =
    \<lparr>en = ''System flushed (if hazardous/hardening materials)'',
     th = utf8 [0xE25, 0xE49, 0xE32, 0xE07, 0xE23, 0xE30, 0xE1A, 0xE1A, 0xE41, 0xE25, 0xE49,
           0xE27] @ '' ('' @ utf8 [0xE01, 0xE23, 0xE13, 0xE35, 0xE2A, 0xE32, 0xE23, 0xE2D, 0xE31,
           0xE19, 0xE15, 0xE23, 0xE32, 0xE22] @ ''/'' @ utf8 [0xE2A, 0xE32, 0xE23, 0xE17, 0xE35,
           0xE48, 0xE41, 0xE02, 0xE47, 0xE07, 0xE15, 0xE31, 0xE27] @ '')''\<rparr>"

definition checklistLabel_harmless_form :: bilingual where
  "checklistLabel_harmless_form =
    \<lparr>en = ''Declaration of Harmlessness form (in the operation manual)'',
     th = utf8 [0xE41, 0xE1A, 0xE1A, 0xE1F, 0xE2D, 0xE23, 0xE4C, 0xE21, 0xE01, 0xE32, 0xE23,
           0xE1B, 0xE23, 0xE30, 0xE01, 0xE32, 0xE28, 0xE04, 0xE27, 0xE32, 0xE21, 0xE44, 0xE21,
           0xE48, 0xE40, 0xE1B, 0xE47, 0xE19, 0xE2D, 0xE31, 0xE19, 0xE15, 0xE23, 0xE32, 0xE22] @
           '' ('' @ utf8 [0xE43, 0xE19, 0xE04, 0xE39, 0xE48, 0xE21, 0xE37, 0xE2D, 0xE01, 0xE32,
           0xE23, 0xE43, 0xE0A, 0xE49, 0xE32, 0xE19] @ '')''\<rparr>"

definition checklistLabel_sds :: bilingual where
  "checklistLabel_sds =
    \<lparr>en = ''Safety Data Sheet (SDS) available'',
     th = utf8 [0xE21, 0xE35, 0xE40, 0xE2D, 0xE01, 0xE2A, 0xE32, 0xE23, 0xE02, 0xE21, 0xE39,
           0xE25, 0xE04, 0xE27, 0xE32, 0xE21, 0xE1B, 0xE25, 0xE2D, 0xE14, 0xE20, 0xE31, 0xE22] @
           '' (SDS)''\<rparr>"

definition checklistLabel_alignment_report :: bilingual where
  "checklistLabel_alignment_report =
    \<lparr>en = ''Alignment report available'',
     th = utf8 [0xE21, 0xE35, 0xE23, 0xE32, 0xE22, 0xE07, 0xE32, 0xE19, 0xE01, 0xE32, 0xE23,
           0xE1B, 0xE23, 0xE31, 0xE1A, 0xE41, 0xE19, 0xE27, 0xE40, 0xE1E, 0xE25, 0xE32]\<rparr>"

definition checklistLabel_operation_records :: bilingual where
  "checklistLabel_operation_records =
    \<lparr>en = ''Operation records available'',
     th = utf8 [0xE21, 0xE35, 0xE1A, 0xE31, 0xE19, 0xE17, 0xE36, 0xE01, 0xE01, 0xE32, 0xE23,
           0xE17, 0xE33, 0xE07, 0xE32, 0xE19]\<rparr>"

definition checklistLabel_power_isolated :: bilingual where
  "checklistLabel_power_isolated =
    \<lparr>en = ''Pump isolated from power supply (customer responsibility)'',
     th = utf8 [0xE1B, 0xE31, 0xE4A, 0xE21, 0xE16, 0xE39, 0xE01, 0xE15, 0xE31, 0xE14, 0xE41,
           0xE22, 0xE01, 0xE08, 0xE32, 0xE01, 0xE41, 0xE2B, 0xE25, 0xE48, 0xE07, 0xE08, 0xE48,
           0xE32, 0xE22, 0xE44, 0xE1F] @ '' ('' @ utf8 [0xE04, 0xE27, 0xE32, 0xE21, 0xE23, 0xE31,
           0xE1A, 0xE1C, 0xE34, 0xE14, 0xE0A, 0xE2D, 0xE1A, 0xE02, 0xE2D, 0xE07, 0xE25, 0xE39,
           0xE01, 0xE04, 0xE49, 0xE32] @ '')''\<rparr>"

definition checklistLabel_valves_locked :: bilingual where
  "checklistLabel_valves_locked =
    \<lparr>en = ''Suction/discharge valves locked (customer responsibility)'',
     th = utf8 [0xE27, 0xE32, 0xE25, 0xE4C, 0xE27, 0xE14, 0xE39, 0xE14] @ ''/'' @ utf8 [0xE08,
           0xE48, 0xE32, 0xE22, 0xE16, 0xE39, 0xE01, 0xE25, 0xE47, 0xE2D, 0xE04] @ '' ('' @
           utf8 [0xE04, 0xE27, 0xE32, 0xE21, 0xE23, 0xE31, 0xE1A, 0xE1C, 0xE34, 0xE14, 0xE0A,
           0xE2D, 0xE1A, 0xE02, 0xE2D, 0xE07, 0xE25, 0xE39, 0xE01, 0xE04, 0xE49, 0xE32] @
           '')''\<rparr>"

definition checklistLabel_pump_drained :: bilingual where
  "checklistLabel_pump_drained =
    \<lparr>en = ''Pump drained (customer responsibility)'',
     th = utf8 [0xE23, 0xE30, 0xE1A, 0xE32, 0xE22, 0xE02, 0xE2D, 0xE07, 0xE40, 0xE2B, 0xE25,
           0xE27, 0xE2D, 0xE2D, 0xE01, 0xE08, 0xE32, 0xE01, 0xE1B, 0xE31, 0xE4A, 0xE21] @ '' ('' @
           utf8 [0xE04, 0xE27, 0xE32, 0xE21, 0xE23, 0xE31, 0xE1A, 0xE1C, 0xE34, 0xE14, 0xE0A,
           0xE2D, 0xE1A, 0xE02, 0xE2D, 0xE07, 0xE25, 0xE39, 0xE01, 0xE04, 0xE49, 0xE32] @
           '')''\<rparr>"

definition checklistLabel_auxiliary_disconnected :: bilingual where
  "checklistLabel_auxiliary_disconnected =
    \<lparr>en = ''Auxiliary systems disconnected (e.g., external sensors)'',
     th = utf8 [0xE23, 0xE30, 0xE1A, 0xE1A, 0xE40, 0xE2A, 0xE23, 0xE34, 0xE21, 0xE16, 0xE39,
           0xE01, 0xE15, 0xE31, 0xE14, 0xE01, 0xE32, 0xE23, 0xE40, 0xE0A, 0xE37, 0xE48, 0xE2D,
           0xE21, 0xE15, 0xE48, 0xE2D] @ '' ('' @ utf8 [0xE40, 0xE0A, 0xE48, 0xE19] @ '' '' @
           utf8 [0xE40, 0xE0B, 0xE47, 0xE19, 0xE40, 0xE2D, 0xE23, 0xE20, 0xE32, 0xE22, 0xE19,
           0xE2D, 0xE01] @ '')''\<rparr>"

definition checklistLabel_coupling_guard_removed :: bilingual where
  "checklistLabel_coupling_guard_removed =
    \<lparr>en = ''Coupling guard removed'',
     th = utf8 [0xE1D, 0xE32, 0xE04, 0xE23, 0xE2D, 0xE1A, 0xE04, 0xE31, 0xE1B, 0xE1B, 0xE25,
           0xE34, 0xFFFD, 0xFFFD, 0xE07, 0xE16, 0xE39, 0xE01, 0xE16, 0xE2D, 0xE14, 0xE2D, 0xE2D,
           0xE01]\<rparr>"

definition checklistLabel_coupling_disconnected :: bilingual where
  "checklistLabel_coupling_disconnected =
    \<lparr>en = ''Coupling disconnected'',
     th = utf8 [0xE04, 0xE31, 0xE1B, 0xE1B, 0xE25, 0xE34, 0xE49, 0xE07, 0xE16, 0xE39, 0xE01,
           0xE16, 0xE2D, 0xE14, 0xE2D, 0xE2D, 0xE01]\<rparr>"

definition checklistLabel_pump_cleaned :: bilingual where
  "checklistLabel_pump_cleaned =
    \<lparr>en = ''Pump cleaned externally'',
     th = utf8 [0xE17, 0xE33, 0xE04, 0xE27, 0xE32, 0xE21, 0xE2A, 0xE30, 0xE2D, 0xE32, 0xE14,
           0xE20, 0xE32, 0xE22, 0xE19, 0xE2D, 0xE01, 0xE1B, 0xE31, 0xE4A, 0xE21]\<rparr>"

definition checklistLabel_openings_protected :: bilingual where
  "checklistLabel_openings_protected =
    \<lparr>en = ''All openings protected'',
     th = utf8 [0xE0A, 0xE48, 0xE2D, 0xE07, 0xE40, 0xE1B, 0xE34, 0xE14, 0xE17, 0xE31, 0xE49,
           0xE07, 0xE2B, 0xE21, 0xE14, 0xE44, 0xE14, 0xE49, 0xE23, 0xE31, 0xE1A, 0xE01, 0xE32,
           0xE23, 0xE1B, 0xE49, 0xE2D, 0xE07, 0xE01, 0xE31, 0xE19]\<rparr>"

definition checklistLabel_photos_taken :: bilingual where
  "checklistLabel_photos_taken =
    \<lparr>en = ''Photographs taken (if possible)'',
     th = utf8 [0xE16, 0xE48, 0xE32, 0xE22, 0xE20, 0xE32, 0xE1E] @ '' ('' @ utf8 [0xE16, 0xE49,
           0xE32, 0xE40, 0xE1B, 0xE47, 0xE19, 0xE44, 0xE1B, 0xE44, 0xE14, 0xE49] @ '')''\<rparr>"

text \<open>
  The label of the safety-training item is a conditional of two template literals:
  \<^verbatim>\<open>`Safety Training required? ${formData.training_hours ? `(${formData.training_hours} hours)` : ''}`\<close>
  and the same with the Thai words.
\<close>

definition safetyTrainingLabel :: "FormData \<Rightarrow> bilingual" where
  "safetyTrainingLabel formData =
    \<lparr>en = ''Safety Training required? '' @
           (case training_hours formData of
              Some hours \<Rightarrow> if truthy hours then ''('' @ hours @ '' hours)'' else []
            | None \<Rightarrow> []),
     th = utf8 [0xE15, 0xE49, 0xE2D, 0xE07, 0xE23, 0xE32, 0xE23, 0xE01, 0xE32, 0xE23, 0xE1D,
            0xE36, 0xE01, 0xE2D, 0xE1A, 0xE23, 0xE21, 0xE04, 0xE27, 0xE32, 0xE21, 0xE1B, 0xE25,
            0xE2D, 0xE14, 0xE20, 0xE31, 0xE22, 0xE2B, 0xE23, 0xE37, 0xE2D, 0xE44, 0xE21, 0xE48] @
            ''? '' @
           (case training_hours formData of
              Some hours \<Rightarrow>
                if truthy hours
                then ''('' @ hours @ '' '' @ utf8 [0xE0A, 0xE31, 0xE48, 0xE27, 0xE42, 0xE21,
                                       0xE07] @ '')''
                else []
            | None \<Rightarrow> [])\<rparr>"

text \<open>\<^verbatim>\<open>language === 'en' ? a : b\<close> on the two members of a named pair.\<close>

definition cond :: "language \<Rightarrow> bilingual \<Rightarrow> string" where
  "cond language pair = (if language = En then en pair else th pair)"

definition preServiceChecklist :: "FormData \<Rightarrow> 'a Checkboxes_p3_scheme \<Rightarrow> language \<Rightarrow> Content list" where
  "preServiceChecklist formData checkboxes language =
     [createCheckboxItem (system_flush checkboxes) (cond language checklistLabel_system_flush),
      createCheckboxItem (safety_training checkboxes)
        (cond language (safetyTrainingLabel formData)),
      createCheckboxItem (harmless_form checkboxes) (cond language checklistLabel_harmless_form),
      createCheckboxItem (sds checkboxes) (cond language checklistLabel_sds),
      createCheckboxItem (alignment_report checkboxes)
        (cond language checklistLabel_alignment_report),
      createCheckboxItem (operation_records checkboxes)
        (cond language checklistLabel_operation_records)]"

definition pumpPreparationItems :: "Checkboxes \<Rightarrow> language \<Rightarrow> Content list" where
  "pumpPreparationItems checkboxes language =
     [createCheckboxItem (power_isolated checkboxes) (cond language checklistLabel_power_isolated),
      createCheckboxItem (valves_locked checkboxes) (cond language checklistLabel_valves_locked),
      createCheckboxItem (pump_drained checkboxes) (cond language checklistLabel_pump_drained),
      createCheckboxItem (auxiliary_disconnected checkboxes)
        (cond language checklistLabel_auxiliary_disconnected),
      createCheckboxItem (coupling_guard_removed checkboxes)
        (cond language checklistLabel_coupling_guard_removed),
      createCheckboxItem (coupling_disconnected checkboxes)
        (cond language checklistLabel_coupling_disconnected),
      createCheckboxItem (pump_cleaned checkboxes) (cond language checklistLabel_pump_cleaned),
      createCheckboxItem (openings_protected checkboxes)
        (cond language checklistLabel_openings_protected),
      createCheckboxItem (photos_taken checkboxes) (cond language checklistLabel_photos_taken)]"

subsection \<open>The content array, one definition for each of its seven elements\<close>

definition companyHeader :: "string \<Rightarrow> string \<Rightarrow> string \<Rightarrow> string \<Rightarrow> language \<Rightarrow> Content" where
  "companyHeader logoBase64 qrBase64 date1 date2 language =
     ContentColumns
       [ContentStack
          [ContentImage logoBase64
             (no_props\<lparr>width := Some (SizeNum 120), height := Some 60,
                margin := Some [0, 0, 0, 10]\<rparr>),
           ContentText (sel docHeader_company language)
             (no_props\<lparr>style := Some ''headerCompany''\<rparr>),
           ContentText (sel docHeader_address1 language)
             (no_props\<lparr>style := Some ''headerAddress''\<rparr>),
           ContentText (sel docHeader_address2 language)
             (no_props\<lparr>style := Some ''headerAddress'', margin := Some [0, 10, 0, 0]\<rparr>),
           ContentText (sel docHeader_address3 language)
             (no_props\<lparr>style := Some ''headerAddress'', margin := Some [0, 10, 0, 0]\<rparr>),
           ContentText (sel docHeader_phone language)
             (no_props\<lparr>style := Some ''headerAddress'', margin := Some [0, 10, 0, 0]\<rparr>)]
          (no_props\<lparr>width := Some SizeStar\<rparr>),
        ContentStack
          [ContentStack
             [ContentText (sel docHeader_docNo language)
                (no_props\<lparr>style := Some ''headerDoc''\<rparr>),
              ContentText (sel docHeader_revision language)
                (no_props\<lparr>style := Some ''headerDoc'', margin := Some [0, 10, 0, 0]\<rparr>),
              ContentText (sel (docHeader_date date1 date2) language)
                (no_props\<lparr>style := Some ''headerDoc'', margin := Some [0, 10, 0, 0]\<rparr>)]
             no_props,
           ContentImage qrBase64
             (no_props\<lparr>width := Some (SizeNum 50), height := Some 50,
                alignment := Some ''right'', margin := Some [0, 35, 0, 0]\<rparr>)]
          (no_props\<lparr>width := Some SizeAuto, margin := Some [40, 0, 0, 0]\<rparr>)]
       (no_props\<lparr>margin := Some [0, 0, 0, 20]\<rparr>)"

definition customerDetailsSection :: "FormData \<Rightarrow> language \<Rightarrow> Content" where
  "customerDetailsSection formData language =
     ContentStack
       [ContentText (sel sectionTitles_customerDetails language)
          (no_props\<lparr>style := Some ''sectionHeader''\<rparr>),
        ContentTable (LayoutName ''lightHorizontalLines'') [''30%'', ''70%''] 0
          [kvRow (sel translations_company language) (company formData),
           kvRow (sel translations_siteLocation language) (site_location formData),
           kvRow (sel translations_contactPerson language) (contact_person formData),
           kvRow (sel translations_department language) (department formData),
           kvRow (sel translations_phone language) (phone formData),
           kvRow (sel translations_email language) (email formData)]]
       (no_props\<lparr>unbreakable := Some True\<rparr>)"

definition pumpInformationSection :: "FormData \<Rightarrow> language \<Rightarrow> Content" where
  "pumpInformationSection formData language =
     ContentStack
       [ContentText (sel sectionTitles_pumpInfo language)
          (no_props\<lparr>style := Some ''sectionHeader'', margin := Some [0, 20, 0, 10]\<rparr>),
        ContentTable (LayoutName ''lightHorizontalLines'') [''30%'', ''70%''] 0
          [kvRow (sel translations_pumpModel language) (pump_model formData),
           kvRow (sel translations_serialNumber language) (serial_number formData),
           kvRow (sel translations_yearOfManufacture language) (manufacture_year formData),
           kvRow (sel translations_operatingHours language) (operating_hours formData),
           kvRow (sel translations_lastServiceDate language) (last_service_date formData),
           kvRow (sel translations_installationDate language) (installation_date formData)]]
       (no_props\<lparr>unbreakable := Some True\<rparr>)"

definition operatingConditionsSection :: "FormData \<Rightarrow> language \<Rightarrow> Content" where
  "operatingConditionsSection formData language =
     ContentStack
       [ContentText (sel sectionTitles_operatingConditions language)
          (no_props\<lparr>style := Some ''sectionHeader'', margin := Some [0, 20, 0, 10]\<rparr>),
        ContentTable (LayoutName ''lightHorizontalLines'') [''30%'', ''70%''] 0
          [kvRow (sel translations_temperature language) (temperature formData),
           kvRow (sel translations_flowRate language) (flow_rate formData),
           kvRow (sel translations_suctionPressure language) (suction_pressure formData),
           kvRow (sel translations_dischargePressure language) (discharge_pressure formData),
           kvRow (sel translations_totalHead language) (total_head formData),
           kvRow (sel translations_pumpedMedium language) (pumped_medium formData)],
        ContentText (sel translations_serviceReason language)
          (no_props\<lparr>style := Some ''label'', margin := Some [0, 10, 0, 5]\<rparr>),
        ContentText (js_or (service_reason formData) ''-'')
          (no_props\<lparr>margin := Some [0, 0, 0, 20]\<rparr>)]
       (no_props\<lparr>unbreakable := Some True\<rparr>)"

definition pumpPreparationSection :: "Checkboxes \<Rightarrow> language \<Rightarrow> Content" where
  "pumpPreparationSection checkboxes language =
     ContentStack
       [ContentText (sel sectionTitles_pumpPreparation language)
          (no_props\<lparr>style := Some ''sectionHeader'', margin := Some [0, 20, 0, 10]\<rparr>),
        ContentStack (pumpPreparationItems checkboxes language)
          (no_props\<lparr>margin := Some [0, 10, 0, 20]\<rparr>)]
       (no_props\<lparr>unbreakable := Some True\<rparr>)"

definition preparationChecklistSection :: "FormData \<Rightarrow> Checkboxes \<Rightarrow> language \<Rightarrow> Content" where
  "preparationChecklistSection formData checkboxes language =
     ContentStack
       [ContentText (sel sectionTitles_preparationChecklist language)
          (no_props\<lparr>style := Some ''sectionHeader'', margin := Some [0, 20, 0, 10]\<rparr>),
        ContentStack (preServiceChecklist formData checkboxes language)
          (no_props\<lparr>margin := Some [0, 10, 0, 20]\<rparr>)]
       (no_props\<lparr>unbreakable := Some True\<rparr>)"

definition importantNotesSection :: "language \<Rightarrow> Content" where
  "importantNotesSection language =
     ContentStack
       [ContentText (sel sectionTitles_importantNotes language)
          (no_props\<lparr>style := Some ''subHeader'', margin := Some [0, 20, 0, 10]\<rparr>),
        ContentUnorderedList (map (\<lambda>note. sel note language) importantNotes)
          (no_props\<lparr>style := Some ''list''\<rparr>)]
       (no_props\<lparr>unbreakable := Some True\<rparr>)"

definition docStyles :: "(string \<times> props) list" where
  "docStyles =
     [(''title'', no_props\<lparr>fontSize := Some 20, bold := Some True, alignment := Some ''center'',
         color := Some ''#111827'', margin := Some [0, 0, 0, 20]\<rparr>),
      (''headerCompany'', no_props\<lparr>fontSize := Some 14, bold := Some True,
         color := Some ''#111827'', margin := Some [0, 0, 0, 10]\<rparr>),
      (''headerAddress'', no_props\<lparr>fontSize := Some 9, color := Some ''#4B5563'',
         lineHeight := Some 1.2\<rparr>),
      (''headerDoc'', no_props\<lparr>fontSize := Some 9, color := Some ''#4B5563'',
         lineHeight := Some 1.2, alignment := Some ''right''\<rparr>),
      (''sectionHeader'', no_props\<lparr>fontSize := Some 14, bold := Some True,
         color := Some ''#111827'', fillColor := Some ''#F9FAFB'',
         margin := Some [10, 20, 10, 10]\<rparr>),
      (''subHeader'', no_props\<lparr>fontSize := Some 12, bold := Some True,
         color := Some ''#374151'', margin := Some [0, 15, 0, 8]\<rparr>),
      (''label'', no_props\<lparr>fontSize := Some 11, bold := Some True, color := Some ''#374151''\<rparr>),
      (''list'', no_props\<lparr>fontSize := Some 11, color := Some ''#4B5563'',
         lineHeight := Some 1.6, margin := Some [20, 0, 20, 0]\<rparr>)]"

definition docDefinition ::
  "FormData \<Rightarrow> Checkboxes \<Rightarrow> language \<Rightarrow> string \<Rightarrow> string \<Rightarrow> string \<Rightarrow> string
     \<Rightarrow> TDocumentDefinitions" where
  "docDefinition formData checkboxes language logoBase64 qrBase64 date1 date2 =
     \<lparr>info = None,
      pageSize = ''A4'',
      pageMargins = [40, 40, 40, 60],
      defaultStyle = no_props\<lparr>font := Some ''Roboto'', fontSize := Some 11,
        lineHeight := Some 1.2, color := Some ''#1F2937''\<rparr>,
      content =
        [companyHeader logoBase64 qrBase64 date1 date2 language,
         customerDetailsSection formData language,
         pumpInformationSection formData language,
         operatingConditionsSection formData language,
         pumpPreparationSection checkboxes language,
         preparationChecklistSection formData checkboxes language,
         importantNotesSection language],
      styles = docStyles\<rparr>"

text \<open>The document handed to \<open>pdfMake.createPdf\<close>: the definition after the pass over it.\<close>

definition builtDocument ::
  "FormData \<Rightarrow> Checkboxes \<Rightarrow> language \<Rightarrow> string \<Rightarrow> string \<Rightarrow> string \<Rightarrow> string
     \<Rightarrow> TDocumentDefinitions" where
  "builtDocument formData checkboxes language logoBase64 qrBase64 date1 date2 =
     applyTableLayouts
       (docDefinition formData checkboxes language logoBase64 qrBase64 date1 date2)"

section \<open>The composer of \<^verbatim>\<open>src/unnamed/part_003\<close>\<close>

text \<open>
  The second file declares the same names; its definitions carry the suffix \<open>_p3\<close>.
  Its Thai literals differ from the first file's in several letters.
\<close>

subsection \<open>Its tables of texts\<close>

definition sectionTitles_p3_customerDetails :: bilingual where
  "sectionTitles_p3_customerDetails =
    \<lparr>en = ''1. Customer Details'',
     th = ''1. '' @ utf8 [0xE23, 0xE32, 0xE22, 0xE25, 0xE30, 0xE40, 0xE2D, 0xE35, 0xE22, 0xE14,
           0xE25, 0xE39, 0xE01, 0xE04, 0xE49, 0xE32]\<rparr>"

definition sectionTitles_p3_pumpInfo :: bilingual where
  "sectionTitles_p3_pumpInfo =
    \<lparr>en = ''2. Pump Information'',
     th = ''2. '' @ utf8 [0xE02, 0xE49, 0xE2D, 0xE21, 0xE39, 0xE25, 0xE1B, 0xE31, 0xE4A,
           0xE21]\<rparr>"

definition sectionTitles_p3_operatingConditions :: bilingual where
  "sectionTitles_p3_operatingConditions =
    \<lparr>en = ''3. Operating Conditions'',
     th = ''3. '' @ utf8 [0xE2A, 0xE20, 0xE32, 0xE27, 0xE30, 0xE01, 0xE32, 0xE23, 0xE17, 0xE33,
           0xE07, 0xE32, 0xE19, 0xE08, 0xE23, 0xE34, 0xE07]\<rparr>"

definition sectionTitles_p3_preparationChecklist :: bilingual where
  "sectionTitles_p3_preparationChecklist =
    \<lparr>en = ''4. Customer Preparation Checklist'',
     th = ''4. '' @ utf8 [0xE23, 0xE32, 0xE22, 0xE01, 0xE32, 0xE23, 0xE40, 0xE15, 0xE23, 0xE35,
           0xE22, 0xE21, 0xE04, 0xE27, 0xE32, 0xE21, 0xE1E, 0xE23, 0xE49, 0xE2D, 0xE21, 0xE02,
           0xE2D, 0xE07, 0xE25, 0xE39, 0xE01, 0xE04, 0xE49, 0xE32]\<rparr>"

definition sectionTitles_p3_preServiceRequirements :: bilingual where
  "sectionTitles_p3_preServiceRequirements =
    \<lparr>en = ''Pre-Service Requirements'',
     th = utf8 [0xE02, 0xE49, 0xE2D, 0xE01, 0xE33, 0xE2B, 0xE19, 0xE14, 0xE01, 0xE48, 0xE2D,
           0xE19, 0xE40, 0xE02, 0xE49, 0xE32, 0xE0B, 0xE48, 0xE2D, 0xE21]\<rparr>"

definition sectionTitles_p3_importantNotes :: bilingual where
  "sectionTitles_p3_importantNotes =
    \<lparr>en = ''Important Notes:'',
     th = utf8 [0xE2B, 0xE21, 0xE32, 0xE22, 0xE40, 0xE2B, 0xE15, 0xE38, 0xE2A, 0xE33, 0xE04,
           0xE31, 0xE0D] @ '':''\<rparr>"

definition importantNotes_p3 :: "bilingual list" where
  "importantNotes_p3 =
   [\<lparr>en = ''All work must be performed by qualified personnel only'',
     th = utf8 [0xE07, 0xE17, 0xE31, 0xE49, 0xE07, 0xE2B, 0xE21, 0xE14, 0xE15, 0xE49, 0xE2D,
           0xE07, 0xE14, 0xE33, 0xE40, 0xE19, 0xE34, 0xE01, 0xE32, 0xE23, 0xE42, 0xE14, 0xE22,
           0xE1A, 0xE38, 0xE04, 0xE25, 0xE32, 0xE01, 0xE23, 0xE17, 0xE35, 0xE48, 0xE21, 0xE35,
           0xE04, 0xE38, 0xE13, 0xE2A, 0xE21, 0xE1A, 0xE31, 0xE15, 0xE34, 0xE40, 0xE17, 0xE48,
           0xE32, 0xE19, 0xE31, 0xE49, 0xE19]\<rparr>,
    \<lparr>en = ''Maintain proper documentation throughout the service process'',
     th = utf8 [0xE23, 0xE31, 0xE01, 0xE29, 0xE32, 0xE40, 0xE2D, 0xE01, 0xE2A, 0xE32, 0xE23,
           0xE17, 0xE35, 0xE48, 0xE40, 0xE2B, 0xE21, 0xE32, 0xE30, 0xE2A, 0xE21, 0xE15, 0xE25,
           0xE2D, 0xE14, 0xE01, 0xE23, 0xE30, 0xE1A, 0xE27, 0xE19, 0xE01, 0xE32, 0xE23, 0xE43,
           0xE2B, 0xE49, 0xE1A, 0xE23, 0xE34, 0xE01, 0xE32, 0xE23]\<rparr>,
    \<lparr>en = ''Use only OEM parts or approved equivalents'',
     th = utf8 [0xE43, 0xE0A, 0xE49, 0xE40, 0xE09, 0xE1E, 0xE32, 0xE30, 0xE0A, 0xE34, 0xE49,
           0xE19, 0xE2A, 0xE48, 0xE27, 0xE19] @ '' OEM '' @ utf8 [0xE2B, 0xE23, 0xE37, 0xE2D,
           0xE0A, 0xE34, 0xE49, 0xE19, 0xE2A, 0xE48, 0xE27, 0xE19, 0xE17, 0xE35, 0xE48, 0xE44,
           0xE14, 0xE49, 0xE23, 0xE31, 0xE1A, 0xE01, 0xE32, 0xE23, 0xE2D, 0xE19, 0xE38, 0xE21,
           0xE31, 0xE15, 0xE34, 0xE40, 0xE17, 0xE48, 0xE32, 0xE19, 0xE31, 0xE49, 0xE19]\<rparr>,
    \<lparr>en = ''Follow all safety protocols, especially regarding magnetic coupling hazards'',
     th = utf8 [0xE1B, 0xE0F, 0xE34, 0xE1A, 0xE31, 0xE15, 0xE34, 0xE15, 0xE32, 0xE21, 0xE42,
           0xE1B, 0xE23, 0xE42, 0xE15, 0xE04, 0xE2D, 0xE25, 0xE04, 0xE27, 0xE32, 0xE21, 0xE1B,
           0xE25, 0xE2D, 0xE14, 0xE20, 0xE31, 0xE22, 0xE17, 0xE31, 0xE49, 0xE07, 0xE2B, 0xE21,
           0xE14] @ '' '' @ utf8 [0xE42, 0xE14, 0xE22, 0xE40, 0xE09, 0xE1E, 0xE32, 0xE30, 0xE2D,
           0xE22, 0xE48, 0xE32, 0xE07, 0xE22, 0xE34, 0xE48, 0xE07, 0xE40, 0xE01, 0xE35, 0xE48,
           0xE22, 0xE27, 0xE01, 0xE31, 0xE1A, 0xE2D, 0xE31, 0xE19, 0xE15, 0xE23, 0xE32, 0xE22,
           0xE08, 0xE32, 0xE01, 0xE01, 0xE32, 0xE23, 0xE40, 0xE0A, 0xE37, 0xE48, 0xE2D, 0xE21,
           0xE15, 0xE48, 0xE2D, 0xE41, 0xE21, 0xE48, 0xE40, 0xE2B, 0xE25, 0xE47, 0xE01]\<rparr>,
    \<lparr>en = ''Refer to manufacturer's manual for specific torque values and clearances'',
     th = utf8 [0xE2D, 0xE49, 0xE32, 0xE07, 0xE2D, 0xE34, 0xE07, 0xE04, 0xE39, 0xE48, 0xE21,
           0xE37, 0xE2D, 0xE02, 0xE2D, 0xE07, 0xE1C, 0xE39, 0xE49, 0xE1C, 0xE25, 0xE34, 0xE15,
           0xE2A, 0xE33, 0xE2B, 0xE23, 0xE31, 0xE1A, 0xE04, 0xE48, 0xE32, 0xE41, 0xE23, 0xE07,
           0xE1A, 0xE34, 0xE14, 0xE41, 0xE25, 0xE30, 0xE23, 0xE30, 0xE22, 0xE30, 0xE2B, 0xE48,
           0xE32, 0xE07, 0xE17, 0xE35, 0xE48, 0xE40, 0xE09, 0xE1E, 0xE32, 0xE30, 0xE40, 0xE08,
           0xE32, 0xE30, 0xE08]\<rparr>]"

definition translations_p3_company :: bilingual where
  "translations_p3_company =
    \<lparr>en = ''Company:'',
     th = utf8 [0xE1A, 0xE23, 0xE34, 0xE29, 0xE31, 0xE17] @ '':''\<rparr>"

definition translations_p3_siteLocation :: bilingual where
  "translations_p3_siteLocation =
    \<lparr>en = ''Site Location:'',
     th = utf8 [0xE2A, 0xE16, 0xE32, 0xE19, 0xE17, 0xE35, 0xE48, 0xE15, 0xE34, 0xE14, 0xE15,
           0xE31, 0xE49, 0xE07] @ '':''\<rparr>"

definition translations_p3_contactPerson :: bilingual where
  "translations_p3_contactPerson =
    \<lparr>en = ''Contact Person:'',
     th = utf8 [0xE1C, 0xE39, 0xE49, 0xE15, 0xE34, 0xE14, 0xE15, 0xE48, 0xE2D] @ '':''\<rparr>"

definition translations_p3_department :: bilingual where
  "translations_p3_department =
    \<lparr>en = ''Department:'',
     th = utf8 [0xE41, 0xE1C, 0xE19, 0xE01] @ '':''\<rparr>"

definition translations_p3_phone :: bilingual where
  "translations_p3_phone =
    \<lparr>en = ''Phone:'',
     th = utf8 [0xE42, 0xE17, 0xE23, 0xE28, 0xE31, 0xE1E, 0xE17, 0xE4C] @ '':''\<rparr>"

definition translations_p3_email :: bilingual where
  "translations_p3_email =
    \<lparr>en = ''Email:'',
     th = utf8 [0xE2D, 0xE35, 0xE40, 0xE21, 0xE25] @ '':''\<rparr>"

definition translations_p3_pumpModel :: bilingual where
  "translations_p3_pumpModel =
    \<lparr>en = ''Pump Model:'',
     th = utf8 [0xE23, 0xE38, 0xE48, 0xE19, 0xE1B, 0xE31, 0xE4A, 0xE21] @ '':''\<rparr>"

definition translations_p3_serialNumber :: bilingual where
  "translations_p3_serialNumber =
    \<lparr>en = ''Serial Number:'',
     th = utf8 [0xE2B, 0xE21, 0xE32, 0xE22, 0xE40, 0xE25, 0xE02, 0xE40, 0xE04, 0xE23, 0xE37,
           0xE48, 0xE2D, 0xE07] @ '':''\<rparr>"

definition translations_p3_yearOfManufacture :: bilingual where
  "translations_p3_yearOfManufacture =
    \<lparr>en = ''Year of Manufacture:'',
     th = utf8 [0xE1B, 0xE35, 0xE17, 0xE35, 0xE48, 0xE1C, 0xE25, 0xE34, 0xE15] @ '':''\<rparr>"

definition translations_p3_operatingHours :: bilingual where
  "translations_p3_operatingHours =
    \<lparr>en = ''Operating Hours:'',
     th = utf8 [0xE0A, 0xE31, 0xE48, 0xE27, 0xE42, 0xE21, 0xE07, 0xE01, 0xE32, 0xE23, 0xE17,
           0xE33, 0xE07, 0xE32, 0xE19] @ '':''\<rparr>"

definition translations_p3_lastServiceDate :: bilingual where
  "translations_p3_lastServiceDate =
    \<lparr>en = ''Last Service Date:'',
     th = utf8 [0xE27, 0xE31, 0xE19, 0xE17, 0xE35, 0xE48, 0xE40, 0xE02, 0xE49, 0xE32, 0xE0B,
           0xE48, 0xE2D, 0xE21, 0xE04, 0xE23, 0xE31, 0xE49, 0xE07, 0xE25, 0xE48, 0xE32, 0xE2A,
           0xE38, 0xE14] @ '':''\<rparr>"

definition translations_p3_installationDate :: bilingual where
  "translations_p3_installationDate =
    \<lparr>en = ''Installation Date:'',
     th = utf8 [0xE27, 0xE31, 0xE19, 0xE17, 0xE35, 0xE48, 0xE15, 0xE34, 0xE14, 0xE15, 0xE31,
           0xE49, 0xE07] @ '':''\<rparr>"

definition translations_p3_temperature :: bilingual where
  "translations_p3_temperature =
    \<lparr>en = ''Temperature ('' @ utf8 [0xB0] @ ''C):'',
     th = utf8 [0xE2D, 0xE38, 0xE13, 0xE2B, 0xE20, 0xE39, 0xE21, 0xE34] @ '' ('' @ utf8 [0xB0] @
           ''C):''\<rparr>"

definition translations_p3_flowRate :: bilingual where
  "translations_p3_flowRate =
    \<lparr>en = ''Flow Rate (m'' @ utf8 [0xB3] @ ''/h):'',
     th = utf8 [0xE2D, 0xE31, 0xE15, 0xE23, 0xE32, 0xE01, 0xE32, 0xE23, 0xE44, 0xE25] @ '' (m'' @
           utf8 [0xB3] @ ''/h):''\<rparr>"

definition translations_p3_suctionPressure :: bilingual where
  "translations_p3_suctionPressure =
    \<lparr>en = ''Suction Pressure (bar):'',
     th = utf8 [0xE41, 0xE23, 0xE07, 0xE14, 0xE31, 0xE19, 0xE14, 0xE49, 0xE32, 0xE19, 0xE14,
           0xE39, 0xE14] @ '' (bar):''\<rparr>"

definition translations_p3_dischargePressure :: bilingual where
  "translations_p3_dischargePressure =
    \<lparr>en = ''Discharge Pressure (bar):'',
     th = utf8 [0xE41, 0xE23, 0xE07, 0xE14, 0xE31, 0xE19, 0xE14, 0xE49, 0xE32, 0xE19, 0xE2A,
           0xE48, 0xE07] @ '' (bar):''\<rparr>"

definition translations_p3_totalHead :: bilingual where
  "translations_p3_totalHead =
    \<lparr>en = ''Total Head (m):'',
     th = utf8 [0xE40, 0xE2E, 0xE14, 0xE23, 0xE27, 0xE21] @ '' (m):''\<rparr>"

definition translations_p3_pumpedMedium :: bilingual where
  "translations_p3_pumpedMedium =
    \<lparr>en = ''Pumped Medium:'',
     th = utf8 [0xE02, 0xE2D, 0xE07, 0xE40, 0xE2B, 0xE25, 0xE27, 0xE17, 0xE35, 0xE48, 0xE2A,
           0xE39, 0xE1A] @ '':''\<rparr>"

definition translations_p3_serviceReason :: bilingual where
  "translations_p3_serviceReason =
    \<lparr>en = ''Description of Issues/Reason for Service:'',
     th = utf8 [0xE23, 0xE32, 0xE22, 0xE25, 0xE30, 0xE40, 0xE2D, 0xE35, 0xE22, 0xE14, 0xE1B,
           0xE31, 0xE0D, 0xE2B, 0xE32] @ ''/'' @ utf8 [0xE40, 0xE2B, 0xE15, 0xE38, 0xE1C, 0xE25,
           0xE43, 0xE19, 0xE01, 0xE32, 0xE23, 0xE40, 0xE02, 0xE49, 0xE32, 0xE0B, 0xE48, 0xE2D,
           0xE21] @ '':''\<rparr>"

subsection \<open>The checklist items\<close>

definition checklistLabel_p3_system_flush :: bilingual where
  "checklistLabel_p3_system_flush =
    \<lparr>en = ''System flushed (if hazardous/hardening materials)'',
     th = utf8 [0xE25, 0xE49, 0xE32, 0xE07, 0xE23, 0xE30, 0xE1A, 0xE1A, 0xE41, 0xE25, 0xE49,
           0xE27] @ '' ('' @ utf8 [0xE01, 0xE23, 0xE13, 0xE35, 0xE2A, 0xE32, 0xE23, 0xE2D, 0xE31,
           0xE19, 0xE15, 0xE23, 0xE32, 0xE22] @ ''/'' @ utf8 [0xE2A, 0xE32, 0xE23, 0xE17, 0xE35,
           0xE48, 0xE41, 0xE02, 0xE47, 0xE07, 0xE15, 0xE31, 0xE27] @ '')''\<rparr>"

definition checklistLabel_p3_harmless_form :: bilingual where
  "checklistLabel_p3_harmless_form =
    \<lparr>en = ''Declaration of Harmlessness form (in the operation manual)'',
     th = utf8 [0xE41, 0xE1A, 0xE1A, 0xE1F, 0xE2D, 0xE23, 0xE4C, 0xE21, 0xE01, 0xE32, 0xE23,
           0xE1B, 0xE23, 0xE30, 0xE01, 0xE32, 0xE28, 0xE04, 0xE27, 0xE32, 0xE21, 0xE44, 0xE21,
           0xE48, 0xE40, 0xE1B, 0xE47, 0xE19, 0xE2D, 0xE31, 0xE19, 0xE15, 0xE23, 0xE32, 0xE22] @
           '' ('' @ utf8 [0xE43, 0xE19, 0xE04, 0xE39, 0xE48, 0xE21, 0xE37, 0xE2D, 0xE01, 0xE32,
           0xE23, 0xE43, 0xE0A, 0xE49, 0xE07, 0xE32, 0xE19] @ '')''\<rparr>"

definition checklistLabel_p3_sds :: bilingual where
  "checklistLabel_p3_sds =
    \<lparr>en = ''Safety Data Sheet (SDS) available'',
     th = utf8 [0xE21, 0xE35, 0xE40, 0xE2D, 0xE01, 0xE2A, 0xE32, 0xE23, 0xE02, 0xE49, 0xE2D,
           0xE21, 0xE39, 0xE25, 0xE04, 0xE27, 0xE32, 0xE21, 0xE1B, 0xE25, 0xE2D, 0xE14, 0xE20,
           0xE31, 0xE22] @ '' (SDS)''\<rparr>"

definition checklistLabel_p3_alignment_report :: bilingual where
  "checklistLabel_p3_alignment_report =
    \<lparr>en = ''Alignment report available'',
     th = utf8 [0xE21, 0xE35, 0xE23, 0xE32, 0xE22, 0xE07, 0xE32, 0xE19, 0xE01, 0xE32, 0xE23,
           0xE1B, 0xE23, 0xE31, 0xE1A, 0xE41, 0xE19, 0xE27, 0xE40, 0xE1E, 0xE25, 0xE32]\<rparr>"

definition checklistLabel_p3_operation_records :: bilingual where
  "checklistLabel_p3_operation_records =
    \<lparr>en = ''Operation records available'',
     th = utf8 [0xE21, 0xE35, 0xE1A, 0xE31, 0xE19, 0xE17, 0xE36, 0xE01, 0xE01, 0xE32, 0xE23,
           0xE17, 0xE33, 0xE07, 0xE32, 0xE19]\<rparr>"

definition safetyTrainingLabel_p3 :: "FormData \<Rightarrow> bilingual" where
  "safetyTrainingLabel_p3 formData =
    \<lparr>en = ''Safety Training required? '' @
           (case training_hours formData of
              Some hours \<Rightarrow> if truthy hours then ''('' @ hours @ '' hours)'' else []
            | None \<Rightarrow> []),
     th = utf8 [0xE15, 0xE49, 0xE2D, 0xE07, 0xE01, 0xE32, 0xE23, 0xE01, 0xE32, 0xE23, 0xE1D,
            0xE36, 0xE01, 0xE2D, 0xE1A, 0xE23, 0xE21, 0xE04, 0xE27, 0xE32, 0xE21, 0xE1B, 0xE25,
            0xE2D, 0xE14, 0xE20, 0xE31, 0xE22, 0xE2B, 0xE23, 0xE37, 0xE2D, 0xE44, 0xE21, 0xE48] @
            ''? '' @
           (case training_hours formData of
              Some hours \<Rightarrow>
                if truthy hours
                then ''('' @ hours @ '' '' @ utf8 [0xE0A, 0xE31, 0xE48, 0xE27, 0xE42, 0xE21,
                                       0xE07] @ '')''
                else []
            | None \<Rightarrow> [])\<rparr>"

definition preServiceChecklist_p3 :: "FormData \<Rightarrow> Checkboxes_p3 \<Rightarrow> language \<Rightarrow> Content list" where
  "preServiceChecklist_p3 formData checkboxes language =
     [createCheckboxItem (system_flush checkboxes)
        (cond language checklistLabel_p3_system_flush),
      createCheckboxItem (safety_training checkboxes)
        (cond language (safetyTrainingLabel_p3 formData)),
      createCheckboxItem (harmless_form checkboxes)
        (cond language checklistLabel_p3_harmless_form),
      createCheckboxItem (sds checkboxes) (cond language checklistLabel_p3_sds),
      createCheckboxItem (alignment_report checkboxes)
        (cond language checklistLabel_p3_alignment_report),
      createCheckboxItem (operation_records checkboxes)
        (cond language checklistLabel_p3_operation_records)]"

subsection \<open>The content array\<close>

text \<open>The header and the title are conditionals in place as well; their literals:\<close>

definition headerText_p3_company :: bilingual where
  "headerText_p3_company =
    \<lparr>en = ''Water Field Asia Co., Ltd.'',
     th = utf8 [0xE1A, 0xE23, 0xE34, 0xE29, 0xE31, 0xE17] @ '' '' @ utf8 [0xE27, 0xE2D, 0xE40,
           0xE15, 0xE2D, 0xE23, 0xE4C, 0xE1F, 0xE34, 0xE25, 0xE14, 0xE4C] @ '' '' @ utf8 [0xE40,
           0xE2D, 0xE40, 0xE0A, 0xE35, 0xE22] @ '' '' @ utf8 [0xE08, 0xE33, 0xE01, 0xE31,
           0xE14]\<rparr>"

definition headerText_p3_address1 :: bilingual where
  "headerText_p3_address1 =
    \<lparr>en = ''623 Soi Onnut 70/1 Sub 2'',
     th = ''623 '' @ utf8 [0xE0B, 0xE2D, 0xE22, 0xE2D, 0xE48, 0xE2D, 0xE19, 0xE19, 0xE38,
           0xE0A] @ '' 70/1 '' @ utf8 [0xE41, 0xE22, 0xE01] @ '' 2''\<rparr>"

definition headerText_p3_address2 :: bilingual where
  "headerText_p3_address2 =
    \<lparr>en = ''Pravet Sub-District, Pravet District,'',
     th = utf8 [0xE41, 0xE02, 0xE27, 0xE07, 0xE1B, 0xE23, 0xE30, 0xE40, 0xE27, 0xE28] @ '' '' @
           utf8 [0xE40, 0xE02, 0xE15, 0xE1B, 0xE23, 0xE30, 0xE40, 0xE27, 0xE28]\<rparr>"

definition headerText_p3_address3 :: bilingual where
  "headerText_p3_address3 =
    \<lparr>en = ''Bangkok 10250'',
     th = utf8 [0xE01, 0xE23, 0xE38, 0xE07, 0xE40, 0xE17, 0xE1E, 0xE21, 0xE2B, 0xE32, 0xE19,
           0xE04, 0xE23] @ '' 10250''\<rparr>"

definition headerText_p3_phone :: bilingual where
  "headerText_p3_phone =
    \<lparr>en = ''Tel.: +66 2320 1994'',
     th = utf8 [0xE42, 0xE17, 0xE23] @ '': +66 2320 1994''\<rparr>"

definition headerText_p3_docNo :: bilingual where
  "headerText_p3_docNo =
    \<lparr>en = ''Document No: FM-WFA-SER-057'',
     th = utf8 [0xE40, 0xE25, 0xE02, 0xE17, 0xE35, 0xE48, 0xE40, 0xE2D, 0xE01, 0xE2A, 0xE32,
           0xE23] @ '': FM-WFA-SER-057''\<rparr>"

definition headerText_p3_revision :: bilingual where
  "headerText_p3_revision =
    \<lparr>en = ''Revision: 00'',
     th = utf8 [0xE41, 0xE01, 0xE49, 0xE44, 0xE02, 0xE04, 0xE23, 0xE31, 0xE49, 0xE07, 0xE17,
           0xE35, 0xE48] @ '': 00''\<rparr>"

definition headerText_p3_date :: bilingual where
  "headerText_p3_date =
    \<lparr>en = ''Date: 15.11.2024'',
     th = utf8 [0xE27, 0xE31, 0xE19, 0xE17, 0xE35, 0xE48] @ '': 15.11.2024''\<rparr>"

definition titleText_p3 :: bilingual where
  "titleText_p3 =
    \<lparr>en = ''Pump Service Checklist'',
     th = utf8 [0xE23, 0xE32, 0xE22, 0xE01, 0xE32, 0xE23, 0xE15, 0xE23, 0xE27, 0xE08, 0xFFFD,
           0xFFFD, 0xE2D, 0xE1A, 0xE01, 0xE32, 0xE23, 0xE1A, 0xE23, 0xE34, 0xE01, 0xE32, 0xE23,
           0xE1B, 0xE31, 0xE4A, 0xE21]\<rparr>"

definition companyHeader_p3 :: "string \<Rightarrow> string \<Rightarrow> language \<Rightarrow> Content" where
  "companyHeader_p3 logoBase64 qrBase64 language =
     ContentColumns
       [ContentImage logoBase64
          (no_props\<lparr>width := Some (SizeNum 200), fit := Some [200, 100],
             margin := Some [0, 0, 20, 0]\<rparr>),
        ContentStack
          [ContentText (cond language headerText_p3_company)
             (no_props\<lparr>style := Some ''headerCompany''\<rparr>),
           ContentText (cond language headerText_p3_address1)
             (no_props\<lparr>style := Some ''headerAddress''\<rparr>),
           ContentText (cond language headerText_p3_address2)
             (no_props\<lparr>style := Some ''headerAddress''\<rparr>),
           ContentText (cond language headerText_p3_address3)
             (no_props\<lparr>style := Some ''headerAddress''\<rparr>),
           ContentText (cond language headerText_p3_phone)
             (no_props\<lparr>style := Some ''headerAddress''\<rparr>)]
          (no_props\<lparr>width := Some SizeStar, margin := Some [0, 5, 0, 0]\<rparr>),
        ContentStack
          [ContentText (cond language headerText_p3_docNo)
             (no_props\<lparr>style := Some ''headerDoc''\<rparr>),
           ContentText (cond language headerText_p3_revision)
             (no_props\<lparr>style := Some ''headerDoc''\<rparr>),
           ContentText (cond language headerText_p3_date)
             (no_props\<lparr>style := Some ''headerDoc''\<rparr>),
           ContentImage qrBase64
             (no_props\<lparr>width := Some (SizeNum 80), margin := Some [0, 10, 0, 0],
                alignment := Some ''right''\<rparr>)]
          (no_props\<lparr>width := Some SizeAuto, margin := Some [20, 5, 0, 0]\<rparr>)]
       (no_props\<lparr>margin := Some [0, 0, 0, 30]\<rparr>)"

definition content_p3 ::
  "FormData \<Rightarrow> Checkboxes_p3 \<Rightarrow> language \<Rightarrow> string \<Rightarrow> string \<Rightarrow> Content list" where
  "content_p3 formData checkboxes language logoBase64 qrBase64 =
     [companyHeader_p3 logoBase64 qrBase64 language,
      ContentCanvas [CanvasFilledRect 0 0 515 40 4 ''#F3F4F6''] no_props,
      ContentText (cond language titleText_p3)
        (no_props\<lparr>style := Some ''title'', margin := Some [0, -30, 0, 30]\<rparr>),
      ContentText (sel sectionTitles_p3_customerDetails language)
        (no_props\<lparr>style := Some ''sectionHeader''\<rparr>),
      ContentTable (LayoutName ''lightHorizontalLines'') [''30%'', ''70%''] 0
        [kvRow (sel translations_p3_company language) (company formData),
         kvRow (sel translations_p3_siteLocation language) (site_location formData),
         kvRow (sel translations_p3_contactPerson language) (contact_person formData),
         kvRow (sel translations_p3_department language) (department formData),
         kvRow (sel translations_p3_phone language) (phone formData),
         kvRow (sel translations_p3_email language) (email formData)],
      ContentText (sel sectionTitles_p3_pumpInfo language)
        (no_props\<lparr>style := Some ''sectionHeader'', margin := Some [0, 20, 0, 10]\<rparr>),
      ContentTable (LayoutName ''lightHorizontalLines'') [''30%'', ''70%''] 0
        [kvRow (sel translations_p3_pumpModel language) (pump_model formData),
         kvRow (sel translations_p3_serialNumber language) (serial_number formData),
         kvRow (sel translations_p3_yearOfManufacture language) (manufacture_year formData),
         kvRow (sel translations_p3_operatingHours language) (operating_hours formData),
         kvRow (sel translations_p3_lastServiceDate language) (last_service_date formData),
         kvRow (sel translations_p3_installationDate language) (installation_date formData)],
      ContentText (sel sectionTitles_p3_operatingConditions language)
        (no_props\<lparr>style := Some ''sectionHeader'', margin := Some [0, 20, 0, 10]\<rparr>),
      ContentTable (LayoutName ''lightHorizontalLines'') [''30%'', ''70%''] 0
        [kvRow (sel translations_p3_temperature language) (temperature formData),
         kvRow (sel translations_p3_flowRate language) (flow_rate formData),
         kvRow (sel translations_p3_suctionPressure language) (suction_pressure formData),
         kvRow (sel translations_p3_dischargePressure language) (discharge_pressure formData),
         kvRow (sel translations_p3_totalHead language) (total_head formData),
         kvRow (sel translations_p3_pumpedMedium language) (pumped_medium formData)],
      ContentText (sel translations_p3_serviceReason language)
        (no_props\<lparr>style := Some ''label'', margin := Some [0, 10, 0, 5]\<rparr>),
      ContentText (js_or (service_reason formData) ''-'')
        (no_props\<lparr>margin := Some [0, 0, 0, 20]\<rparr>),
      ContentText (sel sectionTitles_p3_preparationChecklist language)
        (no_props\<lparr>style := Some ''sectionHeader'', margin := Some [0, 20, 0, 10]\<rparr>),
      ContentText (sel sectionTitles_p3_preServiceRequirements language)
        (no_props\<lparr>style := Some ''subHeader'', margin := Some [0, 10, 0, 10]\<rparr>)]
     @ preServiceChecklist_p3 formData checkboxes language @
     [ContentText (sel sectionTitles_p3_importantNotes language)
        (no_props\<lparr>style := Some ''subHeader'', margin := Some [0, 20, 0, 10]\<rparr>),
      ContentUnorderedList (map (\<lambda>note. sel note language) importantNotes_p3)
        (no_props\<lparr>style := Some ''list''\<rparr>)]"

definition docStyles_p3 :: "(string \<times> props) list" where
  "docStyles_p3 =
     [(''title'', no_props\<lparr>fontSize := Some 20, bold := Some True, alignment := Some ''center'',
         color := Some ''#111827'', margin := Some [0, 0, 0, 20]\<rparr>),
      (''headerCompany'', no_props\<lparr>fontSize := Some 16, bold := Some True,
         color := Some ''#111827'', margin := Some [0, 0, 0, 8]\<rparr>),
      (''headerAddress'', no_props\<lparr>fontSize := Some 11, color := Some ''#4B5563'',
         lineHeight := Some 1.6\<rparr>),
      (''headerDoc'', no_props\<lparr>fontSize := Some 10, color := Some ''#4B5563'',
         lineHeight := Some 1.6, alignment := Some ''right''\<rparr>),
      (''sectionHeader'', no_props\<lparr>fontSize := Some 14, bold := Some True,
         color := Some ''#111827'', fillColor := Some ''#F9FAFB'',
         margin := Some [10, 20, 10, 10]\<rparr>),
      (''subHeader'', no_props\<lparr>fontSize := Some 12, bold := Some True,
         color := Some ''#374151'', margin := Some [0, 15, 0, 8]\<rparr>),
      (''label'', no_props\<lparr>fontSize := Some 11, bold := Some True, color := Some ''#374151''\<rparr>),
      (''list'', no_props\<lparr>fontSize := Some 11, color := Some ''#4B5563'',
         lineHeight := Some 1.6, margin := Some [20, 0, 20, 0]\<rparr>)]"

definition docDefinition_p3 ::
  "FormData \<Rightarrow> Checkboxes_p3 \<Rightarrow> language \<Rightarrow> string \<Rightarrow> string \<Rightarrow> TDocumentDefinitions" where
  "docDefinition_p3 formData checkboxes language logoBase64 qrBase64 =
     \<lparr>info = Some
        \<lparr>info_title =
           (if language = En then ''Pump Service Checklist''
            else utf8 [0xE23, 0xE32, 0xE22, 0xE01, 0xE32, 0xE23, 0xE15, 0xE23, 0xE27, 0xE08,
                  0xE2A, 0xE2D, 0xE1A, 0xE01, 0xE32, 0xE23, 0xE1A, 0xE23, 0xE34, 0xE01, 0xE32,
                  0xE23, 0xE1B, 0xE31, 0xE4A, 0xE21]),
         info_author = ''Water Field Asia Co., Ltd.'',
         info_subject =
           (if language = En then ''Pre-Service Requirements''
            else utf8 [0xE02, 0xE49, 0xE2D, 0xE01, 0xE33, 0xE2B, 0xE19, 0xE14, 0xE01, 0xE48,
                  0xE2D, 0xE19, 0xE40, 0xE02, 0xE49, 0xE32, 0xE0B, 0xE48, 0xE2D, 0xE21]),
         info_keywords = ''pump, service, checklist''\<rparr>,
      pageSize = ''A4'',
      pageMargins = [40, 40, 40, 60],
      defaultStyle = no_props\<lparr>
        font := Some (if language = En then ''Roboto''
                      else ''THSarabunNew''),
        fontSize := Some (if language = En then 11 else 13),
        lineHeight := Some 1.2, color := Some ''#1F2937''\<rparr>,
      content = content_p3 formData checkboxes language logoBase64 qrBase64,
      styles = docStyles_p3\<rparr>"

definition builtDocument_p3 ::
  "FormData \<Rightarrow> Checkboxes_p3 \<Rightarrow> language \<Rightarrow> string \<Rightarrow> string \<Rightarrow> TDocumentDefinitions" where
  "builtDocument_p3 formData checkboxes language logoBase64 qrBase64 =
     applyTableLayouts (docDefinition_p3 formData checkboxes language logoBase64 qrBase64)"

section \<open>The browser and the rendering engine\<close>

text \<open>
  What \<open>generatePDF\<close> asks of its surroundings is a record of answers. A promise is
  resolved, rejected, or never settled. The second component of a result is the list of
  the calls made on the surroundings, in order.
\<close>

datatype error = Error string

datatype 'a promise = Resolved 'a | Rejected error | Pending

record Blob =
  blob_bytes :: string
  blob_type :: string

definition blob_size :: "Blob \<Rightarrow> nat" where
  "blob_size blob = length (blob_bytes blob)"

type_synonym TFontDictionary = "(string \<times> string list) list"

datatype pdf_result =
    GotBlob Blob
  | CreatePdfThrew error
  | GetBlobThrew error
  | NeverCalledBack

datatype event =
    Import string
  | Fetch string
  | ReadAsDataURL Blob
  | ImageSrc Blob
  | CanvasSize real real
  | GetContext2d
  | DrawImage real real
  | ToDataURL string real
  | SetVfs
  | SetFonts TFontDictionary
  | CreatePdf TDocumentDefinitions
  | ConsoleWarn string
  | ConsoleError string

text \<open>
  \<^item> \<open>window_defined\<close>: \<open>typeof window !== 'undefined'\<close>;
  \<^item> \<open>fetch_blob url\<close>: \<open>(await fetch(url)).blob()\<close>, or the rejection of either promise;
  \<^item> \<open>image_load blob\<close>: the \<open>img.width\<close> and \<open>img.height\<close> seen by \<open>img.onload\<close>, or \<open>None\<close>
    when the browser cannot decode the image: it then fires the \<open>error\<close> event, for which
    no handler is set, and \<open>onload\<close> is never called;
  \<^item> \<open>canvas_getContext blob\<close>: whether \<open>canvas.getContext('2d')\<close> is not null;
  \<^item> \<open>canvas_toDataURL blob w h type quality\<close>: what \<open>canvas.toDataURL\<close> returns after the
    image was drawn at \<open>w\<close> by \<open>h\<close>;
  \<^item> \<open>fileReader_result blob\<close>: \<open>reader.result\<close> after \<open>readAsDataURL(blob)\<close>;
  \<^item> \<open>locale_date1\<close>, \<open>locale_date2\<close>: the two results of \<open>toLocaleDateString\<close>;
  \<^item> \<open>pdfMake_getBlob fonts doc\<close>: what \<open>pdfMake.createPdf(doc).getBlob(callback)\<close> does
    with the registered fonts;
  \<^item> \<open>import_pdfmake\<close>, \<open>import_vfs_fonts\<close>: the dynamic imports of the second file, the
    latter with whether the module's default export is an object with a member \<open>vfs\<close>.
\<close>

record Env =
  window_defined :: bool
  fetch_blob :: "string \<Rightarrow> error + Blob"
  image_load :: "Blob \<Rightarrow> (nat \<times> nat) option"
  canvas_getContext :: "Blob \<Rightarrow> bool"
  canvas_toDataURL :: "Blob \<Rightarrow> real \<Rightarrow> real \<Rightarrow> string \<Rightarrow> real \<Rightarrow> string"
  fileReader_result :: "Blob \<Rightarrow> string"
  locale_date1 :: string
  locale_date2 :: string
  pdfMake_getBlob :: "TFontDictionary \<Rightarrow> TDocumentDefinitions \<Rightarrow> pdf_result"
  import_pdfmake :: "error option"
  import_vfs_fonts :: "error + bool"

section \<open>The image normalizer \<open>loadImage\<close> (the same text in both files)\<close>

definition maxImageSize :: nat where
  "maxImageSize = 500 * 1024"

text \<open>
  JavaScript numbers are IEEE-754 double precision values. A finite one is modelled by the
  real number it denotes, and an arithmetic operation of the source gives the double
  nearest to its exact result, a tie going to the even significand. The doubles of one
  binade are the integer multiples of its \<open>quantum\<close>, with a significand below \<open>2 ^ 53\<close>; the
  least quantum, that of the subnormal numbers, is \<open>1 / 2 ^ 1074\<close>, and \<open>binade_shift x\<close> is
  the binary logarithm of the quantum of \<open>x\<close> over the least one. \<open>fl x\<close> is the double
  nearest to \<open>x\<close>; \<open>js_div\<close> and \<open>js_mul\<close> are the operators \<^verbatim>\<open>/\<close> and \<^verbatim>\<open>*\<close> on finite doubles
  with a divisor other than zero. Overflow is not part of \<open>fl\<close>: \<open>img.width\<close> and \<open>img.height\<close>
  are unsigned 32-bit integers, every one of them a double, and with these and 800 as
  operands no quotient or product of \<open>img.onload\<close> leaves the finite range.
\<close>

definition round_even :: "real \<Rightarrow> int" where
  "round_even y =
     (let n = \<lfloor>y\<rfloor>; d = y - of_int n
      in if d < 1 / 2 then n else if 1 / 2 < d then n + 1 else if even n then n else n + 1)"

definition binade_shift :: "real \<Rightarrow> nat" where
  "binade_shift x = nat (bitlen \<lfloor>\<bar>x\<bar> * 2 ^ 1074\<rfloor> - 53)"

definition quantum :: "real \<Rightarrow> real" where
  "quantum x = 2 ^ binade_shift x / 2 ^ 1074"

definition fl :: "real \<Rightarrow> real" where
  "fl x = of_int (round_even (x / quantum x)) * quantum x"

definition js_div :: "real \<Rightarrow> real \<Rightarrow> real" where
  "js_div a b = fl (a / b)"

definition js_mul :: "real \<Rightarrow> real \<Rightarrow> real" where
  "js_mul a b = fl (a * b)"

text \<open>
  The arithmetic of \<open>img.onload\<close>:
  \<^verbatim>\<open>const aspectRatio = width / height;
  if (width > 800) { width = 800; height = width / aspectRatio; }
  if (height > 800) { height = 800; width = height * aspectRatio; }\<close>
  \<open>firstCap\<close> is the first conditional, \<open>secondCap\<close> the second. When \<open>img.height\<close> is zero the
  aspect ratio is \<open>Infinity\<close>, or \<open>NaN\<close> for a width of zero too: the first cap, if the width
  exceeds 800, sets the height to \<open>800 / Infinity\<close>, which is zero, and the second cap does
  not apply. \<open>targetDimensions\<close> gives the two numbers that are then assigned to
  \<open>canvas.width\<close> and \<open>canvas.height\<close> and passed to \<open>drawImage\<close>.
\<close>

definition firstCap :: "real \<Rightarrow> real \<times> real \<Rightarrow> real \<times> real" where
  "firstCap aspectRatio dims =
     (case dims of (width0, height0) \<Rightarrow>
        if width0 > 800 then (800, js_div 800 aspectRatio) else (width0, height0))"

definition secondCap :: "real \<Rightarrow> real \<times> real \<Rightarrow> real \<times> real" where
  "secondCap aspectRatio dims =
     (case dims of (width1, height1) \<Rightarrow>
        if height1 > 800 then (js_mul 800 aspectRatio, 800) else (width1, height1))"

definition targetDimensions :: "nat \<Rightarrow> nat \<Rightarrow> real \<times> real" where
  "targetDimensions img_width img_height =
     (if img_height = 0
      then (if img_width > 800 then (800, 0) else (real img_width, 0))
      else (let aspectRatio = js_div (real img_width) (real img_height)
            in secondCap aspectRatio (firstCap aspectRatio (real img_width, real img_height))))"

definition loadImage :: "Env \<Rightarrow> string \<Rightarrow> string promise \<times> event list" where
  "loadImage env url =
     (case fetch_blob env url of
        Inl e \<Rightarrow> (Rejected e, [Fetch url])
      | Inr blob \<Rightarrow>
          if blob_size blob > maxImageSize
          then (case image_load env blob of
                  None \<Rightarrow> (Pending, [Fetch url, ImageSrc blob])
                | Some (img_width, img_height) \<Rightarrow>
                    (case targetDimensions img_width img_height of
                       (new_width, new_height) \<Rightarrow>
                         if canvas_getContext env blob
                         then (Resolved
                                 (canvas_toDataURL env blob new_width new_height
                                    ''image/jpeg'' 0.7),
                               [Fetch url, ImageSrc blob, CanvasSize new_width new_height,
                                GetContext2d, DrawImage new_width new_height,
                                ToDataURL ''image/jpeg'' 0.7])
                         else (Resolved [],
                               [Fetch url, ImageSrc blob, CanvasSize new_width new_height,
                                GetContext2d])))
          else (Resolved (fileReader_result env blob), [Fetch url, ReadAsDataURL blob]))"

text \<open>\<open>Promise.all\<close> of two promises.\<close>

fun promise_all2 :: "'a promise \<Rightarrow> 'b promise \<Rightarrow> ('a \<times> 'b) promise" where
  "promise_all2 (Rejected e) q = Rejected e"
| "promise_all2 p (Rejected e) = Rejected e"
| "promise_all2 Pending q = Pending"
| "promise_all2 p Pending = Pending"
| "promise_all2 (Resolved a) (Resolved b) = Resolved (a, b)"

text \<open>
  The end of both functions: \<open>createPdf\<close> inside the outer \<open>try\<close>, \<open>getBlob\<close> inside the
  promise executor with its own \<open>try\<close>.
\<close>

definition renderPdf ::
  "Env \<Rightarrow> TFontDictionary \<Rightarrow> TDocumentDefinitions \<Rightarrow> event list
     \<Rightarrow> Blob option promise \<times> event list" where
  "renderPdf env fonts doc events =
     (case pdfMake_getBlob env fonts doc of
        GotBlob blob \<Rightarrow> (Resolved (Some blob), events @ [CreatePdf doc])
      | CreatePdfThrew e \<Rightarrow>
          (Rejected e, events @ [CreatePdf doc, ConsoleError ''Error loading PDF libraries:''])
      | GetBlobThrew e \<Rightarrow>
          (Rejected e, events @ [CreatePdf doc, ConsoleError ''Error generating PDF:''])
      | NeverCalledBack \<Rightarrow> (Pending, events @ [CreatePdf doc]))"

section \<open>\<open>generatePDF\<close> of \<^verbatim>\<open>src/utils/generatePDF.ts\<close>\<close>

definition pdfMake_fonts :: TFontDictionary where
  "pdfMake_fonts =
     [(''Roboto'', [''Roboto-Regular.ttf'', ''Roboto-Medium.ttf'', ''Roboto-Italic.ttf'',
                   ''Roboto-MediumItalic.ttf''])]"

definition generatePDF ::
  "Env \<Rightarrow> FormData \<Rightarrow> Checkboxes \<Rightarrow> language \<Rightarrow> Blob option promise \<times> event list" where
  "generatePDF env formData checkboxes language =
     (if \<not> window_defined env then (Resolved None, [])
      else
        (case (loadImage env ''/Logo.png'', loadImage env ''/QR.jpeg'') of
           ((logo, events1), (qr, events2)) \<Rightarrow>
             (let events = [SetFonts pdfMake_fonts] @ events1 @ events2
              in case promise_all2 logo qr of
                   Rejected e \<Rightarrow>
                     (Rejected e, events @ [ConsoleError ''Error loading PDF libraries:''])
                 | Pending \<Rightarrow> (Pending, events)
                 | Resolved (logoBase64, qrBase64) \<Rightarrow>
                     renderPdf env pdfMake_fonts
                       (builtDocument formData checkboxes language logoBase64 qrBase64
                          (locale_date1 env) (locale_date2 env))
                       events)))"

section \<open>\<open>generatePDF\<close> of \<^verbatim>\<open>src/unnamed/part_003\<close>\<close>

definition pdfMake_fonts_p3 :: TFontDictionary where
  "pdfMake_fonts_p3 =
     [(''Roboto'', [''Roboto-Regular.ttf'', ''Roboto-Medium.ttf'', ''Roboto-Italic.ttf'',
                   ''Roboto-MediumItalic.ttf'']),
      (''THSarabunNew'', [''THSarabunNew.ttf'', ''THSarabunNew-Bold.ttf'',
                         ''THSarabunNew-Italic.ttf'', ''THSarabunNew-BoldItalic.ttf''])]"

definition generatePDF_p3 ::
  "Env \<Rightarrow> FormData \<Rightarrow> Checkboxes_p3 \<Rightarrow> language \<Rightarrow> Blob option promise \<times> event list" where
  "generatePDF_p3 env formData checkboxes language =
     (if \<not> window_defined env then (Resolved None, [])
      else
        (case import_pdfmake env of
           Some e \<Rightarrow>
             (Rejected e, [Import ''pdfmake/build/pdfmake'',
                           ConsoleError ''Error loading PDF libraries:''])
         | None \<Rightarrow>
            (case import_vfs_fonts env of
               Inl e \<Rightarrow>
                 (Rejected e, [Import ''pdfmake/build/pdfmake'', Import ''pdfmake/build/vfs_fonts'',
                               ConsoleError ''Error loading PDF libraries:''])
             | Inr has_vfs \<Rightarrow>
                (case (loadImage env ''/Logo.png'', loadImage env ''/QR.jpeg'') of
                   ((logo, events1), (qr, events2)) \<Rightarrow>
                     (let events =
                            [Import ''pdfmake/build/pdfmake'', Import ''pdfmake/build/vfs_fonts'']
                            @ events1 @ events2
                      in case promise_all2 logo qr of
                           Rejected e \<Rightarrow>
                             (Rejected e,
                              events @ [ConsoleError ''Error loading PDF libraries:''])
                         | Pending \<Rightarrow> (Pending, events)
                         | Resolved (logoBase64, qrBase64) \<Rightarrow>
                             renderPdf env pdfMake_fonts_p3
                               (builtDocument_p3 formData checkboxes language
                                  logoBase64 qrBase64)
                               (events @
                                [if has_vfs then SetVfs
                                 else ConsoleWarn ''VFS fonts not properly loaded'',
                                 SetFonts pdfMake_fonts_p3]))))))"

section \<open>Reading a document tree\<close>

text \<open>Every text of a block, in reading order.\<close>

fun texts :: "Content \<Rightarrow> string list" where
  "texts (ContentText t p) = [t]"
| "texts (ContentImage i p) = []"
| "texts (ContentStack cs p) = concat (map texts cs)"
| "texts (ContentColumns cs p) = concat (map texts cs)"
| "texts (ContentTable l ws n body) = concat (map (\<lambda>row. concat (map texts row)) body)"
| "texts (ContentCanvas es p) = []"
| "texts (ContentUnorderedList items p) = items"

text \<open>Every block of a tree: the block itself, then the blocks below it.\<close>

fun blocks :: "Content \<Rightarrow> Content list" where
  "blocks (ContentStack cs p) = ContentStack cs p # concat (map blocks cs)"
| "blocks (ContentColumns cs p) = ContentColumns cs p # concat (map blocks cs)"
| "blocks (ContentTable l ws n body) =
     ContentTable l ws n body # concat (map (\<lambda>row. concat (map blocks row)) body)"
| "blocks c = [c]"

fun is_table :: "Content \<Rightarrow> bool" where
  "is_table (ContentTable l ws n body) = True"
| "is_table c = False"

fun table_layout :: "Content \<Rightarrow> layout option" where
  "table_layout (ContentTable l ws n body) = Some l"
| "table_layout c = None"

fun table_body :: "Content \<Rightarrow> Content list list" where
  "table_body (ContentTable l ws n body) = body"
| "table_body c = []"

definition all_blocks :: "TDocumentDefinitions \<Rightarrow> Content list" where
  "all_blocks doc = concat (map blocks (content doc))"

text \<open>The tables of a document in reading order.\<close>

definition tables :: "TDocumentDefinitions \<Rightarrow> Content list" where
  "tables doc = filter is_table (all_blocks doc)"

text \<open>The properties a block carries itself (a table block carries none but its layout).\<close>

fun block_props :: "Content \<Rightarrow> props" where
  "block_props (ContentText t p) = p"
| "block_props (ContentImage i p) = p"
| "block_props (ContentStack cs p) = p"
| "block_props (ContentColumns cs p) = p"
| "block_props (ContentTable l ws n body) = no_props"
| "block_props (ContentCanvas es p) = p"
| "block_props (ContentUnorderedList items p) = p"

text \<open>
  A checkbox row is a columns block of a canvas and a text: its glyph and its label.
\<close>

fun checkbox_row :: "Content \<Rightarrow> (CanvasElement list \<times> string) option" where
  "checkbox_row (ContentColumns [ContentCanvas es p, ContentText t q] r) = Some (es, t)"
| "checkbox_row c = None"

definition checkbox_rows :: "TDocumentDefinitions \<Rightarrow> (CanvasElement list \<times> string) list" where
  "checkbox_rows doc = List.map_filter checkbox_row (all_blocks doc)"

text \<open>The items of every bulleted list of a document.\<close>

fun list_items :: "Content \<Rightarrow> string list" where
  "list_items (ContentUnorderedList items p) = items"
| "list_items c = []"

definition notes_of :: "TDocumentDefinitions \<Rightarrow> string list" where
  "notes_of doc = concat (map list_items (all_blocks doc))"

text \<open>The texts of a document in reading order.\<close>

definition texts_of :: "TDocumentDefinitions \<Rightarrow> string list" where
  "texts_of doc = concat (map texts (content doc))"

text \<open>The rows of a table, each as the texts of its cells.\<close>

definition table_rows :: "Content \<Rightarrow> string list list" where
  "table_rows t = map (\<lambda>row. concat (map texts row)) (table_body t)"

text \<open>
  The key/value pairs of a document: the two-cell rows of its tables, and every paragraph
  of style \<open>label\<close> with the unstyled paragraph that follows it.
\<close>

fun row_pair :: "Content list \<Rightarrow> (string \<times> string) list" where
  "row_pair [ContentText k p, ContentText v q] = [(k, v)]"
| "row_pair row = []"

fun labelled_paragraphs :: "Content list \<Rightarrow> (string \<times> string) list" where
  "labelled_paragraphs (ContentText k p # ContentText v q # rest) =
     (if style p = Some ''label'' \<and> style q = None
      then (k, v) # labelled_paragraphs rest
      else labelled_paragraphs (ContentText v q # rest))"
| "labelled_paragraphs (c # rest) = labelled_paragraphs rest"
| "labelled_paragraphs [] = []"

fun key_values_of :: "Content \<Rightarrow> (string \<times> string) list" where
  "key_values_of (ContentTable l ws n body) = concat (map row_pair body)"
| "key_values_of (ContentStack cs p) = concat (map key_values_of cs) @ labelled_paragraphs cs"
| "key_values_of (ContentColumns cs p) = concat (map key_values_of cs)"
| "key_values_of c = []"

definition key_values :: "TDocumentDefinitions \<Rightarrow> (string \<times> string) list" where
  "key_values doc =
     concat (map key_values_of (content doc)) @ labelled_paragraphs (content doc)"

section \<open>Notions of the specification\<close>

text \<open>
  A text site of the document is either one of the composer's bilingual pairs or a field of
  the form, which is shown as it is, or as a dash when it is empty.
\<close>

datatype site = Bilingual bilingual | FormValue string

fun site_text :: "language \<Rightarrow> site \<Rightarrow> string" where
  "site_text language (Bilingual pair) = (case language of En \<Rightarrow> en pair | Th \<Rightarrow> th pair)"
| "site_text language (FormValue v) = (if v = [] then ''-'' else v)"

fun changes_with_language :: "site \<Rightarrow> bool" where
  "changes_with_language (Bilingual pair) = (en pair \<noteq> th pair)"
| "changes_with_language (FormValue v) = True"

fun differs_at_site :: "site \<Rightarrow> string \<times> string \<Rightarrow> bool" where
  "differs_at_site (Bilingual pair) (e, t) = (e \<noteq> t)"
| "differs_at_site (FormValue v) (e, t) = (e = t)"

text \<open>The sites of \<^verbatim>\<open>src/utils/generatePDF.ts\<close>, in reading order.\<close>

definition textSites :: "FormData \<Rightarrow> string \<Rightarrow> string \<Rightarrow> site list" where
  "textSites formData date1 date2 =
     [Bilingual docHeader_company, Bilingual docHeader_address1, Bilingual docHeader_address2,
      Bilingual docHeader_address3, Bilingual docHeader_phone, Bilingual docHeader_docNo,
      Bilingual docHeader_revision, Bilingual (docHeader_date date1 date2),
      Bilingual sectionTitles_customerDetails,
      Bilingual translations_company, FormValue (company formData),
      Bilingual translations_siteLocation, FormValue (site_location formData),
      Bilingual translations_contactPerson, FormValue (contact_person formData),
      Bilingual translations_department, FormValue (department formData),
      Bilingual translations_phone, FormValue (phone formData),
      Bilingual translations_email, FormValue (email formData),
      Bilingual sectionTitles_pumpInfo,
      Bilingual translations_pumpModel, FormValue (pump_model formData),
      Bilingual translations_serialNumber, FormValue (serial_number formData),
      Bilingual translations_yearOfManufacture, FormValue (manufacture_year formData),
      Bilingual translations_operatingHours, FormValue (operating_hours formData),
      Bilingual translations_lastServiceDate, FormValue (last_service_date formData),
      Bilingual translations_installationDate, FormValue (installation_date formData),
      Bilingual sectionTitles_operatingConditions,
      Bilingual translations_temperature, FormValue (temperature formData),
      Bilingual translations_flowRate, FormValue (flow_rate formData),
      Bilingual translations_suctionPressure, FormValue (suction_pressure formData),
      Bilingual translations_dischargePressure, FormValue (discharge_pressure formData),
      Bilingual translations_totalHead, FormValue (total_head formData),
      Bilingual translations_pumpedMedium, FormValue (pumped_medium formData),
      Bilingual translations_serviceReason, FormValue (service_reason formData),
      Bilingual sectionTitles_pumpPreparation,
      Bilingual checklistLabel_power_isolated, Bilingual checklistLabel_valves_locked,
      Bilingual checklistLabel_pump_drained, Bilingual checklistLabel_auxiliary_disconnected,
      Bilingual checklistLabel_coupling_guard_removed,
      Bilingual checklistLabel_coupling_disconnected, Bilingual checklistLabel_pump_cleaned,
      Bilingual checklistLabel_openings_protected, Bilingual checklistLabel_photos_taken,
      Bilingual sectionTitles_preparationChecklist,
      Bilingual checklistLabel_system_flush, Bilingual (safetyTrainingLabel formData),
      Bilingual checklistLabel_harmless_form, Bilingual checklistLabel_sds,
      Bilingual checklistLabel_alignment_report, Bilingual checklistLabel_operation_records,
      Bilingual sectionTitles_importantNotes]
     @ map Bilingual importantNotes"

text \<open>The sites of \<^verbatim>\<open>src/unnamed/part_003\<close>, in reading order.\<close>

definition textSites_p3 :: "FormData \<Rightarrow> site list" where
  "textSites_p3 formData =
     [Bilingual headerText_p3_company, Bilingual headerText_p3_address1,
      Bilingual headerText_p3_address2, Bilingual headerText_p3_address3,
      Bilingual headerText_p3_phone, Bilingual headerText_p3_docNo,
      Bilingual headerText_p3_revision, Bilingual headerText_p3_date,
      Bilingual titleText_p3,
      Bilingual sectionTitles_p3_customerDetails,
      Bilingual translations_p3_company, FormValue (company formData),
      Bilingual translations_p3_siteLocation, FormValue (site_location formData),
      Bilingual translations_p3_contactPerson, FormValue (contact_person formData),
      Bilingual translations_p3_department, FormValue (department formData),
      Bilingual translations_p3_phone, FormValue (phone formData),
      Bilingual translations_p3_email, FormValue (email formData),
      Bilingual sectionTitles_p3_pumpInfo,
      Bilingual translations_p3_pumpModel, FormValue (pump_model formData),
      Bilingual translations_p3_serialNumber, FormValue (serial_number formData),
      Bilingual translations_p3_yearOfManufacture, FormValue (manufacture_year formData),
      Bilingual translations_p3_operatingHours, FormValue (operating_hours formData),
      Bilingual translations_p3_lastServiceDate, FormValue (last_service_date formData),
      Bilingual translations_p3_installationDate, FormValue (installation_date formData),
      Bilingual sectionTitles_p3_operatingConditions,
      Bilingual translations_p3_temperature, FormValue (temperature formData),
      Bilingual translations_p3_flowRate, FormValue (flow_rate formData),
      Bilingual translations_p3_suctionPressure, FormValue (suction_pressure formData),
      Bilingual translations_p3_dischargePressure, FormValue (discharge_pressure formData),
      Bilingual translations_p3_totalHead, FormValue (total_head formData),
      Bilingual translations_p3_pumpedMedium, FormValue (pumped_medium formData),
      Bilingual translations_p3_serviceReason, FormValue (service_reason formData),
      Bilingual sectionTitles_p3_preparationChecklist,
      Bilingual sectionTitles_p3_preServiceRequirements,
      Bilingual checklistLabel_p3_system_flush, Bilingual (safetyTrainingLabel_p3 formData),
      Bilingual checklistLabel_p3_harmless_form, Bilingual checklistLabel_p3_sds,
      Bilingual checklistLabel_p3_alignment_report,
      Bilingual checklistLabel_p3_operation_records,
      Bilingual sectionTitles_p3_importantNotes]
     @ map Bilingual importantNotes_p3"

text \<open>The fields shown in key/value tables and in the service-reason paragraph, in order.\<close>

definition shownFields :: "FormData \<Rightarrow> string list" where
  "shownFields formData =
     [company formData, site_location formData, contact_person formData, department formData,
      phone formData, email formData, pump_model formData, serial_number formData,
      manufacture_year formData, operating_hours formData, last_service_date formData,
      installation_date formData, temperature formData, flow_rate formData,
      suction_pressure formData, discharge_pressure formData, total_head formData,
      pumped_medium formData, service_reason formData]"

definition dash_if_empty :: "string \<Rightarrow> string" where
  "dash_if_empty v = (if v = [] then ''-'' else v)"

text \<open>The unit word of the safety-training label: \<open>hours\<close>, and the Thai word for it.\<close>

definition unit_word :: "language \<Rightarrow> string" where
  "unit_word language =
     (case language of
        En \<Rightarrow> ''hours''
      | Th \<Rightarrow> utf8 [0xE0A, 0xE31, 0xE48, 0xE27, 0xE42, 0xE21, 0xE07])"

definition parenthetical :: "language \<Rightarrow> string option \<Rightarrow> string" where
  "parenthetical language hours =
     (case hours of
        None \<Rightarrow> []
      | Some v \<Rightarrow> if v = [] then [] else ''('' @ v @ '' '' @ unit_word language @ '')'')"

text \<open>
  The two-stage scaling as the specification words it: if the width exceeds 800, scale both
  dimensions by 800 over the width; then, if the resulting height exceeds 800, scale both
  by 800 over that height. In \<open>specTargetDimensions\<close> the products and quotients are
  those of the real numbers.
\<close>

definition specTargetDimensions :: "nat \<Rightarrow> nat \<Rightarrow> real \<times> real" where
  "specTargetDimensions img_width img_height =
     (let w0 = real img_width; h0 = real img_height;
          w1 = (if w0 > 800 then w0 * (800 / w0) else w0);
          h1 = (if w0 > 800 then h0 * (800 / w0) else h0);
          w2 = (if h1 > 800 then w1 * (800 / h1) else w1);
          h2 = (if h1 > 800 then h1 * (800 / h1) else h1)
      in (w2, h2))"

text \<open>The same two stages with every product and quotient rounded to a double.\<close>

definition specTargetDimensions_js :: "nat \<Rightarrow> nat \<Rightarrow> real \<times> real" where
  "specTargetDimensions_js img_width img_height =
     (let w0 = real img_width; h0 = real img_height;
          w1 = (if w0 > 800 then js_mul w0 (js_div 800 w0) else w0);
          h1 = (if w0 > 800 then js_mul h0 (js_div 800 w0) else h0);
          w2 = (if h1 > 800 then js_mul w1 (js_div 800 h1) else w1);
          h2 = (if h1 > 800 then js_mul h1 (js_div 800 h1) else h1)
      in (w2, h2))"

text \<open>The unchecked glyph: the square alone.\<close>

definition uncheckedGlyph :: "CanvasElement list" where
  "uncheckedGlyph = [CanvasRect 0 0 10 10 1 ''#374151'']"

text \<open>The checkmark: the two segments drawn inside the square of a checked item.\<close>

definition checkmarkGlyph :: "CanvasElement list" where
  "checkmarkGlyph = [CanvasLine 2 5 4 8 1.5 ''#1F2937'', CanvasLine 4 8 8 2 1.5 ''#1F2937'']"

text \<open>The labels of the fields of \<open>shownFields\<close>, in the same order, for each file.\<close>

definition fieldLabels :: "bilingual list" where
  "fieldLabels =
     [translations_company, translations_siteLocation, translations_contactPerson,
      translations_department, translations_phone, translations_email,
      translations_pumpModel, translations_serialNumber, translations_yearOfManufacture,
      translations_operatingHours, translations_lastServiceDate,
      translations_installationDate, translations_temperature, translations_flowRate,
      translations_suctionPressure, translations_dischargePressure, translations_totalHead,
      translations_pumpedMedium, translations_serviceReason]"

definition fieldLabels_p3 :: "bilingual list" where
  "fieldLabels_p3 =
     [translations_p3_company, translations_p3_siteLocation, translations_p3_contactPerson,
      translations_p3_department, translations_p3_phone, translations_p3_email,
      translations_p3_pumpModel, translations_p3_serialNumber,
      translations_p3_yearOfManufacture, translations_p3_operatingHours,
      translations_p3_lastServiceDate, translations_p3_installationDate,
      translations_p3_temperature, translations_p3_flowRate,
      translations_p3_suctionPressure, translations_p3_dischargePressure,
      translations_p3_totalHead, translations_p3_pumpedMedium,
      translations_p3_serviceReason]"

section \<open>Example inputs\<close>

definition emptyFormData :: FormData where
  "emptyFormData =
     \<lparr>company = [], site_location = [], contact_person = [], department = [], phone = [],
      email = [], pump_model = [], serial_number = [], manufacture_year = [],
      operating_hours = [], last_service_date = [], installation_date = [],
      temperature = [], flow_rate = [], suction_pressure = [], discharge_pressure = [],
      total_head = [], pumped_medium = [], service_reason = [], training_hours = Some []\<rparr>"

definition acmeFormData :: FormData where
  "acmeFormData = emptyFormData\<lparr>company := ''Acme Co''\<rparr>"

definition uncheckedCheckboxes_p3 :: Checkboxes_p3 where
  "uncheckedCheckboxes_p3 =
     \<lparr>system_flush = False, safety_training = False, harmless_form = False, sds = False,
      alignment_report = False, operation_records = False\<rparr>"

definition uncheckedCheckboxes :: Checkboxes where
  "uncheckedCheckboxes =
     \<lparr>system_flush = False, safety_training = False, harmless_form = False, sds = False,
      alignment_report = False, operation_records = False, power_isolated = False,
      valves_locked = False, pump_drained = False, auxiliary_disconnected = False,
      coupling_guard_removed = False, coupling_disconnected = False, pump_cleaned = False,
      openings_protected = False, photos_taken = False\<rparr>"

definition smallBlob :: Blob where
  "smallBlob = \<lparr>blob_bytes = replicate (500 * 1024) (CHR 0x00), blob_type = ''image/png''\<rparr>"

definition largeBlob :: Blob where
  "largeBlob = \<lparr>blob_bytes = replicate (500 * 1024 + 1) (CHR 0x00), blob_type = ''image/png''\<rparr>"

definition pdfBlob :: Blob where
  "pdfBlob = \<lparr>blob_bytes = ''%PDF'', blob_type = ''application/pdf''\<rparr>"

definition browserEnv :: Env where
  "browserEnv =
     \<lparr>window_defined = True,
      fetch_blob = (\<lambda>url. Inr smallBlob),
      image_load = (\<lambda>blob. Some (1600, 2400)),
      canvas_getContext = (\<lambda>blob. True),
      canvas_toDataURL = (\<lambda>blob w h t q. ''data:image/jpeg;base64,AAAA''),
      fileReader_result = (\<lambda>blob. ''data:image/png;base64,AAAA''),
      locale_date1 = ''02/11/2026'',
      locale_date2 = ''02/11/2026'',
      pdfMake_getBlob = (\<lambda>fonts doc. GotBlob pdfBlob),
      import_pdfmake = None,
      import_vfs_fonts = Inr True\<rparr>"

definition serverEnv :: Env where
  "serverEnv = browserEnv\<lparr>window_defined := False\<rparr>"

definition largeImageEnv :: Env where
  "largeImageEnv = browserEnv\<lparr>fetch_blob := (\<lambda>url. Inr largeBlob)\<rparr>"

definition wideImageEnv :: Env where
  "wideImageEnv = largeImageEnv\<lparr>image_load := (\<lambda>blob. Some (1600, 1000))\<rparr>"

definition hdImageEnv :: Env where
  "hdImageEnv = largeImageEnv\<lparr>image_load := (\<lambda>blob. Some (1360, 768))\<rparr>"

definition undecodableImageEnv :: Env where
  "undecodableImageEnv = largeImageEnv\<lparr>image_load := (\<lambda>blob. None)\<rparr>"

definition noCanvasEnv :: Env where
  "noCanvasEnv = largeImageEnv\<lparr>canvas_getContext := (\<lambda>blob. False)\<rparr>"

section \<open>Facts about the encoding of strings\<close>

lemma char_of_nat_eq: "(char_of (n::nat) = c) = (n mod 256 = of_char c)"
  by (metis char_of_char of_char_of)

lemma of_char_utf8_cp:
  assumes "0x80 \<le> c" "c < 0x10000" "b \<in> set (utf8_cp c)"
  shows "0x80 \<le> (of_char b :: nat)"
proof -
  have a: "c div 64 < 32" if "c < 0x800" using that by simp
  have b1: "c div 4096 < 16" using assms(2) by simp
  have m: "c mod 64 < 64" "c div 64 mod 64 < 64" by simp_all
  show ?thesis
    using assms a b1 m
    by (auto simp: utf8_cp_def split: if_splits)
qed

lemma ascii_notin_utf8:
  assumes "\<forall>c \<in> set cs. 0x80 \<le> c \<and> c < 0x10000" "(of_char b :: nat) < 0x80"
  shows "b \<notin> set (utf8 cs)"
  using assms of_char_utf8_cp by (fastforce simp: utf8_def)

lemma char_of_E0: "x < 256 \<Longrightarrow> (CHR 0xE0 = char_of (x::nat)) = (x = 224)"
  by (auto simp: char_of_nat_eq eq_commute[of "CHR 0xE0"])

lemma E0_in_utf8_cp:
  assumes "c < 0x10000"
  shows "CHR 0xE0 \<in> set (utf8_cp c) \<longleftrightarrow> 0x800 \<le> c \<and> c < 0x1000"
proof -
  consider "c < 0x80" | "0x80 \<le> c" "c < 0x800" | "0x800 \<le> c" by linarith
  then show ?thesis
  proof cases
    case 1
    then have "c < 256" by simp
    with 1 show ?thesis by (simp add: utf8_cp_def char_of_E0)
  next
    case 2
    then have "c div 64 < 32" by simp
    then have "192 + c div 64 < 256" "192 + c div 64 \<noteq> 224" by simp_all
    moreover have "128 + c mod 64 < 256" "128 + c mod 64 \<noteq> 224"
      using pos_mod_bound[of 64 c] by simp_all
    ultimately show ?thesis using 2 by (simp add: utf8_cp_def char_of_E0)
  next
    case 3
    have "c div 4096 < 16" using assms by simp
    then have a: "224 + c div 4096 < 256" by simp
    have b: "(224 + c div 4096 = 224) = (c < 0x1000)" by (simp add: div_eq_0_iff)
    have "128 + c mod 64 < 256" "128 + c mod 64 \<noteq> 224"
      using pos_mod_bound[of 64 c] by simp_all
    moreover have "128 + c div 64 mod 64 < 256" "128 + c div 64 mod 64 \<noteq> 224"
      using pos_mod_bound[of 64 "c div 64"] by simp_all
    ultimately show ?thesis using 3 a b by (simp add: utf8_cp_def char_of_E0)
  qed
qed

lemma E0_in_utf8:
  assumes "\<forall>c \<in> set cs. c < 0x10000"
  shows "CHR 0xE0 \<in> set (utf8 cs) \<longleftrightarrow> (\<exists>c \<in> set cs. 0x800 \<le> c \<and> c < 0x1000)"
  using assms E0_in_utf8_cp by (auto simp: utf8_def)


section \<open>Unfolding the composers\<close>

lemmas composer_defs =
  builtDocument_def docDefinition_def applyTableLayouts_def companyHeader_def
  customerDetailsSection_def pumpInformationSection_def operatingConditionsSection_def
  pumpPreparationSection_def preparationChecklistSection_def importantNotesSection_def
  preServiceChecklist_def pumpPreparationItems_def createCheckboxItem_def kvRow_def

lemmas composer_p3_defs =
  builtDocument_p3_def docDefinition_p3_def applyTableLayouts_def content_p3_def
  companyHeader_p3_def preServiceChecklist_p3_def createCheckboxItem_def kvRow_def

lemmas pair_defs =
  sectionTitles_customerDetails_def sectionTitles_pumpInfo_def
  sectionTitles_operatingConditions_def sectionTitles_pumpPreparation_def
  sectionTitles_preparationChecklist_def sectionTitles_preServiceRequirements_def
  sectionTitles_importantNotes_def docHeader_company_def docHeader_address1_def
  docHeader_address2_def docHeader_address3_def docHeader_phone_def docHeader_docNo_def
  docHeader_revision_def translations_company_def translations_siteLocation_def
  translations_contactPerson_def translations_department_def translations_phone_def
  translations_email_def translations_pumpModel_def translations_serialNumber_def
  translations_yearOfManufacture_def translations_operatingHours_def
  translations_lastServiceDate_def translations_installationDate_def
  translations_temperature_def translations_flowRate_def translations_suctionPressure_def
  translations_dischargePressure_def translations_totalHead_def translations_pumpedMedium_def
  translations_serviceReason_def checklistLabel_system_flush_def
  checklistLabel_harmless_form_def checklistLabel_sds_def checklistLabel_alignment_report_def
  checklistLabel_operation_records_def checklistLabel_power_isolated_def
  checklistLabel_valves_locked_def checklistLabel_pump_drained_def
  checklistLabel_auxiliary_disconnected_def checklistLabel_coupling_guard_removed_def
  checklistLabel_coupling_disconnected_def checklistLabel_pump_cleaned_def
  checklistLabel_openings_protected_def checklistLabel_photos_taken_def

lemmas pair_p3_defs =
  sectionTitles_p3_customerDetails_def sectionTitles_p3_pumpInfo_def
  sectionTitles_p3_operatingConditions_def sectionTitles_p3_preparationChecklist_def
  sectionTitles_p3_preServiceRequirements_def sectionTitles_p3_importantNotes_def
  translations_p3_company_def translations_p3_siteLocation_def
  translations_p3_contactPerson_def translations_p3_department_def translations_p3_phone_def
  translations_p3_email_def translations_p3_pumpModel_def translations_p3_serialNumber_def
  translations_p3_yearOfManufacture_def translations_p3_operatingHours_def
  translations_p3_lastServiceDate_def translations_p3_installationDate_def
  translations_p3_temperature_def translations_p3_flowRate_def
  translations_p3_suctionPressure_def translations_p3_dischargePressure_def
  translations_p3_totalHead_def translations_p3_pumpedMedium_def
  translations_p3_serviceReason_def checklistLabel_p3_system_flush_def
  checklistLabel_p3_harmless_form_def checklistLabel_p3_sds_def
  checklistLabel_p3_alignment_report_def checklistLabel_p3_operation_records_def
  headerText_p3_company_def headerText_p3_address1_def headerText_p3_address2_def
  headerText_p3_address3_def headerText_p3_phone_def headerText_p3_docNo_def
  headerText_p3_revision_def headerText_p3_date_def titleText_p3_def


section \<open>Language selection\<close>

lemma sel_site_text: "sel pair language = site_text language (Bilingual pair)"
  by (simp add: sel_def)

lemma cond_site_text: "cond language pair = site_text language (Bilingual pair)"
  by (cases language) (simp_all add: cond_def)

lemma js_or_site_text: "js_or v ''-'' = site_text language (FormValue v)"
  by (simp add: js_or_def truthy_def)

lemma texts_of_builtDocument:
  "texts_of (builtDocument formData checkboxes language logoBase64 qrBase64 date1 date2) =
     map (site_text language) (textSites formData date1 date2)"
  by (simp add: texts_of_def composer_defs textSites_def importantNotes_def
      sel_site_text cond_site_text js_or_site_text del: site_text.simps)

lemma texts_of_builtDocument_p3:
  "texts_of (builtDocument_p3 formData checkboxes language logoBase64 qrBase64) =
     map (site_text language) (textSites_p3 formData)"
  by (simp add: texts_of_def composer_p3_defs textSites_p3_def importantNotes_p3_def
      sel_site_text cond_site_text js_or_site_text del: site_text.simps)

lemma changes_if_thai:
  "CHR 0xE0 \<notin> set (en pair) \<Longrightarrow> CHR 0xE0 \<in> set (th pair) \<Longrightarrow>
     changes_with_language (Bilingual pair)"
  by auto

lemma utf8_thai_Cons:
  assumes "0x800 \<le> c" "c < 0x1000"
  shows "\<exists>r. utf8 (c # cs) @ s = CHR 0xE0 # r"
proof -
  have "c div 4096 = 0" using assms by simp
  then have "char_of (224 + c div 4096) = CHR 0xE0" by (simp add: char_of_nat_eq)
  then show ?thesis using assms by (simp add: utf8_def utf8_cp_def)
qed

lemma changes_if_heads:
  assumes "en pair = a # r" "th pair = b # r'" "a \<noteq> b"
  shows "changes_with_language (Bilingual pair)"
  using assms by auto

lemma docHeader_date_changes: "changes_with_language (Bilingual (docHeader_date date1 date2))"
proof -
  obtain r where "th (docHeader_date date1 date2) = CHR 0xE0 # r"
    using utf8_thai_Cons by (fastforce simp: docHeader_date_def)
  moreover have "en (docHeader_date date1 date2) = CHR ''D'' # ''ate: '' @ split_join date1"
    by (simp add: docHeader_date_def)
  ultimately show ?thesis by (auto intro: changes_if_heads)
qed

lemma safetyTrainingLabel_changes: "changes_with_language (Bilingual (safetyTrainingLabel formData))"
proof -
  obtain r where "th (safetyTrainingLabel formData) = CHR 0xE0 # r"
    using utf8_thai_Cons by (fastforce simp: safetyTrainingLabel_def)
  moreover have "\<exists>r. en (safetyTrainingLabel formData) = CHR ''S'' # r"
    by (simp add: safetyTrainingLabel_def)
  ultimately show ?thesis by (auto intro: changes_if_heads)
qed

lemma safetyTrainingLabel_p3_changes:
  "changes_with_language (Bilingual (safetyTrainingLabel_p3 formData))"
proof -
  obtain r where "th (safetyTrainingLabel_p3 formData) = CHR 0xE0 # r"
    using utf8_thai_Cons by (fastforce simp: safetyTrainingLabel_p3_def)
  moreover have "\<exists>r. en (safetyTrainingLabel_p3 formData) = CHR ''S'' # r"
    by (simp add: safetyTrainingLabel_p3_def)
  ultimately show ?thesis by (auto intro: changes_if_heads)
qed

lemma textSites_change: "list_all changes_with_language (textSites formData date1 date2)"
  unfolding textSites_def importantNotes_def
  apply (simp only: list.map list.pred_inject append.simps changes_with_language.simps(2)
      docHeader_date_changes safetyTrainingLabel_changes simp_thms)
  apply (intro conjI changes_if_thai)
  apply (simp_all add: pair_defs E0_in_utf8)
  done

lemma textSites_p3_change: "list_all changes_with_language (textSites_p3 formData)"
  unfolding textSites_p3_def importantNotes_p3_def
  apply (simp only: list.map list.pred_inject append.simps changes_with_language.simps(2)
      safetyTrainingLabel_p3_changes simp_thms)
  apply (intro conjI changes_if_thai)
  apply (simp_all add: pair_p3_defs E0_in_utf8)
  done

lemma differs_at_sites:
  "list_all changes_with_language sites \<Longrightarrow>
     list_all2 differs_at_site sites
       (zip (map (site_text En) sites) (map (site_text Th) sites))"
proof (induction sites)
  case Nil
  then show ?case by simp
next
  case (Cons s sites)
  then show ?case by (cases s) simp_all
qed

text \<open>
  Claim C1. For every form, every checklist and both languages, the texts of the produced
  document, read in order, are exactly the texts of the sites of \<open>textSites\<close>: at a
  bilingual site the member of the pair keyed by the language, at a form site the field (or
  the dash). The two members of every pair differ, so at every bilingual site the text under
  \<open>En\<close> differs from the text under \<open>Th\<close>, and at every form site the two are equal.
  This holds for both files.
\<close>

theorem every_text_keyed_by_language:
  "texts_of (builtDocument formData checkboxes language logoBase64 qrBase64 date1 date2) =
     map (site_text language) (textSites formData date1 date2)
   \<and> list_all changes_with_language (textSites formData date1 date2)
   \<and> list_all2 differs_at_site (textSites formData date1 date2)
        (zip (texts_of (builtDocument formData checkboxes En logoBase64 qrBase64 date1 date2))
             (texts_of (builtDocument formData checkboxes Th logoBase64 qrBase64 date1 date2)))
   \<and> texts_of (builtDocument_p3 formData checkboxes_p3 language logoBase64 qrBase64) =
     map (site_text language) (textSites_p3 formData)
   \<and> list_all changes_with_language (textSites_p3 formData)
   \<and> list_all2 differs_at_site (textSites_p3 formData)
        (zip (texts_of (builtDocument_p3 formData checkboxes_p3 En logoBase64 qrBase64))
             (texts_of (builtDocument_p3 formData checkboxes_p3 Th logoBase64 qrBase64)))"
  using differs_at_sites[OF textSites_change, of formData date1 date2]
    differs_at_sites[OF textSites_p3_change, of formData]
  by (simp only: texts_of_builtDocument texts_of_builtDocument_p3 textSites_change
      textSites_p3_change simp_thms)

section \<open>Form fields in the document\<close>

lemma js_or_dash: "js_or v ''-'' = dash_if_empty v"
  by (simp add: js_or_def truthy_def dash_if_empty_def)

lemma key_values_builtDocument:
  "key_values (builtDocument formData checkboxes language logoBase64 qrBase64 date1 date2) =
     zip (map (\<lambda>pair. sel pair language) fieldLabels)
         (map dash_if_empty (shownFields formData))"
  by (simp add: key_values_def composer_defs fieldLabels_def shownFields_def js_or_dash
      no_props_def)

lemma key_values_builtDocument_p3:
  "key_values (builtDocument_p3 formData checkboxes language logoBase64 qrBase64) =
     zip (map (\<lambda>pair. sel pair language) fieldLabels_p3)
         (map dash_if_empty (shownFields formData))"
  by (simp add: key_values_def composer_p3_defs fieldLabels_p3_def shownFields_def js_or_dash
      no_props_def)

lemma empty_values:
  "map dash_if_empty (shownFields emptyFormData) = replicate 19 ''-''"
  by (simp add: shownFields_def emptyFormData_def dash_if_empty_def eval_nat_numeral)

lemma acme_rows:
  "table_rows (tables (builtDocument acmeFormData uncheckedCheckboxes En
      logoBase64 qrBase64 date1 date2) ! 0) ! 0 = [''Company:'', ''Acme Co'']"
  "table_rows (tables (builtDocument acmeFormData uncheckedCheckboxes En
      logoBase64 qrBase64 date1 date2) ! 0) ! 1 = [''Site Location:'', ''-'']"
  by (simp_all add: tables_def all_blocks_def composer_defs table_rows_def acmeFormData_def
      emptyFormData_def sel_def translations_company_def translations_siteLocation_def
      js_or_def truthy_def)

lemma acme_rows_p3:
  "table_rows (tables (builtDocument_p3 acmeFormData uncheckedCheckboxes_p3 En
      logoBase64 qrBase64) ! 0) ! 0 = [''Company:'', ''Acme Co'']"
  "table_rows (tables (builtDocument_p3 acmeFormData uncheckedCheckboxes_p3 En
      logoBase64 qrBase64) ! 0) ! 1 = [''Site Location:'', ''-'']"
  by (simp_all add: tables_def all_blocks_def composer_p3_defs table_rows_def acmeFormData_def
      emptyFormData_def sel_def translations_p3_company_def translations_p3_siteLocation_def
      js_or_def truthy_def)

lemma unchecked_rows:
  "map fst (checkbox_rows (builtDocument formData uncheckedCheckboxes language
      logoBase64 qrBase64 date1 date2)) = replicate 15 uncheckedGlyph"
  by (simp add: checkbox_rows_def all_blocks_def composer_defs
      uncheckedCheckboxes_def uncheckedGlyph_def eval_nat_numeral)

lemma unchecked_rows_p3:
  "map fst (checkbox_rows (builtDocument_p3 formData uncheckedCheckboxes_p3 language
      logoBase64 qrBase64)) = replicate 6 uncheckedGlyph"
  by (simp add: checkbox_rows_def all_blocks_def composer_p3_defs
      uncheckedCheckboxes_p3_def uncheckedGlyph_def eval_nat_numeral)

lemma generatePDF_resolves:
  assumes "window_defined env"
    and "loadImage env ''/Logo.png'' = (Resolved logoBase64, events1)"
    and "loadImage env ''/QR.jpeg'' = (Resolved qrBase64, events2)"
    and "pdfMake_getBlob env pdfMake_fonts
           (builtDocument formData checkboxes language logoBase64 qrBase64
              (locale_date1 env) (locale_date2 env)) = GotBlob pdf"
  shows "fst (generatePDF env formData checkboxes language) = Resolved (Some pdf)"
  using assms by (simp add: generatePDF_def renderPdf_def)

lemma generatePDF_p3_resolves:
  assumes "window_defined env" "import_pdfmake env = None" "import_vfs_fonts env = Inr has_vfs"
    and "loadImage env ''/Logo.png'' = (Resolved logoBase64, events1)"
    and "loadImage env ''/QR.jpeg'' = (Resolved qrBase64, events2)"
    and "pdfMake_getBlob env pdfMake_fonts_p3
           (builtDocument_p3 formData checkboxes language logoBase64 qrBase64) = GotBlob pdf"
  shows "fst (generatePDF_p3 env formData checkboxes language) = Resolved (Some pdf)"
  using assms by (simp add: generatePDF_p3_def renderPdf_def)

lemma fieldLabels_length:
  "length fieldLabels = 19" "length fieldLabels_p3 = 19" "length (shownFields formData) = 19"
  by (simp_all add: fieldLabels_def fieldLabels_p3_def shownFields_def)

text \<open>
  Claim C2. In both files the key/value pairs of the produced document (the rows of the
  three tables, then the service-reason label with its paragraph) are the nineteen labels,
  read at the language, each with its field: the field itself when it is not empty, a dash
  when it is. For the all-empty form every value is the dash, and \<open>generatePDF\<close> resolves
  with the document of the engine whenever the window is defined, both images load and the
  engine returns a document for the tree built. For the form with company \<open>Acme Co\<close>, no
  box checked and the language \<open>En\<close>, the first two rows of the first table are
  \<open>Company: / Acme Co\<close> and \<open>Site Location: / -\<close>, and the checkbox rows are fifteen (six in
  the second file) squares without a checkmark.
\<close>

theorem form_fields_verbatim_or_dash:
  "key_values (builtDocument formData checkboxes language logoBase64 qrBase64 date1 date2) =
     zip (map (\<lambda>pair. sel pair language) fieldLabels)
         (map dash_if_empty (shownFields formData))
   \<and> key_values (builtDocument_p3 formData checkboxes_p3 language logoBase64 qrBase64) =
     zip (map (\<lambda>pair. sel pair language) fieldLabels_p3)
         (map dash_if_empty (shownFields formData))
   \<and> map snd
        (key_values (builtDocument emptyFormData checkboxes language logoBase64 qrBase64
           date1 date2)) = replicate 19 ''-''
   \<and> map snd
        (key_values (builtDocument_p3 emptyFormData checkboxes_p3 language logoBase64
           qrBase64)) = replicate 19 ''-''
   \<and> (window_defined env \<and> loadImage env ''/Logo.png'' = (Resolved logoBase64, events1)
        \<and> loadImage env ''/QR.jpeg'' = (Resolved qrBase64, events2)
        \<and> pdfMake_getBlob env pdfMake_fonts
             (builtDocument emptyFormData checkboxes language logoBase64 qrBase64
                (locale_date1 env) (locale_date2 env)) = GotBlob pdf
      \<longrightarrow> fst (generatePDF env emptyFormData checkboxes language) = Resolved (Some pdf))
   \<and> (window_defined env \<and> import_pdfmake env = None \<and> import_vfs_fonts env = Inr has_vfs
        \<and> loadImage env ''/Logo.png'' = (Resolved logoBase64, events1)
        \<and> loadImage env ''/QR.jpeg'' = (Resolved qrBase64, events2)
        \<and> pdfMake_getBlob env pdfMake_fonts_p3
             (builtDocument_p3 emptyFormData checkboxes_p3 language logoBase64 qrBase64)
             = GotBlob pdf
      \<longrightarrow> fst (generatePDF_p3 env emptyFormData checkboxes_p3 language) = Resolved (Some pdf))
   \<and> table_rows (tables (builtDocument acmeFormData uncheckedCheckboxes En
        logoBase64 qrBase64 date1 date2) ! 0) ! 0 = [''Company:'', ''Acme Co'']
   \<and> table_rows (tables (builtDocument acmeFormData uncheckedCheckboxes En
        logoBase64 qrBase64 date1 date2) ! 0) ! 1 = [''Site Location:'', ''-'']
   \<and> map fst (checkbox_rows (builtDocument acmeFormData uncheckedCheckboxes En
        logoBase64 qrBase64 date1 date2)) = replicate 15 uncheckedGlyph
   \<and> table_rows (tables (builtDocument_p3 acmeFormData uncheckedCheckboxes_p3 En
        logoBase64 qrBase64) ! 0) ! 0 = [''Company:'', ''Acme Co'']
   \<and> table_rows (tables (builtDocument_p3 acmeFormData uncheckedCheckboxes_p3 En
        logoBase64 qrBase64) ! 0) ! 1 = [''Site Location:'', ''-'']
   \<and> map fst (checkbox_rows (builtDocument_p3 acmeFormData uncheckedCheckboxes_p3 En
        logoBase64 qrBase64)) = replicate 6 uncheckedGlyph"
  using generatePDF_resolves[of env logoBase64 events1 qrBase64 events2 emptyFormData
      checkboxes language pdf]
    generatePDF_p3_resolves[of env has_vfs logoBase64 events1 qrBase64 events2 emptyFormData
      checkboxes_p3 language pdf]
  by (simp only: key_values_builtDocument key_values_builtDocument_p3 empty_values acme_rows
      acme_rows_p3 unchecked_rows unchecked_rows_p3 map_snd_zip length_map length_replicate
      fieldLabels_length simp_thms)
    blast

theorem form_fields_verbatim_or_dash_witness:
  "window_defined browserEnv
   \<and> import_pdfmake browserEnv = None \<and> import_vfs_fonts browserEnv = Inr True
   \<and> loadImage browserEnv ''/Logo.png'' =
        (Resolved ''data:image/png;base64,AAAA'', [Fetch ''/Logo.png'', ReadAsDataURL smallBlob])
   \<and> loadImage browserEnv ''/QR.jpeg'' =
        (Resolved ''data:image/png;base64,AAAA'', [Fetch ''/QR.jpeg'', ReadAsDataURL smallBlob])
   \<and> fst (generatePDF browserEnv emptyFormData uncheckedCheckboxes En) = Resolved (Some pdfBlob)
   \<and> fst (generatePDF_p3 browserEnv emptyFormData uncheckedCheckboxes_p3 En) =
        Resolved (Some pdfBlob)"
proof -
  have l: "loadImage browserEnv url =
      (Resolved ''data:image/png;base64,AAAA'', [Fetch url, ReadAsDataURL smallBlob])" for url
    by (simp add: loadImage_def maxImageSize_def browserEnv_def blob_size_def smallBlob_def)
  have e: "window_defined browserEnv" "import_pdfmake browserEnv = None"
    "import_vfs_fonts browserEnv = Inr True"
    "pdfMake_getBlob browserEnv fonts doc = GotBlob pdfBlob" for fonts doc
    by (simp_all add: browserEnv_def)
  show ?thesis
    using form_fields_verbatim_or_dash
      [of _ uncheckedCheckboxes En "''data:image/png;base64,AAAA''"
         "''data:image/png;base64,AAAA''" _ _ uncheckedCheckboxes_p3 browserEnv
         "[Fetch ''/Logo.png'', ReadAsDataURL smallBlob]"
         "[Fetch ''/QR.jpeg'', ReadAsDataURL smallBlob]" pdfBlob True]
    by (simp only: l e simp_thms)
qed

section \<open>The image normalizer\<close>

lemma loadImage_small:
  assumes "fetch_blob env url = Inr blob" "blob_size blob \<le> 500 * 1024"
  shows "loadImage env url = (Resolved (fileReader_result env blob), [Fetch url, ReadAsDataURL blob])"
  using assms by (simp add: loadImage_def maxImageSize_def)

lemma loadImage_resize_iff:
  assumes "fetch_blob env url = Inr blob"
  shows "(ImageSrc blob \<in> set (snd (loadImage env url))) = (500 * 1024 < blob_size blob)"
    and "(\<exists>w h. DrawImage w h \<in> set (snd (loadImage env url))) \<longrightarrow> 500 * 1024 < blob_size blob"
    and "ToDataURL ''image/jpeg'' 0.7 \<in> set (snd (loadImage env url)) \<longrightarrow> 500 * 1024 < blob_size blob"
  using assms by (auto simp: loadImage_def maxImageSize_def split: option.splits prod.splits if_splits)

text \<open>
  An oversized image that cannot be decoded leaves the promise pending; an oversized image
  without a drawing surface resolves with the empty string.
\<close>

lemma loadImage_undecodable:
  assumes "fetch_blob env url = Inr blob" "500 * 1024 < blob_size blob" "image_load env blob = None"
  shows "loadImage env url = (Pending, [Fetch url, ImageSrc blob])"
  using assms by (simp add: loadImage_def maxImageSize_def)

lemma loadImage_no_context:
  assumes "fetch_blob env url = Inr blob" "500 * 1024 < blob_size blob"
    "image_load env blob = Some (W, H)" "\<not> canvas_getContext env blob"
  shows "fst (loadImage env url) = Resolved []"
  using assms by (simp add: loadImage_def maxImageSize_def split: prod.splits)

lemma blob_sizes: "blob_size smallBlob = 500 * 1024" "blob_size largeBlob = 500 * 1024 + 1"
  by (simp_all add: blob_size_def smallBlob_def largeBlob_def)

lemma browserEnv_simps:
  "window_defined browserEnv"
  "fetch_blob browserEnv url = Inr smallBlob"
  "fileReader_result browserEnv blob = ''data:image/png;base64,AAAA''"
  "locale_date1 browserEnv = ''02/11/2026''"
  "locale_date2 browserEnv = ''02/11/2026''"
  "pdfMake_getBlob browserEnv fonts doc = GotBlob pdfBlob"
  "import_pdfmake browserEnv = None"
  "import_vfs_fonts browserEnv = Inr True"
  by (simp_all add: browserEnv_def)

lemma largeImageEnv_simps:
  "fetch_blob largeImageEnv url = Inr largeBlob"
  "image_load largeImageEnv blob = Some (1600, 2400)"
  "canvas_getContext largeImageEnv blob"
  by (simp_all add: largeImageEnv_def browserEnv_def)

lemma wideImageEnv_simps:
  "fetch_blob wideImageEnv url = Inr largeBlob"
  "image_load wideImageEnv blob = Some (1600, 1000)"
  by (simp_all add: wideImageEnv_def largeImageEnv_def browserEnv_def)

lemma hdImageEnv_simps:
  "fetch_blob hdImageEnv url = Inr largeBlob"
  "image_load hdImageEnv blob = Some (1360, 768)"
  "canvas_getContext hdImageEnv blob"
  by (simp_all add: hdImageEnv_def largeImageEnv_def browserEnv_def)

text \<open>
  Claim C4. When the fetch gives a blob of at most \<open>500 * 1024\<close> bytes, \<open>loadImage\<close> resolves
  with the data URL the browser makes of that very blob, and nothing but the fetch and the
  read happens: no image is decoded, no canvas is drawn. The image is handed to the decoder
  exactly when the blob is larger than \<open>500 * 1024\<close> bytes, and only then can a JPEG of
  quality 0.7 be made.
\<close>

theorem small_image_returned_unmodified:
  assumes "fetch_blob env url = Inr blob"
  shows "(blob_size blob \<le> 500 * 1024 \<longrightarrow>
           loadImage env url =
             (Resolved (fileReader_result env blob), [Fetch url, ReadAsDataURL blob]))
       \<and> (ImageSrc blob \<in> set (snd (loadImage env url))) = (500 * 1024 < blob_size blob)
       \<and> (ToDataURL ''image/jpeg'' 0.7 \<in> set (snd (loadImage env url)) \<longrightarrow>
            500 * 1024 < blob_size blob)"
  using loadImage_small[OF assms] loadImage_resize_iff[OF assms] by blast

theorem small_image_returned_unmodified_witness:
  "fetch_blob browserEnv ''/Logo.png'' = Inr smallBlob
   \<and> blob_size smallBlob \<le> 500 * 1024
   \<and> loadImage browserEnv ''/Logo.png'' =
        (Resolved ''data:image/png;base64,AAAA'', [Fetch ''/Logo.png'', ReadAsDataURL smallBlob])
   \<and> ImageSrc smallBlob \<notin> set (snd (loadImage browserEnv ''/Logo.png''))
   \<and> fetch_blob largeImageEnv ''/Logo.png'' = Inr largeBlob
   \<and> 500 * 1024 < blob_size largeBlob
   \<and> ImageSrc largeBlob \<in> set (snd (loadImage largeImageEnv ''/Logo.png''))"
  using small_image_returned_unmodified[of browserEnv "''/Logo.png''" smallBlob]
    small_image_returned_unmodified[of largeImageEnv "''/Logo.png''" largeBlob]
  by (simp add: browserEnv_simps largeImageEnv_simps blob_sizes)

lemma undecodableImageEnv_simps:
  "window_defined undecodableImageEnv"
  "import_pdfmake undecodableImageEnv = None"
  "import_vfs_fonts undecodableImageEnv = Inr True"
  "fetch_blob undecodableImageEnv url = Inr largeBlob"
  "image_load undecodableImageEnv blob = None"
  by (simp_all add: undecodableImageEnv_def largeImageEnv_def browserEnv_def)

text \<open>
  Claim C5 fails where the image cannot be decoded: \<open>img.onload\<close> is the only handler, it is
  never called, the promise of \<open>loadImage\<close> is never settled, and neither is the promise of
  \<open>generatePDF\<close>, in both files. The input: a window, a fetched blob of \<open>500 * 1024 + 1\<close>
  bytes, an image the browser cannot decode.
\<close>

theorem undecodable_image_never_settles:
  "loadImage undecodableImageEnv ''/Logo.png'' = (Pending, [Fetch ''/Logo.png'', ImageSrc largeBlob])
   \<and> fst (generatePDF undecodableImageEnv emptyFormData uncheckedCheckboxes En) = Pending
   \<and> fst (generatePDF_p3 undecodableImageEnv emptyFormData uncheckedCheckboxes_p3 En) = Pending"
proof -
  have l: "loadImage undecodableImageEnv url = (Pending, [Fetch url, ImageSrc largeBlob])" for url
    by (rule loadImage_undecodable) (simp_all add: undecodableImageEnv_simps blob_sizes)
  show ?thesis
    by (simp add: l generatePDF_def generatePDF_p3_def undecodableImageEnv_simps)
qed


subsection \<open>Rounding to the nearest double\<close>

lemma round_even_cases:
  "round_even y = \<lfloor>y\<rfloor> \<or> round_even y = \<lfloor>y\<rfloor> + 1"
  by (simp add: round_even_def Let_def)

lemma round_even_error: "\<bar>of_int (round_even y) - y\<bar> \<le> 1 / 2"
proof -
  have "of_int \<lfloor>y\<rfloor> \<le> y" "y < of_int \<lfloor>y\<rfloor> + 1" by linarith+
  then show ?thesis
    by (auto simp: round_even_def Let_def abs_le_iff split: if_splits)
qed

lemma round_even_of_int [simp]: "round_even (of_int n) = n"
  by (simp add: round_even_def)

lemma round_even_unique:
  assumes "\<bar>y - of_int m\<bar> < 1 / 2"
  shows "round_even y = m"
proof -
  have e: "\<bar>of_int (round_even y) - y\<bar> \<le> 1 / 2" by (rule round_even_error)
  have "\<bar>of_int (round_even y) - (of_int m :: real)\<bar> < 1" using assms e by linarith
  then have "\<bar>round_even y - m\<bar> < 1" 
    by (metis of_int_diff of_int_abs of_int_less_1_iff)
  then show ?thesis by linarith
qed

lemma round_even_mono:
  assumes "y \<le> z"
  shows "round_even y \<le> round_even z"
proof (cases "\<lfloor>y\<rfloor> = \<lfloor>z\<rfloor>")
  case True
  then have "y - of_int \<lfloor>y\<rfloor> \<le> z - of_int \<lfloor>z\<rfloor>" using assms by simp
  then show ?thesis using True
    by (auto simp: round_even_def Let_def split: if_splits)
next
  case False
  then have "\<lfloor>y\<rfloor> < \<lfloor>z\<rfloor>" using assms floor_mono[of y z] by linarith
  then show ?thesis
    using round_even_cases[of y] round_even_cases[of z] by linarith
qed

lemma quantum_pos: "0 < quantum x"
  by (simp add: quantum_def)

text \<open>A positive number of the normal range, scaled by its quantum, lies in [2^52, 2^53).\<close>

lemma scaled_bounds:
  assumes "1 / 2 ^ 1022 \<le> x"
  shows "2 ^ 52 \<le> x / quantum x" and "x / quantum x < 2 ^ 53"
proof -
  define N where "N = \<lfloor>x * 2 ^ 1074\<rfloor>"
  define s where "s = binade_shift x"
  have xpos: "0 < x" using assms by (smt (verit) zero_less_divide_1_iff zero_less_numeral zero_less_power)
  have "(2::real) ^ 52 = 1 / 2 ^ 1022 * 2 ^ 1074" by simp
  also have "\<dots> \<le> x * 2 ^ 1074" using assms by (intro mult_right_mono) simp_all
  finally have lo: "(2::real) ^ 52 \<le> x * 2 ^ 1074" .
  then have "(2::int) ^ 52 \<le> N" unfolding N_def
    by (metis le_floor_iff of_int_numeral of_int_power)
  then have N52: "2 ^ (nat 53 - 1) \<le> N" by simp
  have Npos: "0 < N" using \<open>2 ^ 52 \<le> N\<close> by (smt (verit) zero_less_power)
  have b53: "53 \<le> bitlen N" using N52 by (subst bitlen_ge_iff_power) simp
  have s_def': "s = nat (bitlen N - 53)" unfolding s_def binade_shift_def N_def using xpos by simp
  then have n1: "nat (bitlen N - 1) = s + 52" and n2: "nat (bitlen N) = s + 53"
    using b53 by simp_all
  from bitlen_bounds[OF Npos] have B: "2 ^ (s + 52) \<le> N" "N < 2 ^ (s + 53)"
    by (simp_all add: n1 n2)
  have "(2::real) ^ (s + 52) \<le> of_int N" using B(1)
    by (metis of_int_le_iff of_int_numeral of_int_power)
  also have "\<dots> \<le> x * 2 ^ 1074" unfolding N_def by linarith
  finally have L: "(2::real) ^ (s + 52) \<le> x * 2 ^ 1074" .
  have "N + 1 \<le> 2 ^ (s + 53)" using B(2) by linarith
  then have "of_int (N + 1) \<le> (2::real) ^ (s + 53)"
    by (metis of_int_le_iff of_int_numeral of_int_power)
  moreover have "x * 2 ^ 1074 < of_int (N + 1)" unfolding N_def by linarith
  ultimately have U: "x * 2 ^ 1074 < (2::real) ^ (s + 53)" by linarith
  have q: "x / quantum x = x * 2 ^ 1074 / 2 ^ s" by (simp add: quantum_def s_def)
  show "2 ^ 52 \<le> x / quantum x"
    unfolding q using L by (simp add: pos_le_divide_eq power_add mult.commute)
  show "x / quantum x < 2 ^ 53"
    unfolding q using U by (simp add: pos_divide_less_eq power_add mult.commute)
qed

lemma fl_error:
  assumes "1 / 2 ^ 1022 \<le> x"
  shows "\<bar>fl x - x\<bar> \<le> x / 2 ^ 53"
proof -
  define q where "q = quantum x"
  define y where "y = x / q"
  have q: "0 < q" unfolding q_def by (rule quantum_pos)
  have x: "x = y * q" using q by (auto simp: y_def)
  have "2 ^ 52 \<le> y" unfolding y_def q_def by (rule scaled_bounds[OF assms])
  then have "2 ^ 52 * q \<le> x" using q by (simp add: x)
  then have qx: "q / 2 \<le> x / 2 ^ 53" by simp
  have "fl x = of_int (round_even y) * q" by (simp add: fl_def y_def q_def)
  then have "fl x - x = (of_int (round_even y) - y) * q"
    using x by (simp add: algebra_simps)
  then have "\<bar>fl x - x\<bar> = \<bar>of_int (round_even y) - y\<bar> * q"
    using q by (simp add: abs_mult)
  also have "\<dots> \<le> 1 / 2 * q"
    using round_even_error[of y] q by (intro mult_right_mono) simp_all
  finally show ?thesis using qx by simp
qed

lemma fl_pos:
  assumes "1 / 2 ^ 1022 \<le> x"
  shows "0 < fl x"
proof -
  have "0 < x" using assms by (smt (verit) zero_less_divide_1_iff zero_less_numeral zero_less_power)
  moreover have "x / 2 ^ 53 < x" using \<open>0 < x\<close> by (simp add: field_simps)
  ultimately show ?thesis using fl_error[OF assms] by linarith
qed

lemma binade_shift_mono:
  assumes "0 \<le> x" "x \<le> z"
  shows "binade_shift x \<le> binade_shift z"
proof -
  have "\<lfloor>x * 2 ^ 1074\<rfloor> \<le> \<lfloor>z * 2 ^ 1074\<rfloor>"
    using assms by (intro floor_mono mult_right_mono) simp_all
  then have "bitlen \<lfloor>x * 2 ^ 1074\<rfloor> \<le> bitlen \<lfloor>z * 2 ^ 1074\<rfloor>"
    by (simp add: bitlen_def floorlog_mono nat_mono)
  then show ?thesis using assms by (simp add: binade_shift_def nat_mono)
qed

lemma fl_mono:
  assumes "1 / 2 ^ 1022 \<le> x" "x \<le> z"
  shows "fl x \<le> fl z"
proof -
  have z: "1 / 2 ^ 1022 \<le> z" using assms by linarith
  have xpos: "0 \<le> x" using assms(1) by (smt (verit) zero_less_divide_1_iff zero_less_numeral zero_less_power)
  note bx = scaled_bounds[OF assms(1)] and bz = scaled_bounds[OF z]
  have le: "binade_shift x \<le> binade_shift z" by (rule binade_shift_mono[OF xpos assms(2)])
  show ?thesis
  proof (cases "binade_shift x = binade_shift z")
    case True
    then have q: "quantum x = quantum z" by (simp add: quantum_def)
    have "x / quantum z \<le> z / quantum z"
      using assms(2) quantum_pos[of z] by (simp add: divide_right_mono)
    then have "round_even (x / quantum z) \<le> round_even (z / quantum z)"
      by (rule round_even_mono)
    then show ?thesis
      using quantum_pos[of z] by (simp add: fl_def q mult_right_mono)
  next
    case False
    then have lt: "Suc (binade_shift x) \<le> binade_shift z" using le by simp
    have "round_even (x / quantum x) \<le> round_even (of_int (2 ^ 53))"
      using bx(2) by (intro round_even_mono) simp
    then have "round_even (x / quantum x) \<le> 2 ^ 53" by (simp only: round_even_of_int)
    then have "(of_int (round_even (x / quantum x)) :: real) \<le> 2 ^ 53"
      by (metis of_int_le_iff of_int_numeral of_int_power)
    then have a: "fl x \<le> 2 ^ 53 * quantum x"
      using quantum_pos[of x] by (simp add: fl_def mult_right_mono)
    have "round_even (of_int (2 ^ 52)) \<le> round_even (z / quantum z)"
      using bz(1) by (intro round_even_mono) simp
    then have "2 ^ 52 \<le> round_even (z / quantum z)" by (simp only: round_even_of_int)
    then have "(2 :: real) ^ 52 \<le> of_int (round_even (z / quantum z))"
      by (metis of_int_le_iff of_int_numeral of_int_power)
    then have b: "2 ^ 52 * quantum z \<le> fl z"
      using quantum_pos[of z] by (simp add: fl_def mult_right_mono)
    have "(2::real) ^ Suc (binade_shift x) \<le> 2 ^ binade_shift z"
      using lt by (intro power_increasing) simp_all
    then have "2 * quantum x \<le> quantum z"
      by (simp add: quantum_def divide_right_mono)
    then have "2 ^ 53 * quantum x \<le> 2 ^ 52 * quantum z" by simp
    then show ?thesis using a b by linarith
  qed
qed

text \<open>Rounding at a known scale.\<close>

lemma quantum_eq:
  assumes "2 ^ 52 \<le> x * 2 ^ k" "x * 2 ^ k < 2 ^ 53" "k \<le> 1074"
  shows "quantum x = 1 / 2 ^ k"
proof -
  define N where "N = \<lfloor>x * 2 ^ 1074\<rfloor>"
  define j where "j = 1074 - k"
  have k: "1074 = k + j" using assms(3) by (simp add: j_def)
  have xpos: "0 < x" using assms(1)
    by (smt (verit, best) mult_pos_pos zero_less_mult_pos2 zero_less_numeral zero_less_power)
  have sc: "x * 2 ^ 1074 = x * 2 ^ k * 2 ^ j" by (simp add: k power_add)
  have "(2::real) ^ (52 + j) = 2 ^ 52 * 2 ^ j" by (simp add: power_add)
  also have "\<dots> \<le> x * 2 ^ 1074" unfolding sc using assms(1) by (intro mult_right_mono) simp_all
  finally have "(2::real) ^ (52 + j) \<le> x * 2 ^ 1074" .
  then have lo: "(2::int) ^ (52 + j) \<le> N" unfolding N_def
    by (metis le_floor_iff of_int_numeral of_int_power)
  have "x * 2 ^ 1074 < 2 ^ 53 * 2 ^ j" unfolding sc using assms(2) by (intro mult_strict_right_mono) simp_all
  then have "x * 2 ^ 1074 < (2::real) ^ (53 + j)" by (simp add: power_add)
  moreover have "of_int N \<le> x * 2 ^ 1074" unfolding N_def by linarith
  ultimately have "of_int N < (2::real) ^ (53 + j)" by linarith
  then have hi: "N < 2 ^ (53 + j)"
    by (metis of_int_less_iff of_int_numeral of_int_power)
  have "bitlen N \<le> int (53 + j)" by (subst bitlen_le_iff_power) (simp add: hi del: of_nat_add)
  moreover have "int (53 + j) \<le> bitlen N"
  proof -
    have "nat (int (53 + j)) - 1 = 52 + j" by (simp del: of_nat_add)
    then show ?thesis using lo by (subst bitlen_ge_iff_power) (simp del: of_nat_add)
  qed
  ultimately have "bitlen N = int (53 + j)" by linarith
  then have "binade_shift x = j" using xpos by (simp add: binade_shift_def N_def)
  then show ?thesis by (simp add: quantum_def k power_add)
qed

lemma fl_scaled:
  assumes "2 ^ 52 \<le> x * 2 ^ k" "x * 2 ^ k < 2 ^ 53" "k \<le> 1074"
  shows "fl x = of_int (round_even (x * 2 ^ k)) / 2 ^ k"
  by (simp add: fl_def quantum_eq[OF assms])

lemma fl_nearest:
  assumes "2 ^ 52 \<le> x * 2 ^ k" "x * 2 ^ k < 2 ^ 53" "k \<le> 1074"
    and "\<bar>x * 2 ^ k - of_int m\<bar> < 1 / 2"
  shows "fl x = of_int m / 2 ^ k"
  by (simp add: fl_scaled[OF assms(1-3)] round_even_unique[OF assms(4)])

lemma fl_representable:
  assumes "2 ^ 52 \<le> (of_int m :: real)" "(of_int m :: real) < 2 ^ 53" "k \<le> 1074"
  shows "fl (of_int m / 2 ^ k) = of_int m / 2 ^ k"
  using fl_scaled[of "of_int m / 2 ^ k" k] assms by simp

lemma fl_800: "fl 800 = 800"
  using fl_representable[of "800 * 2 ^ 43" 43] by simp

lemma fl_1: "fl 1 = 1"
  using fl_representable[of "2 ^ 52" 52] by simp

lemma fl_below_1: "fl (1 - 1 / 2 ^ 32) = 1 - 1 / 2 ^ 32"
  using fl_representable[of "2 ^ 53 - 2 ^ 21" 53] by (simp add: field_simps)

lemma fl_below_800: "fl (800 - 800 / 2 ^ 32) = 800 - 800 / 2 ^ 32"
  using fl_representable[of "800 * 2 ^ 43 - 25 * 2 ^ 16" 43] by (simp add: field_simps)

lemma fl_above_800: "fl (800 + 800 / 2 ^ 32) = 800 + 800 / 2 ^ 32"
  using fl_representable[of "800 * 2 ^ 43 + 25 * 2 ^ 16" 43] by (simp add: field_simps)

subsection \<open>The two caps\<close>

text \<open>The aspect ratio of an image of \<open>W\<close> by \<open>H\<close> pixels.\<close>

lemma ratio_bounds:
  fixes W H :: nat
  assumes "0 < W" "0 < H" "W < 2 ^ 32" "H < 2 ^ 32"
  shows "1 / 2 ^ 32 \<le> real W / real H" and "real W / real H \<le> 2 ^ 32"
proof -
  have H: "real H \<le> 2 ^ 32" and W: "real W \<le> 2 ^ 32"
    using assms(3,4) by (metis less_imp_le of_nat_le_iff of_nat_numeral of_nat_power)+
  have W1: "1 \<le> real W" and H1: "1 \<le> real H" using assms(1,2) by simp_all
  have "real H * 1 \<le> 2 ^ 32 * real W" using H W1 by (intro mult_mono) simp_all
  then show "1 / 2 ^ 32 \<le> real W / real H" using assms(2) by (simp add: field_simps)
  have "real W * 1 \<le> 2 ^ 32 * real H" using W H1 by (intro mult_mono) simp_all
  then show "real W / real H \<le> 2 ^ 32" using assms(2) by (simp add: field_simps)
qed

lemma aspectRatio_error:
  fixes W H :: nat
  assumes "0 < W" "0 < H" "W < 2 ^ 32" "H < 2 ^ 32"
  shows "\<bar>js_div (real W) (real H) - real W / real H\<bar> \<le> real W / real H / 2 ^ 53"
proof -
  have "(1::real) / 2 ^ 1022 \<le> 1 / 2 ^ 32" by simp
  then have "1 / 2 ^ 1022 \<le> real W / real H" using ratio_bounds(1)[OF assms] by linarith
  then show ?thesis unfolding js_div_def by (rule fl_error)
qed

lemma aspectRatio_wide:
  fixes W H :: nat
  assumes "0 < H" "H \<le> W"
  shows "1 \<le> js_div (real W) (real H)"
proof -
  have "1 \<le> real W / real H" using assms by simp
  then have "fl 1 \<le> fl (real W / real H)" by (intro fl_mono) simp_all
  then show ?thesis by (simp add: js_div_def fl_1)
qed

lemma aspectRatio_tall:
  fixes W H :: nat
  assumes "0 < W" "W < H" "H < 2 ^ 32"
  shows "js_div (real W) (real H) \<le> 1 - 1 / 2 ^ 32"
proof -
  have H: "real H \<le> 2 ^ 32"
    using assms(3) by (metis less_imp_le of_nat_le_iff of_nat_numeral of_nat_power)
  have Hp: "0 < real H" using assms by simp
  have "real W + 1 \<le> real H" using assms(2) by linarith
  then have "real W / real H \<le> 1 - 1 / real H" using Hp by (simp add: field_simps)
  moreover have "1 / 2 ^ 32 \<le> 1 / real H" using H Hp by (simp add: field_simps)
  ultimately have le: "real W / real H \<le> 1 - 1 / 2 ^ 32" by linarith
  have "1 / 2 ^ 32 \<le> real W / real H"
    using assms by (intro ratio_bounds(1)) simp_all
  moreover have "(1::real) / 2 ^ 1022 \<le> 1 / 2 ^ 32" by simp
  ultimately have "1 / 2 ^ 1022 \<le> real W / real H" by linarith
  then have "fl (real W / real H) \<le> fl (1 - 1 / 2 ^ 32)" using le by (rule fl_mono)
  then show ?thesis by (simp only: js_div_def fl_below_1)
qed

text \<open>The height of the first cap, \<open>800 / aspectRatio\<close>.\<close>

lemma firstCap_height_low:
  assumes "1 \<le> a" "a \<le> 2 ^ 33"
  shows "js_div 800 a \<le> 800"
proof -
  have a: "0 < a" using assms by linarith
  have "800 / 2 ^ 33 \<le> 800 / a" using assms a by (intro divide_left_mono) simp_all
  moreover have "(1::real) / 2 ^ 1022 \<le> 800 / 2 ^ 33" by simp
  ultimately have n: "1 / 2 ^ 1022 \<le> 800 / a" by linarith
  have "800 / a \<le> 800" using assms a by (simp add: field_simps)
  with n have "fl (800 / a) \<le> fl 800" by (rule fl_mono)
  then show ?thesis by (simp add: js_div_def fl_800)
qed

lemma firstCap_height_high:
  assumes "0 < a" "a \<le> 1 - 1 / 2 ^ 32"
  shows "800 + 800 / 2 ^ 32 \<le> js_div 800 a"
proof -
  have "(800 + 800 / 2 ^ 32) * a \<le> (800 + 800 / 2 ^ 32) * (1 - 1 / 2 ^ 32)"
    using assms by (intro mult_left_mono) simp_all
  also have "\<dots> \<le> (800 :: real)" by simp
  finally have "800 + 800 / 2 ^ 32 \<le> 800 / a" using assms(1) by (simp add: field_simps)
  moreover have "(1::real) / 2 ^ 1022 \<le> 800 + 800 / 2 ^ 32" by simp
  ultimately have "fl (800 + 800 / 2 ^ 32) \<le> fl (800 / a)" by (intro fl_mono)
  then show ?thesis by (simp only: js_div_def fl_above_800)
qed

lemma secondCap_width_below:
  assumes "1 / 2 ^ 33 \<le> a" "a \<le> 1 - 1 / 2 ^ 32"
  shows "js_mul 800 a \<le> 800 - 800 / 2 ^ 32"
proof -
  have "(1::real) / 2 ^ 1022 \<le> 800 * (1 / 2 ^ 33)" by simp
  also have "\<dots> \<le> 800 * a" using assms(1) by (intro mult_left_mono) simp_all
  finally have n: "1 / 2 ^ 1022 \<le> 800 * a" .
  have "800 * a \<le> 800 - 800 / 2 ^ 32" using assms(2) by simp
  with n have "fl (800 * a) \<le> fl (800 - 800 / 2 ^ 32)" by (rule fl_mono)
  then show ?thesis by (simp only: js_mul_def fl_below_800)
qed

text \<open>The accumulated rounding errors.\<close>

lemma quotient_error:
  fixes x a h :: real
  assumes x: "0 < x" and a: "\<bar>a - x\<bar> \<le> x / 2 ^ 53"
    and h: "\<bar>h - 800 / a\<bar> \<le> 800 / a / 2 ^ 53"
  shows "\<bar>h - 800 / x\<bar> \<le> 800 / x / 2 ^ 51"
proof -
  have e: "(2::real) ^ 53 = 9007199254740992" "(2::real) ^ 51 = 2251799813685248" by simp_all
  define t where "t = 800 / x"
  have t: "0 < t" and tx: "t * x = 800" using x by (simp_all add: t_def)
  have "x / 2 ^ 53 < x" using x by (simp add: field_simps)
  then have apos: "0 < a" using a by linarith
  have "\<bar>h * a - 800\<bar> = \<bar>h - 800 / a\<bar> * a" using apos by (simp add: abs_mult[symmetric] field_simps)
  also have "\<dots> \<le> 800 / a / 2 ^ 53 * a" using h apos by (intro mult_right_mono) simp_all
  also have "\<dots> = 800 / 2 ^ 53" using apos by simp
  finally have ha: "\<bar>h * a - 800\<bar> \<le> 800 / 2 ^ 53" .
  then have "0 < h * a" unfolding e by linarith
  then have hpos: "0 < h" using apos by (simp add: zero_less_mult_iff)
  have "h * a - h * x = h * (a - x)" by (simp add: algebra_simps)
  then have "\<bar>h * a - h * x\<bar> = h * \<bar>a - x\<bar>" using hpos by (simp add: abs_mult)
  also have "\<dots> \<le> h * (x / 2 ^ 53)" using a hpos by (intro mult_left_mono) simp_all
  finally have hx: "\<bar>h * a - h * x\<bar> \<le> h * x / 2 ^ 53" by simp
  define p where "p = h * x"
  have "\<bar>p - 800\<bar> \<le> 800 / 2 ^ 53 + p / 2 ^ 53" using ha hx unfolding p_def by linarith
  then have "\<bar>p - 800\<bar> \<le> 800 / 2 ^ 51" unfolding e by linarith
  moreover have "\<bar>h - t\<bar> * x = \<bar>p - 800\<bar>"
  proof -
    have "p - 800 = (h - t) * x" by (simp add: p_def algebra_simps tx)
    then have "\<bar>p - 800\<bar> = \<bar>h - t\<bar> * \<bar>x\<bar>" by (simp only: abs_mult)
    then show ?thesis using x by simp
  qed
  moreover have "t / 2 ^ 51 * x = 800 / 2 ^ 51" using tx by simp
  ultimately have "\<bar>h - t\<bar> * x \<le> t / 2 ^ 51 * x" by simp
  then have "\<bar>h - t\<bar> \<le> t / 2 ^ 51" using x by (rule mult_right_le_imp_le)
  then show ?thesis by (simp add: t_def)
qed

lemma product_error:
  fixes x a w :: real
  assumes x: "0 < x" and a: "\<bar>a - x\<bar> \<le> x / 2 ^ 53"
    and w: "\<bar>w - 800 * a\<bar> \<le> 800 * a / 2 ^ 53"
  shows "\<bar>w - 800 * x\<bar> \<le> 800 * x / 2 ^ 51"
proof -
  have e: "(2::real) ^ 53 = 9007199254740992" "(2::real) ^ 51 = 2251799813685248" by simp_all
  show ?thesis using assms unfolding e by linarith
qed

lemma aspectRatio_range:
  fixes W H :: nat
  assumes "0 < W" "0 < H" "W < 2 ^ 32" "H < 2 ^ 32"
  shows "1 / 2 ^ 33 \<le> js_div (real W) (real H)" and "js_div (real W) (real H) \<le> 2 ^ 33"
proof -
  have e: "(2::real) ^ 53 = 9007199254740992" "(2::real) ^ 32 = 4294967296"
    "(2::real) ^ 33 = 8589934592" by simp_all
  define x where "x = real W / real H"
  note b = ratio_bounds[OF assms, folded x_def] and r = aspectRatio_error[OF assms, folded x_def]
  show "1 / 2 ^ 33 \<le> js_div (real W) (real H)" using b r unfolding e by linarith
  show "js_div (real W) (real H) \<le> 2 ^ 33" using b r unfolding e by linarith
qed

lemma firstCap_wide:
  assumes "800 < W"
  shows "firstCap a (real W, real H) = (800, js_div 800 a)"
  using assms by (simp add: firstCap_def)

lemma firstCap_height_error:
  fixes W H :: nat
  assumes "0 < W" "0 < H" "W < 2 ^ 32" "H < 2 ^ 32"
  shows "\<bar>js_div 800 (js_div (real W) (real H)) - real H * (800 / real W)\<bar>
           \<le> real H * (800 / real W) / 2 ^ 51"
proof -
  define a where "a = js_div (real W) (real H)"
  have x: "0 < real W / real H" using assms by simp
  note ra = aspectRatio_range[OF assms, folded a_def]
  have apos: "0 < a" using ra(1) by (smt (verit) zero_less_divide_1_iff zero_less_numeral zero_less_power)
  have "800 / 2 ^ 33 \<le> 800 / a" using ra(2) apos by (intro divide_left_mono) simp_all
  moreover have "(1::real) / 2 ^ 1022 \<le> 800 / 2 ^ 33" by simp
  ultimately have "1 / 2 ^ 1022 \<le> 800 / a" by linarith
  then have "\<bar>js_div 800 a - 800 / a\<bar> \<le> 800 / a / 2 ^ 53"
    unfolding js_div_def by (rule fl_error)
  from quotient_error[OF x aspectRatio_error[OF assms, folded a_def] this]
  have "\<bar>js_div 800 a - 800 / (real W / real H)\<bar> \<le> 800 / (real W / real H) / 2 ^ 51" .
  moreover have "800 / (real W / real H) = real H * (800 / real W)" by simp
  ultimately show ?thesis by (simp only: a_def)
qed

lemma secondCap_width_error:
  fixes W H :: nat
  assumes "0 < W" "0 < H" "W < 2 ^ 32" "H < 2 ^ 32"
  shows "\<bar>js_mul 800 (js_div (real W) (real H)) - 800 * (real W / real H)\<bar>
           \<le> 800 * (real W / real H) / 2 ^ 51"
proof -
  define a where "a = js_div (real W) (real H)"
  have x: "0 < real W / real H" using assms by simp
  note ra = aspectRatio_range[OF assms, folded a_def]
  have "(1::real) / 2 ^ 1022 \<le> 800 * (1 / 2 ^ 33)" by simp
  also have "\<dots> \<le> 800 * a" using ra(1) by (intro mult_left_mono) simp_all
  finally have "\<bar>js_mul 800 a - 800 * a\<bar> \<le> 800 * a / 2 ^ 53"
    unfolding js_mul_def by (rule fl_error)
  from product_error[OF x aspectRatio_error[OF assms, folded a_def] this]
  show ?thesis by (simp add: a_def)
qed

lemma second_cap_iff:
  fixes W H :: nat
  assumes "0 < W" "0 < H" "W < 2 ^ 32" "H < 2 ^ 32"
  shows "(800 < js_div 800 (js_div (real W) (real H))) = (W < H)"
proof (cases "W < H")
  case True
  note ra = aspectRatio_range[OF assms]
  have apos: "0 < js_div (real W) (real H)"
    using ra(1) by (smt (verit) zero_less_divide_1_iff zero_less_numeral zero_less_power)
  have "800 + 800 / 2 ^ 32 \<le> js_div 800 (js_div (real W) (real H))"
    by (rule firstCap_height_high[OF apos aspectRatio_tall[OF assms(1) True assms(4)]])
  moreover have "(800::real) < 800 + 800 / 2 ^ 32" by simp
  ultimately show ?thesis using True by linarith
next
  case False
  then have "H \<le> W" by simp
  have "js_div 800 (js_div (real W) (real H)) \<le> 800"
    by (rule firstCap_height_low[OF aspectRatio_wide[OF assms(2) \<open>H \<le> W\<close>] aspectRatio_range(2)[OF assms]])
  then show ?thesis using False by simp
qed

lemma targetDimensions_wide:
  fixes W H :: nat
  assumes "800 < W" "0 < H" "W < 2 ^ 32" "H < 2 ^ 32" "H \<le> W"
  shows "targetDimensions W H = (800, js_div 800 (js_div (real W) (real H)))"
proof -
  have W: "0 < W" using assms(1) by simp
  have "\<not> 800 < js_div 800 (js_div (real W) (real H))"
    using second_cap_iff[OF W assms(2-4)] assms(5) by simp
  then show ?thesis
    using assms(1,2) by (simp add: targetDimensions_def Let_def firstCap_def secondCap_def)
qed

lemma targetDimensions_tall:
  fixes W H :: nat
  assumes "800 < W" "0 < H" "W < 2 ^ 32" "H < 2 ^ 32" "W < H"
  shows "targetDimensions W H = (js_mul 800 (js_div (real W) (real H)), 800)"
    and "js_mul 800 (js_div (real W) (real H)) < 800"
proof -
  have W: "0 < W" using assms(1) by simp
  have "800 < js_div 800 (js_div (real W) (real H))"
    using second_cap_iff[OF W assms(2-4)] assms(5) by simp
  then show "targetDimensions W H = (js_mul 800 (js_div (real W) (real H)), 800)"
    using assms(1,2) by (simp add: targetDimensions_def Let_def firstCap_def secondCap_def)
  have "js_mul 800 (js_div (real W) (real H)) \<le> 800 - 800 / 2 ^ 32"
    by (rule secondCap_width_below[OF aspectRatio_range(1)[OF W assms(2-4)]
          aspectRatio_tall[OF W assms(5,4)]])
  moreover have "(800::real) - 800 / 2 ^ 32 < 800" by simp
  ultimately show "js_mul 800 (js_div (real W) (real H)) < 800" by linarith
qed

lemma specTargetDimensions_wide:
  fixes W H :: nat
  assumes "800 < W" "0 < H" "H \<le> W"
  shows "specTargetDimensions W H = (800, real H * (800 / real W))"
proof -
  have "real H * (800 / real W) \<le> 800" using assms by (simp add: field_simps)
  then show ?thesis using assms by (simp add: specTargetDimensions_def Let_def)
qed

lemma specTargetDimensions_tall:
  fixes W H :: nat
  assumes "800 < W" "W < H"
  shows "specTargetDimensions W H = (800 * (real W / real H), 800)"
proof -
  have "800 < real H * (800 / real W)" using assms by (simp add: field_simps)
  then show ?thesis using assms by (simp add: specTargetDimensions_def Let_def)
qed

lemma targetDimensions_error:
  fixes W H :: nat
  assumes "800 < W" "0 < H" "W < 2 ^ 32" "H < 2 ^ 32"
  shows "\<bar>fst (targetDimensions W H) - fst (specTargetDimensions W H)\<bar>
           \<le> fst (specTargetDimensions W H) / 2 ^ 51"
    and "\<bar>snd (targetDimensions W H) - snd (specTargetDimensions W H)\<bar>
           \<le> snd (specTargetDimensions W H) / 2 ^ 51"
proof -
  have W: "0 < W" using assms(1) by simp
  have "\<bar>fst (targetDimensions W H) - fst (specTargetDimensions W H)\<bar>
           \<le> fst (specTargetDimensions W H) / 2 ^ 51
      \<and> \<bar>snd (targetDimensions W H) - snd (specTargetDimensions W H)\<bar>
           \<le> snd (specTargetDimensions W H) / 2 ^ 51"
  proof (cases "W < H")
    case True
    show ?thesis
      using secondCap_width_error[OF W assms(2-4)]
      by (simp add: targetDimensions_tall(1)[OF assms True] specTargetDimensions_tall[OF assms(1) True])
  next
    case False
    then have le: "H \<le> W" by simp
    show ?thesis
      using firstCap_height_error[OF W assms(2-4)]
      by (simp add: targetDimensions_wide[OF assms le] specTargetDimensions_wide[OF assms(1,2) le])
  qed
  then show "\<bar>fst (targetDimensions W H) - fst (specTargetDimensions W H)\<bar>
           \<le> fst (specTargetDimensions W H) / 2 ^ 51"
    and "\<bar>snd (targetDimensions W H) - snd (specTargetDimensions W H)\<bar>
           \<le> snd (specTargetDimensions W H) / 2 ^ 51" by simp_all
qed


lemma loadImage_canvas_size:
  assumes "fetch_blob env url = Inr blob" "500 * 1024 < blob_size blob"
    "image_load env blob = Some (W, H)"
  shows "CanvasSize (fst (targetDimensions W H)) (snd (targetDimensions W H))
           \<in> set (snd (loadImage env url))"
  using assms by (simp add: loadImage_def maxImageSize_def split: prod.splits)

subsection \<open>The caps on four images\<close>

lemma round_even_tie: "even n \<Longrightarrow> round_even (of_int n + 1 / 2) = n"
proof -
  have "\<lfloor>of_int n + (1::real) / 2\<rfloor> = n" by linarith
  then show "even n \<Longrightarrow> round_even (of_int n + 1 / 2) = n"
    by (simp add: round_even_def Let_def)
qed

lemma fl_tie_even:
  assumes "2 ^ 52 \<le> x * 2 ^ k" "x * 2 ^ k < 2 ^ 53" "k \<le> 1074"
    and "x * 2 ^ k = of_int m + 1 / 2" "even m"
  shows "fl x = of_int m / 2 ^ k"
  by (simp add: fl_scaled[OF assms(1-3)] assms(4) round_even_tie[OF assms(5)])

lemma aspectRatio_1600_2400: "js_div 1600 2400 = 6004799503160661 / 9007199254740992"
  unfolding js_div_def using fl_nearest[of "1600 / 2400" 53 6004799503160661] by simp

lemma firstCap_height_1600_2400: "js_div 800 (6004799503160661 / 9007199254740992) = 1200"
  unfolding js_div_def using fl_nearest[of "800 / (6004799503160661 / 9007199254740992)" 42 5277655813324800] by simp

lemma secondCap_width_1600_2400: "js_mul 800 (6004799503160661 / 9007199254740992) = 2345624805922133 / 4398046511104"
  unfolding js_mul_def using fl_nearest[of "800 * (6004799503160661 / 9007199254740992)" 43 4691249611844266] by simp

lemma aspectRatio_1600_1000: "js_div 1600 1000 = 3602879701896397 / 2251799813685248"
  unfolding js_div_def using fl_nearest[of "1600 / 1000" 52 7205759403792794] by simp

lemma firstCap_height_1600_1000: "js_div 800 (3602879701896397 / 2251799813685248) = 500"
  unfolding js_div_def using fl_nearest[of "800 / (3602879701896397 / 2251799813685248)" 44 8796093022208000] by simp

lemma aspectRatio_1360_768: "js_div 1360 768 = 7975124340135253 / 4503599627370496"
  unfolding js_div_def using fl_nearest[of "1360 / 768" 52 7975124340135253] by simp

lemma firstCap_height_1360_768: "js_div 800 (7975124340135253 / 4503599627370496) = 7947528754183229 / 17592186044416"
  unfolding js_div_def using fl_nearest[of "800 / (7975124340135253 / 4503599627370496)" 44 7947528754183229] by simp

lemma spec_scale_1360: "js_div 800 1360 = 5298352502788819 / 9007199254740992"
  unfolding js_div_def using fl_nearest[of "800 / 1360" 53 5298352502788819] by simp

lemma spec_width_1360_768: "js_mul 1360 (5298352502788819 / 9007199254740992) = 800"
  unfolding js_mul_def using fl_nearest[of "1360 * (5298352502788819 / 9007199254740992)" 43 7036874417766400] by simp

lemma spec_height_1360_768: "js_mul 768 (5298352502788819 / 9007199254740992) = 1986882188545807 / 4398046511104"
  unfolding js_mul_def using fl_tie_even[of "768 * (5298352502788819 / 9007199254740992)" 44 7947528754183228] by simp

lemma aspectRatio_1284_2778: "js_div 1284 2778 = 8326309462265971 / 18014398509481984"
  unfolding js_div_def using fl_nearest[of "1284 / 2778" 54 8326309462265971] by simp

lemma firstCap_height_1284_2778: "js_div 800 (8326309462265971 / 18014398509481984) = 3806159877833929 / 2199023255552"
  unfolding js_div_def using fl_nearest[of "800 / (8326309462265971 / 18014398509481984)" 42 7612319755667858] by simp

lemma secondCap_width_1284_2778: "js_mul 800 (8326309462265971 / 18014398509481984) = 3252464633697645 / 8796093022208"
  unfolding js_mul_def using fl_nearest[of "800 * (8326309462265971 / 18014398509481984)" 44 6504929267395290] by simp

lemma spec_scale_1284: "js_div 800 1284 = 5611962152486599 / 9007199254740992"
  unfolding js_div_def using fl_nearest[of "800 / 1284" 53 5611962152486599] by simp

lemma spec_width1_1284_2778: "js_mul 1284 (5611962152486599 / 9007199254740992) = 800"
  unfolding js_mul_def using fl_nearest[of "1284 * (5611962152486599 / 9007199254740992)" 43 7036874417766400] by simp

lemma spec_height1_1284_2778: "js_mul 2778 (5611962152486599 / 9007199254740992) = 7612319755667857 / 4398046511104"
  unfolding js_mul_def using fl_nearest[of "2778 * (5611962152486599 / 9007199254740992)" 42 7612319755667857] by simp

lemma spec_scale2_1284_2778: "js_div 800 (7612319755667857 / 4398046511104) = 2081577365566493 / 4503599627370496"
  unfolding js_div_def using fl_nearest[of "800 / (7612319755667857 / 4398046511104)" 54 8326309462265972] by simp

lemma spec_width2_1284_2778: "js_mul 800 (2081577365566493 / 4503599627370496) = 6504929267395291 / 17592186044416"
  unfolding js_mul_def using fl_nearest[of "800 * (2081577365566493 / 4503599627370496)" 44 6504929267395291] by simp

lemma spec_height2_1284_2778: "js_mul (7612319755667857 / 4398046511104) (2081577365566493 / 4503599627370496) = 800"
  unfolding js_mul_def using fl_nearest[of "(7612319755667857 / 4398046511104) * (2081577365566493 / 4503599627370496)" 43 7036874417766400] by simp

lemma targetDimensions_1600_2400:
  "targetDimensions 1600 2400 = (2345624805922133 / 4398046511104, 800)"
  by (simp add: targetDimensions_def firstCap_def secondCap_def aspectRatio_1600_2400
      firstCap_height_1600_2400 secondCap_width_1600_2400)

lemma targetDimensions_1600_1000: "targetDimensions 1600 1000 = (800, 500)"
  by (simp add: targetDimensions_def firstCap_def secondCap_def aspectRatio_1600_1000
      firstCap_height_1600_1000)

lemma targetDimensions_1360_768:
  "targetDimensions 1360 768 = (800, 7947528754183229 / 17592186044416)"
  by (simp add: targetDimensions_def firstCap_def secondCap_def aspectRatio_1360_768
      firstCap_height_1360_768)

lemma targetDimensions_1284_2778:
  "targetDimensions 1284 2778 = (3252464633697645 / 8796093022208, 800)"
  by (simp add: targetDimensions_def firstCap_def secondCap_def aspectRatio_1284_2778
      firstCap_height_1284_2778 secondCap_width_1284_2778)

lemma specTargetDimensions_js_1360_768:
  "specTargetDimensions_js 1360 768 = (800, 1986882188545807 / 4398046511104)"
  by (simp add: specTargetDimensions_js_def spec_scale_1360 spec_width_1360_768
      spec_height_1360_768)

lemma specTargetDimensions_js_1284_2778:
  "specTargetDimensions_js 1284 2778 = (6504929267395291 / 17592186044416, 800)"
  by (simp add: specTargetDimensions_js_def spec_scale_1284 spec_width1_1284_2778
      spec_height1_1284_2778 spec_scale2_1284_2778 spec_width2_1284_2778 spec_height2_1284_2778)

lemma specTargetDimensions_1360_768: "specTargetDimensions 1360 768 = (800, 7680 / 17)"
  by (simp add: specTargetDimensions_def)

lemma specTargetDimensions_1284_2778: "specTargetDimensions 1284 2778 = (171200 / 463, 800)"
  by (simp add: specTargetDimensions_def)

text \<open>
  Claim C3, amended. The numbers are doubles, and every quotient and product is rounded. For
  a blob of more than \<open>500 * 1024\<close> bytes that decodes to \<open>W\<close> by \<open>H\<close> with \<open>W > 800\<close> and
  \<open>H > 0\<close> (both below \<open>2 ^ 32\<close>, as the dimensions of an image are), the canvas gets the
  dimensions \<open>targetDimensions W H\<close>. The first cap gives the width 800, exactly, and the
  height \<open>800 / (W / H)\<close> in doubles, which is \<open>H * (800 / W)\<close> up to a relative error of
  \<open>1 / 2 ^ 51\<close>. That height exceeds 800 exactly when \<open>H * (800 / W)\<close> does. When it does not,
  the first cap gives the target dimensions; when it does, the target height is 800,
  exactly, and the target width is below 800. Each target dimension is that of the
  two-stage scaling of the specification up to a relative error of \<open>1 / 2 ^ 51\<close>.
\<close>

theorem two_cap_scaling_rounded:
  fixes W H :: nat
  assumes "fetch_blob env url = Inr blob" "500 * 1024 < blob_size blob"
    "image_load env blob = Some (W, H)" "800 < W" "0 < H" "W < 2 ^ 32" "H < 2 ^ 32"
  shows "CanvasSize (fst (targetDimensions W H)) (snd (targetDimensions W H))
           \<in> set (snd (loadImage env url))
       \<and> fst (firstCap (js_div (real W) (real H)) (real W, real H)) = 800
       \<and> \<bar>snd (firstCap (js_div (real W) (real H)) (real W, real H)) - real H * (800 / real W)\<bar>
            \<le> real H * (800 / real W) / 2 ^ 51
       \<and> (800 < snd (firstCap (js_div (real W) (real H)) (real W, real H)))
            = (800 < real H * (800 / real W))
       \<and> (snd (firstCap (js_div (real W) (real H)) (real W, real H)) \<le> 800 \<longrightarrow>
            targetDimensions W H = firstCap (js_div (real W) (real H)) (real W, real H))
       \<and> (800 < snd (firstCap (js_div (real W) (real H)) (real W, real H)) \<longrightarrow>
            snd (targetDimensions W H) = 800 \<and> fst (targetDimensions W H) < 800)
       \<and> \<bar>fst (targetDimensions W H) - fst (specTargetDimensions W H)\<bar>
            \<le> fst (specTargetDimensions W H) / 2 ^ 51
       \<and> \<bar>snd (targetDimensions W H) - snd (specTargetDimensions W H)\<bar>
            \<le> snd (specTargetDimensions W H) / 2 ^ 51"
proof -
  define h1 where "h1 = js_div 800 (js_div (real W) (real H))"
  have W: "0 < W" using assms(4) by simp
  have fc: "firstCap (js_div (real W) (real H)) (real W, real H) = (800, h1)"
    unfolding h1_def by (rule firstCap_wide[OF assms(4)])
  have iff: "(800 < h1) = (W < H)"
    unfolding h1_def by (rule second_cap_iff[OF W assms(5-7)])
  have exact: "(800 < real H * (800 / real W)) = (W < H)"
    using W by (simp add: field_simps)
  have c1: "CanvasSize (fst (targetDimensions W H)) (snd (targetDimensions W H))
           \<in> set (snd (loadImage env url))"
    by (rule loadImage_canvas_size[OF assms(1-3)])
  have c2: "\<bar>h1 - real H * (800 / real W)\<bar> \<le> real H * (800 / real W) / 2 ^ 51"
    unfolding h1_def by (rule firstCap_height_error[OF W assms(5-7)])
  have c3: "targetDimensions W H = (800, h1)" if "h1 \<le> 800"
  proof -
    have "H \<le> W" using that iff by simp
    then show ?thesis unfolding h1_def by (rule targetDimensions_wide[OF assms(4-7)])
  qed
  have c4: "snd (targetDimensions W H) = 800 \<and> fst (targetDimensions W H) < 800" if "800 < h1"
  proof -
    have "W < H" using that iff by simp
    then show ?thesis
      using targetDimensions_tall[OF assms(4-7)] by simp
  qed
  note c5 = targetDimensions_error[OF assms(4-7)]
  show ?thesis
    unfolding fc fst_conv snd_conv using c1 c2 c3 c4 c5 iff exact by blast
qed

theorem two_cap_scaling_rounded_witness:
  "fetch_blob largeImageEnv ''/Logo.png'' = Inr largeBlob
   \<and> 500 * 1024 < blob_size largeBlob
   \<and> image_load largeImageEnv largeBlob = Some (1600, 2400)
   \<and> firstCap (js_div 1600 2400) (1600, 2400) = (800, 1200)
   \<and> targetDimensions 1600 2400 = (2345624805922133 / 4398046511104, 800)
   \<and> specTargetDimensions 1600 2400 = (1600 / 3, 800)
   \<and> CanvasSize (2345624805922133 / 4398046511104) 800
        \<in> set (snd (loadImage largeImageEnv ''/Logo.png''))
   \<and> image_load wideImageEnv largeBlob = Some (1600, 1000)
   \<and> firstCap (js_div 1600 1000) (1600, 1000) = (800, 500)
   \<and> targetDimensions 1600 1000 = (800, 500)
   \<and> specTargetDimensions 1600 1000 = (800, 500)
   \<and> CanvasSize 800 500 \<in> set (snd (loadImage wideImageEnv ''/Logo.png''))"
proof -
  have s: "specTargetDimensions 1600 2400 = (1600 / 3, 800)"
    "specTargetDimensions 1600 1000 = (800, 500)"
    by (simp_all add: specTargetDimensions_def)
  have f: "firstCap (js_div 1600 2400) (1600, 2400) = (800, 1200)"
    "firstCap (js_div 1600 1000) (1600, 1000) = (800, 500)"
    by (simp_all add: firstCap_def aspectRatio_1600_2400 firstCap_height_1600_2400
        aspectRatio_1600_1000 firstCap_height_1600_1000)
  show ?thesis
    using two_cap_scaling_rounded[of largeImageEnv "''/Logo.png''" largeBlob 1600 2400]
      two_cap_scaling_rounded[of wideImageEnv "''/Logo.png''" largeBlob 1600 1000]
    by (simp add: largeImageEnv_simps wideImageEnv_simps blob_sizes s f
        targetDimensions_1600_2400 targetDimensions_1600_1000)
qed

text \<open>
  Claim C3 as worded fails at 1360 by 768 and at 1284 by 2778. At 1360 by 768 the canvas
  gets the height \<open>800 / (1360 / 768)\<close>, the double 451.764705882353, which is neither the
  real number \<open>768 * (800 / 1360)\<close> nor the double \<open>768 * (800 / 1360)\<close>, 451.7647058823529:
  the target dimensions are not those of the two-stage scaling, with real numbers or with
  doubles. At 1284 by 2778, where the second cap applies, the width is the double
  369.7624190064795 and that of the two-stage scaling in doubles 369.76241900647955.
\<close>

theorem two_cap_scaling_not_exact:
  "CanvasSize 800 (7947528754183229 / 17592186044416)
     \<in> set (snd (loadImage hdImageEnv ''/Logo.png''))
   \<and> targetDimensions 1360 768 = (800, 7947528754183229 / 17592186044416)
   \<and> snd (targetDimensions 1360 768) \<noteq> 768 * (800 / 1360)
   \<and> snd (targetDimensions 1360 768) \<noteq> js_mul 768 (js_div 800 1360)
   \<and> specTargetDimensions 1360 768 = (800, 7680 / 17)
   \<and> specTargetDimensions_js 1360 768 = (800, 1986882188545807 / 4398046511104)
   \<and> targetDimensions 1360 768 \<noteq> specTargetDimensions 1360 768
   \<and> targetDimensions 1360 768 \<noteq> specTargetDimensions_js 1360 768
   \<and> targetDimensions 1284 2778 = (3252464633697645 / 8796093022208, 800)
   \<and> specTargetDimensions 1284 2778 = (171200 / 463, 800)
   \<and> specTargetDimensions_js 1284 2778 = (6504929267395291 / 17592186044416, 800)
   \<and> targetDimensions 1284 2778 \<noteq> specTargetDimensions 1284 2778
   \<and> targetDimensions 1284 2778 \<noteq> specTargetDimensions_js 1284 2778"
proof -
  have "CanvasSize (fst (targetDimensions 1360 768)) (snd (targetDimensions 1360 768))
          \<in> set (snd (loadImage hdImageEnv ''/Logo.png''))"
    by (rule loadImage_canvas_size[of _ _ largeBlob]) (simp_all add: hdImageEnv_simps blob_sizes)
  then show ?thesis
    by (simp add: targetDimensions_1360_768 targetDimensions_1284_2778
        specTargetDimensions_1360_768 specTargetDimensions_1284_2778
        specTargetDimensions_js_1360_768 specTargetDimensions_js_1284_2778
        spec_scale_1360 spec_height_1360_768)
qed

section \<open>The notes list\<close>

lemma notes_of_builtDocument:
  "notes_of (builtDocument formData checkboxes language logoBase64 qrBase64 date1 date2) =
     map (\<lambda>note. sel note language) importantNotes"
  by (simp add: notes_of_def all_blocks_def composer_defs)

lemma notes_of_builtDocument_p3:
  "notes_of (builtDocument_p3 formData checkboxes language logoBase64 qrBase64) =
     map (\<lambda>note. sel note language) importantNotes_p3"
  by (simp add: notes_of_def all_blocks_def composer_p3_defs)

text \<open>
  Claim C9, as stated, fails: the notes list of the pre-service-only file
  (\<^verbatim>\<open>src/unnamed/part_003\<close>) does not have six items.
\<close>

theorem notes_p3_not_six:
  "length (notes_of (builtDocument_p3 emptyFormData uncheckedCheckboxes_p3 En [] [])) \<noteq> 6"
  by (simp add: notes_of_builtDocument_p3 importantNotes_p3_def)

text \<open>
  Claim C9, amended. The bulleted list of the produced document is the fixed list
  \<open>importantNotes\<close> of the file, each pair read at the language: nothing of the form or of the
  checklist enters it. The list of the full file has seven items, the list of the
  pre-service-only file has five.
\<close>

theorem notes_fixed_seven_and_five:
  "notes_of (builtDocument formData checkboxes language logoBase64 qrBase64 date1 date2) =
     map (\<lambda>note. sel note language) importantNotes
   \<and> length importantNotes = 7
   \<and> notes_of (builtDocument_p3 formData checkboxes_p3 language logoBase64 qrBase64) =
     map (\<lambda>note. sel note language) importantNotes_p3
   \<and> length importantNotes_p3 = 5"
  by (simp add: notes_of_builtDocument notes_of_builtDocument_p3 importantNotes_def
      importantNotes_p3_def)

section \<open>Table layouts\<close>

text \<open>The rule set \<open>lightHorizontalLines\<close> of both files.\<close>

lemma lightHorizontalLines_rules:
  "hLineWidth tableLayout_lightHorizontalLines 0 n = 0"
  "hLineWidth tableLayout_lightHorizontalLines n n = 0"
  "0 < i \<Longrightarrow> i < n \<Longrightarrow> hLineWidth tableLayout_lightHorizontalLines i n = 0.5"
  "vLineWidth tableLayout_lightHorizontalLines = 0"
  "hLineColor tableLayout_lightHorizontalLines = ''#E5E7EB''"
  "paddingLeft tableLayout_lightHorizontalLines = 0"
  "paddingRight tableLayout_lightHorizontalLines = 0"
  "paddingTop tableLayout_lightHorizontalLines = 8"
  "paddingBottom tableLayout_lightHorizontalLines = 8"
  by (simp_all add: tableLayout_lightHorizontalLines_def)

text \<open>
  In \<^verbatim>\<open>src/unnamed/part_003\<close> the tables are elements of the content array, and the pass
  gives each of them the rule set.
\<close>

lemma tables_p3_carry_rule_set:
  "map table_layout
     (tables (builtDocument_p3 formData checkboxes language logoBase64 qrBase64)) =
   [Some (LayoutObject tableLayout_lightHorizontalLines),
    Some (LayoutObject tableLayout_lightHorizontalLines),
    Some (LayoutObject tableLayout_lightHorizontalLines)]"
  by (simp add: tables_def all_blocks_def composer_p3_defs)

text \<open>
  Claim C8 fails in \<^verbatim>\<open>src/utils/generatePDF.ts\<close>: there every table stands inside an
  unbreakable stack, the pass visits the seven elements of the content array only, and the
  three tables of the produced document keep the layout name they were written with; none
  carries the rule set.
\<close>

theorem generatePDF_ts_tables_keep_layout_name:
  "map table_layout
     (tables (builtDocument formData checkboxes language logoBase64 qrBase64 date1 date2)) =
   [Some (LayoutName ''lightHorizontalLines''), Some (LayoutName ''lightHorizontalLines''),
    Some (LayoutName ''lightHorizontalLines'')]"
  by (simp add: tables_def all_blocks_def composer_defs)

section \<open>The font family\<close>

text \<open>
  In \<^verbatim>\<open>src/unnamed/part_003\<close> the default style names the family by the language, and no
  block and no named style names a family of its own.
\<close>

lemma font_p3_keyed_by_language:
  "font (defaultStyle (builtDocument_p3 formData checkboxes language logoBase64 qrBase64)) =
     Some (if language = En then ''Roboto'' else ''THSarabunNew'')
   \<and> list_all (\<lambda>b. font (block_props b) = None)
        (all_blocks (builtDocument_p3 formData checkboxes language logoBase64 qrBase64))
   \<and> list_all (\<lambda>(name, p). font p = None)
        (styles (builtDocument_p3 formData checkboxes language logoBase64 qrBase64))"
  by (simp add: all_blocks_def composer_p3_defs no_props_def docStyles_p3_def)

text \<open>
  Claim C6 fails in \<^verbatim>\<open>src/utils/generatePDF.ts\<close>: for the language \<open>Th\<close> the family of the
  produced document is \<open>Roboto\<close>, the Latin-script family, and \<open>Roboto\<close> is the only family
  that file registers.
\<close>

theorem generatePDF_ts_thai_font_is_Roboto:
  "font (defaultStyle (builtDocument formData checkboxes Th logoBase64 qrBase64 date1 date2)) =
     Some ''Roboto''
   \<and> map fst pdfMake_fonts = [''Roboto'']"
  by (simp add: composer_defs no_props_def pdfMake_fonts_def)

section \<open>Without a window\<close>

text \<open>
  Claim C10. When \<open>window\<close> is undefined, \<open>generatePDF\<close> resolves to null and has called
  nothing: no import, no fetch, no font registration, no \<open>createPdf\<close>. When \<open>window\<close> is
  defined it never resolves to null: it resolves to a document, rejects, or stays pending.
  This holds for both files.
\<close>

theorem generatePDF_null_iff_no_window:
  "(\<not> window_defined env \<longrightarrow>
      generatePDF env formData checkboxes language = (Resolved None, []) \<and>
      generatePDF_p3 env formData checkboxes_p3 language = (Resolved None, []))
   \<and> (window_defined env \<longrightarrow>
      fst (generatePDF env formData checkboxes language) \<noteq> Resolved None \<and>
      fst (generatePDF_p3 env formData checkboxes_p3 language) \<noteq> Resolved None)"
  by (auto simp: generatePDF_def generatePDF_p3_def renderPdf_def Let_def
      split: prod.splits promise.splits pdf_result.splits option.splits sum.splits)

theorem generatePDF_null_iff_no_window_witness:
  "\<not> window_defined serverEnv
   \<and> generatePDF serverEnv emptyFormData uncheckedCheckboxes En = (Resolved None, [])
   \<and> generatePDF_p3 serverEnv emptyFormData uncheckedCheckboxes_p3 En = (Resolved None, [])
   \<and> window_defined browserEnv
   \<and> fst (generatePDF browserEnv emptyFormData uncheckedCheckboxes En) \<noteq> Resolved None
   \<and> fst (generatePDF_p3 browserEnv emptyFormData uncheckedCheckboxes_p3 En) \<noteq> Resolved None"
  using generatePDF_null_iff_no_window
      [of serverEnv emptyFormData uncheckedCheckboxes En uncheckedCheckboxes_p3]
    generatePDF_null_iff_no_window
      [of browserEnv emptyFormData uncheckedCheckboxes En uncheckedCheckboxes_p3]
  by (simp add: serverEnv_def browserEnv_def)

section \<open>The safety-training label\<close>

lemma safety_row:
  "checkbox_rows (builtDocument formData checkboxes language logoBase64 qrBase64 date1 date2) ! 10 =
     (uncheckedGlyph @ (if safety_training checkboxes then checkmarkGlyph else []),
      cond language (safetyTrainingLabel formData))"
  by (simp add: checkbox_rows_def all_blocks_def composer_defs
      uncheckedGlyph_def checkmarkGlyph_def)

lemma safety_row_p3:
  "checkbox_rows (builtDocument_p3 formData checkboxes language logoBase64 qrBase64) ! 1 =
     (uncheckedGlyph @ (if safety_training checkboxes then checkmarkGlyph else []),
      cond language (safetyTrainingLabel_p3 formData))"
  by (simp add: checkbox_rows_def all_blocks_def composer_p3_defs
      uncheckedGlyph_def checkmarkGlyph_def)

lemma safety_label_split:
  "cond language (safetyTrainingLabel formData) =
     cond language (safetyTrainingLabel (formData\<lparr>training_hours := None\<rparr>)) @
     parenthetical language (training_hours formData)"
  by (cases language)
    (simp_all add: cond_def safetyTrainingLabel_def parenthetical_def unit_word_def truthy_def
      split: option.splits)

lemma safety_label_p3_split:
  "cond language (safetyTrainingLabel_p3 formData) =
     cond language (safetyTrainingLabel_p3 (formData\<lparr>training_hours := None\<rparr>)) @
     parenthetical language (training_hours formData)"
  by (cases language)
    (simp_all add: cond_def safetyTrainingLabel_p3_def parenthetical_def unit_word_def
      truthy_def split: option.splits)

lemma safety_prefix_no_parentheses:
  "CHR ''('' \<notin> set (cond language (safetyTrainingLabel (formData\<lparr>training_hours := None\<rparr>)))"
  "CHR '')'' \<notin> set (cond language (safetyTrainingLabel (formData\<lparr>training_hours := None\<rparr>)))"
  by (cases language; simp add: cond_def safetyTrainingLabel_def ascii_notin_utf8)+

lemma safety_prefix_p3_no_parentheses:
  "CHR ''('' \<notin> set (cond language (safetyTrainingLabel_p3 (formData\<lparr>training_hours := None\<rparr>)))"
  "CHR '')'' \<notin> set (cond language (safetyTrainingLabel_p3 (formData\<lparr>training_hours := None\<rparr>)))"
  by (cases language; simp add: cond_def safetyTrainingLabel_p3_def ascii_notin_utf8)+

lemma safety_prefix_fixed:
  "safetyTrainingLabel (formData\<lparr>training_hours := None\<rparr>) =
   safetyTrainingLabel (emptyFormData\<lparr>training_hours := None\<rparr>)"
  "safetyTrainingLabel_p3 (formData\<lparr>training_hours := None\<rparr>) =
   safetyTrainingLabel_p3 (emptyFormData\<lparr>training_hours := None\<rparr>)"
  by (simp_all add: safetyTrainingLabel_def safetyTrainingLabel_p3_def)

text \<open>
  Claim C7. In both files the row of the safety-training item (the eleventh checkbox row of
  the first file, the second of the second; its glyph follows the flag \<open>safety_training\<close>)
  has the label \<open>prefix @ parenthetical\<close>, where the prefix is fixed for the language and
  has no parenthesis in it, and the parenthetical is empty when \<open>training_hours\<close> is absent
  or the empty string, and otherwise is the value in parentheses followed by a space and
  the unit word of the language.
\<close>

theorem safety_training_label_parenthetical:
  "(\<exists>prefix. CHR ''('' \<notin> set prefix \<and> CHR '')'' \<notin> set prefix \<and>
      (\<forall>formData checkboxes logoBase64 qrBase64 date1 date2.
         checkbox_rows
           (builtDocument formData checkboxes language logoBase64 qrBase64 date1 date2) ! 10 =
         (uncheckedGlyph @ (if safety_training checkboxes then checkmarkGlyph else []),
          prefix @ parenthetical language (training_hours formData))))
   \<and> (\<exists>prefix. CHR ''('' \<notin> set prefix \<and> CHR '')'' \<notin> set prefix \<and>
      (\<forall>formData checkboxes logoBase64 qrBase64.
         checkbox_rows
           (builtDocument_p3 formData checkboxes language logoBase64 qrBase64) ! 1 =
         (uncheckedGlyph @ (if safety_training checkboxes then checkmarkGlyph else []),
          prefix @ parenthetical language (training_hours formData))))"
proof (intro conjI)
  let ?p = "cond language (safetyTrainingLabel (emptyFormData\<lparr>training_hours := None\<rparr>))"
  have "CHR ''('' \<notin> set ?p" "CHR '')'' \<notin> set ?p"
    by (rule safety_prefix_no_parentheses)+
  moreover have "checkbox_rows
           (builtDocument formData checkboxes language logoBase64 qrBase64 date1 date2) ! 10 =
         (uncheckedGlyph @ (if safety_training checkboxes then checkmarkGlyph else []),
          ?p @ parenthetical language (training_hours formData))"
    for formData checkboxes logoBase64 qrBase64 date1 date2
    using safety_label_split[of language formData] safety_prefix_fixed(1)[of formData]
    by (simp only: safety_row)
  ultimately show "\<exists>prefix. CHR ''('' \<notin> set prefix \<and> CHR '')'' \<notin> set prefix \<and>
      (\<forall>formData checkboxes logoBase64 qrBase64 date1 date2.
         checkbox_rows
           (builtDocument formData checkboxes language logoBase64 qrBase64 date1 date2) ! 10 =
         (uncheckedGlyph @ (if safety_training checkboxes then checkmarkGlyph else []),
          prefix @ parenthetical language (training_hours formData)))"
    by blast
next
  let ?p = "cond language (safetyTrainingLabel_p3 (emptyFormData\<lparr>training_hours := None\<rparr>))"
  have "CHR ''('' \<notin> set ?p" "CHR '')'' \<notin> set ?p"
    by (rule safety_prefix_p3_no_parentheses)+
  moreover have "checkbox_rows
           (builtDocument_p3 formData checkboxes language logoBase64 qrBase64) ! 1 =
         (uncheckedGlyph @ (if safety_training checkboxes then checkmarkGlyph else []),
          ?p @ parenthetical language (training_hours formData))"
    for formData checkboxes logoBase64 qrBase64
    using safety_label_p3_split[of language formData] safety_prefix_fixed(2)[of formData]
    by (simp only: safety_row_p3)
  ultimately show "\<exists>prefix. CHR ''('' \<notin> set prefix \<and> CHR '')'' \<notin> set prefix \<and>
      (\<forall>formData checkboxes logoBase64 qrBase64.
         checkbox_rows
           (builtDocument_p3 formData checkboxes language logoBase64 qrBase64) ! 1 =
         (uncheckedGlyph @ (if safety_training checkboxes then checkmarkGlyph else []),
          prefix @ parenthetical language (training_hours formData)))"
    by blast
qed

end
